theory Spec2Isabelle
  imports Main "HOL-Library.Monad_Syntax"
begin

section \<open>Register requirements for ARM and ARM64 (lsraarmarch.cpp)\<close>

text \<open>
  A shallow embedding of the per-node builders of \<^verbatim>\<open>src/coreclr/jit/lsraarmarch.cpp\<close>:
  \<^verbatim>\<open>BuildIndir\<close>, \<^verbatim>\<open>BuildCall\<close>, \<^verbatim>\<open>BuildPutArgStk\<close>, \<^verbatim>\<open>BuildPutArgSplit\<close>,
  \<^verbatim>\<open>BuildBlockStore\<close>, \<^verbatim>\<open>BuildCast\<close> and \<^verbatim>\<open>BuildSelect\<close>.

  Conventions of the embedding.
  \<^item> A builder is a function from the allocator state to \<open>(result, state) option\<close>.
    \<open>None\<close> is an aborted build: a failed \<^verbatim>\<open>assert\<close>, an \<^verbatim>\<open>unreached()\<close>, or the
    dereference of a null operand.
  \<^item> The preprocessor symbols \<^verbatim>\<open>TARGET_ARM\<close>, \<^verbatim>\<open>TARGET_ARM64\<close>, \<^verbatim>\<open>FEATURE_SIMD\<close> and
    \<^verbatim>\<open>SWIFT_SUPPORT\<close> are fields of the record \<open>Target\<close>, so that one definition covers
    both compilations of the file.
  \<^item> The requirement emitter (\<^verbatim>\<open>BuildUse\<close>, \<^verbatim>\<open>BuildDef\<close>, \<^verbatim>\<open>BuildKills\<close>,
    \<^verbatim>\<open>buildInternalIntRegisterDefForNode\<close>, ...) is declared in \<^verbatim>\<open>lsra.h\<close> and implemented
    outside this file. Each call of it appends one record, holding the arguments of the
    call, to the ordered sequence \<open>refPositions\<close> of the allocator state.
  \<^item> Register constants, type predicates, kill-set functions and the composite use
    builders (\<^verbatim>\<open>BuildOperandUses\<close> and its siblings) are parameters.
\<close>

subsection \<open>Register candidate sets\<close>

text \<open>
  Modelled from the spec: \<^verbatim>\<open>regNumber\<close>, \<^verbatim>\<open>SingleTypeRegSet\<close> and \<^verbatim>\<open>regMaskTP\<close> are declared
  outside this file. The spec describes them as a bitset abstraction over machine registers
  with no behaviour beyond set algebra: a register is a number and a mask is the set of
  the registers whose bit is set. \<^verbatim>\<open>&\<close> is \<open>\<inter>\<close>, \<^verbatim>\<open>|\<close> is \<open>\<union>\<close>, \<^verbatim>\<open>~\<close> is complement and
  \<^verbatim>\<open>RBM_NONE\<close> is the empty set.
\<close>

type_synonym regNumber = nat
type_synonym SingleTypeRegSet = "regNumber set"
type_synonym regMaskTP = "regNumber set"

abbreviation RBM_NONE :: "regNumber set" where
  "RBM_NONE \<equiv> {}"

text \<open>Modelled from the spec: \<^verbatim>\<open>genSingleTypeRegMask(reg)\<close>, the mask of one register.\<close>

definition genSingleTypeRegMask :: "regNumber \<Rightarrow> SingleTypeRegSet" where
  "genSingleTypeRegMask reg = {reg}"

text \<open>Modelled from the spec: \<^verbatim>\<open>genCountBits(mask)\<close>, the number of registers of a mask.\<close>

definition genCountBits :: "regMaskTP \<Rightarrow> nat" where
  "genCountBits regs = card regs"

text \<open>
  Modelled from the spec: the accessors \<^verbatim>\<open>GetIntRegSet()\<close>, \<^verbatim>\<open>GetFloatRegSet()\<close>,
  \<^verbatim>\<open>getLow()\<close> and \<^verbatim>\<open>GetRegSetForType(IntRegisterType)\<close> of \<^verbatim>\<open>regMaskTP\<close> read a mask as a
  candidate set of one register class; on a set of register numbers they change nothing.
\<close>

definition GetIntRegSet :: "regMaskTP \<Rightarrow> SingleTypeRegSet" where
  "GetIntRegSet regs = regs"

definition GetFloatRegSet :: "regMaskTP \<Rightarrow> SingleTypeRegSet" where
  "GetFloatRegSet regs = regs"

definition getLow :: "regMaskTP \<Rightarrow> SingleTypeRegSet" where
  "getLow regs = regs"

definition GetRegSetForType_Int :: "regMaskTP \<Rightarrow> SingleTypeRegSet" where
  "GetRegSetForType_Int regs = regs"

text \<open>Modelled from the spec: \<^verbatim>\<open>regMaskTP::AddRegNumInMask(reg)\<close> marks one more register.\<close>

definition AddRegNumInMask :: "regNumber \<Rightarrow> regMaskTP \<Rightarrow> regMaskTP" where
  "AddRegNumInMask reg regs = insert reg regs"

subsection \<open>IR nodes\<close>

text \<open>
  The node operators and types that the file names, and one more constructor for all
  the others.
\<close>

datatype genTreeOps =
    GT_IND | GT_STOREIND | GT_NULLCHECK | GT_LEA | GT_BLK | GT_STORE_BLK
  | GT_FIELD_LIST | GT_INIT_VAL | GT_LCL_VAR | GT_LCL_FLD | GT_LCL_ADDR
  | GT_PUTARG_STK | GT_PUTARG_SPLIT | GT_CALL | GT_CAST | GT_LONG
  | GT_SELECT | GT_SELECTCC | GT_OTHER nat

datatype var_types =
    TYP_UNDEF | TYP_VOID | TYP_INT | TYP_LONG | TYP_FLOAT | TYP_DOUBLE
  | TYP_STRUCT | TYP_SIMD12 | TYP_OTHER nat

datatype GenTreeFlag = GTF_IND_UNALIGNED | GTF_TLS_GET_ADDR

text \<open>
  The attributes of a node that the builders read. \<open>gtOffset\<close> is \<^verbatim>\<open>Offset()\<close> of an address
  mode; \<open>gtIsMultiRegOp\<close>, \<open>gtMultiRegCount\<close>, \<open>gtIsMultiRegNode\<close> and \<open>gtIsTlsIconHandle\<close>
  are the answers of \<^verbatim>\<open>OperIsMultiRegOp()\<close>, \<^verbatim>\<open>AsMultiRegOp()->GetRegCount()\<close>,
  \<^verbatim>\<open>IsMultiRegNode()\<close> and \<^verbatim>\<open>IsTlsIconHandle()\<close>.
\<close>

record GenTreeInfo =
  gtOper :: genTreeOps
  gtType :: var_types
  gtContained :: bool
  gtFlags :: "GenTreeFlag set"
  gtOffset :: int
  gtIsMultiRegOp :: bool
  gtMultiRegCount :: nat
  gtIsMultiRegNode :: bool
  gtIsTlsIconHandle :: bool

text \<open>
  A node with its two operand pointers (\<open>None\<close> is \<^verbatim>\<open>nullptr\<close>) and, for a
  \<^verbatim>\<open>GT_FIELD_LIST\<close>, its uses: the node and the type of each field.
\<close>

datatype GenTree =
  GenTree (gtInfo: GenTreeInfo) (gtOp1: "GenTree option") (gtOp2: "GenTree option")
          (gtFieldUses: "(GenTree \<times> var_types) list")

definition OperIs :: "GenTree \<Rightarrow> genTreeOps list \<Rightarrow> bool" where
  "OperIs tree opers = (gtOper (gtInfo tree) \<in> set opers)"

definition TypeGet :: "GenTree \<Rightarrow> var_types" where
  "TypeGet tree = gtType (gtInfo tree)"

definition TypeIs :: "GenTree \<Rightarrow> var_types \<Rightarrow> bool" where
  "TypeIs tree type = (gtType (gtInfo tree) = type)"

definition isContained :: "GenTree \<Rightarrow> bool" where
  "isContained tree = gtContained (gtInfo tree)"

text \<open>\<^verbatim>\<open>GenTreeIndir::Addr()\<close>, \<^verbatim>\<open>GenTreeStoreInd::Data()\<close> and \<^verbatim>\<open>GenTreeBlk::Data()\<close>.\<close>

definition Addr :: "GenTree \<Rightarrow> GenTree option" where
  "Addr tree = gtOp1 tree"

definition Data :: "GenTree \<Rightarrow> GenTree option" where
  "Data tree = gtOp2 tree"

text \<open>\<^verbatim>\<open>GenTreeAddrMode::Base()\<close>, \<^verbatim>\<open>Index()\<close> and \<^verbatim>\<open>Offset()\<close>.\<close>

definition Base :: "GenTree \<Rightarrow> GenTree option" where
  "Base tree = gtOp1 tree"

definition Index :: "GenTree \<Rightarrow> GenTree option" where
  "Index tree = gtOp2 tree"

definition Offset :: "GenTree \<Rightarrow> int" where
  "Offset tree = gtOffset (gtInfo tree)"

definition gtGetOp1 :: "GenTree \<Rightarrow> GenTree option" where
  "gtGetOp1 tree = gtOp1 tree"

text \<open>
  Modelled from the spec: \<^verbatim>\<open>OperIsAddrMode()\<close> and \<^verbatim>\<open>OperIsLocalRead()\<close> are declared outside
  this file. A contained addressing expression is a \<^verbatim>\<open>GT_LEA\<close> (the node \<^verbatim>\<open>AsAddrMode()\<close>
  reads); a local variable reference is a \<^verbatim>\<open>GT_LCL_VAR\<close> or a \<^verbatim>\<open>GT_LCL_FLD\<close>.
\<close>

definition OperIsAddrMode :: "GenTree \<Rightarrow> bool" where
  "OperIsAddrMode tree = OperIs tree [GT_LEA]"

definition OperIsLocalRead :: "GenTree \<Rightarrow> bool" where
  "OperIsLocalRead tree = OperIs tree [GT_LCL_VAR, GT_LCL_FLD]"

text \<open>The node classes with fields of their own; each holds its \<^verbatim>\<open>GenTree\<close> part.\<close>

datatype gtCallTypes = CT_USER_FUNC | CT_HELPER | CT_INDIRECT

record ReturnTypeDesc =
  GetReturnRegCount :: nat
  GetABIReturnRegs :: regMaskTP

record GenTreeCall =
  callNode :: GenTree
  gtControlExpr :: "GenTree option"
  gtCallAddr :: "GenTree option"
  gtCallType :: gtCallTypes
  HasMultiRegRetVal :: bool
  GetReturnTypeDesc :: ReturnTypeDesc
  IsFastTailCall :: bool
  IsR2ROrVirtualStubRelativeIndir :: bool
  NeedsNullCheck :: bool
  IsHelperCall_INIT_PINVOKE_FRAME :: bool
  CountArgs :: nat
  IsAsync :: bool
  HasSwiftErrorHandling :: bool

record GenTreePutArgStk =
  putArgNode :: GenTree
  GetStackByteSize :: nat

record GenTreePutArgSplit = GenTreePutArgStk +
  gtNumRegs :: nat
  GetRegNum :: regNumber
  gtRegNumByIdx :: "nat \<Rightarrow> regNumber option"

datatype BlkOpKind =
    BlkOpKindInvalid | BlkOpKindCpObjUnroll | BlkOpKindLoop | BlkOpKindUnroll
  | BlkOpKindUnrollMemmove

record GenTreeBlk =
  blkTree :: GenTree
  OperIsInitBlkOp :: bool
  gtBlkOpKind :: BlkOpKind
  Size :: nat

record GenTreeCast =
  castNode :: GenTree
  gtCastType :: var_types

record GenTreeConditional =
  selectNode :: GenTree
  gtCond :: "GenTree option"

text \<open>\<^verbatim>\<open>GenTreePutArgSplit::SetRegNumByIdx(reg, idx)\<close>.\<close>

definition SetRegNumByIdx :: "regNumber \<Rightarrow> nat \<Rightarrow> GenTreePutArgSplit \<Rightarrow> GenTreePutArgSplit" where
  "SetRegNumByIdx reg idx argNode = argNode\<lparr>gtRegNumByIdx := (gtRegNumByIdx argNode)(idx \<mapsto> reg)\<rparr>"

subsection \<open>Target, compiler and allocator\<close>

datatype Arch = TARGET_ARM | TARGET_ARM64

text \<open>
  The compilation target: the preprocessor symbols and the register constants of the
  target header, which is not part of this file.
\<close>

record Target =
  arch :: Arch
  FEATURE_SIMD :: bool
  SWIFT_SUPPORT :: bool
  RBM_INT_CALLEE_TRASH :: regMaskTP
  SRBM_LR :: SingleTypeRegSet
  REG_GSCOOKIE_TMP_0 :: regNumber
  REG_GSCOOKIE_TMP_1 :: regNumber
  RBM_PINVOKE_TCB :: regMaskTP
  RBM_FLOATRET :: regMaskTP
  RBM_LNGRET :: regMaskTP
  RBM_INTRET :: regMaskTP
  RBM_ALLFLOAT :: regMaskTP
  REG_R0 :: regNumber
  REG_R1 :: regNumber
  REG_R2 :: regNumber
  REG_WRITE_BARRIER_DST_BYREF :: regNumber
  REG_WRITE_BARRIER_SRC_BYREF :: regNumber

text \<open>
  Modelled from the spec: \<^verbatim>\<open>RBM_WRITE_BARRIER_DST_BYREF\<close> and \<^verbatim>\<open>RBM_WRITE_BARRIER_SRC_BYREF\<close>
  are constants of the target header. The spec calls them the fixed write-barrier-destination
  singleton and the fixed write-barrier-source singleton.
\<close>

definition RBM_WRITE_BARRIER_DST_BYREF :: "Target \<Rightarrow> regMaskTP" where
  "RBM_WRITE_BARRIER_DST_BYREF tgt = {REG_WRITE_BARRIER_DST_BYREF tgt}"

definition RBM_WRITE_BARRIER_SRC_BYREF :: "Target \<Rightarrow> regMaskTP" where
  "RBM_WRITE_BARRIER_SRC_BYREF tgt = {REG_WRITE_BARRIER_SRC_BYREF tgt}"

text \<open>
  Modelled from the spec: \<^verbatim>\<open>REGSIZE_BYTES\<close> and \<^verbatim>\<open>FP_REGSIZE_BYTES\<close> are constants of the
  target header. A machine word has 4 bytes on the 32-bit target and 8 bytes on the 64-bit
  target; one vector-register width is 16 bytes (the file reads it on the 64-bit target
  only).
\<close>

definition REGSIZE_BYTES :: "Target \<Rightarrow> nat" where
  "REGSIZE_BYTES tgt = (case arch tgt of TARGET_ARM \<Rightarrow> 4 | TARGET_ARM64 \<Rightarrow> 8)"

definition FP_REGSIZE_BYTES :: nat where
  "FP_REGSIZE_BYTES = 16"

text \<open>
  Modelled from the spec: \<^verbatim>\<open>isPow2\<close> is declared outside this file; it holds of an exact
  power of two of the 32-bit unsigned range.
\<close>

definition isPow2 :: "nat \<Rightarrow> bool" where
  "isPow2 i = (i \<in> set (map (\<lambda>k. 2 ^ k) [0..<32]))"

text \<open>
  The compiler instance: its flags, the emitter's encodability test and the type
  predicates, all declared outside this file.
\<close>

record Compiler =
  getNeedsGSSecurityCookie :: bool
  compIsAsync :: bool
  IsTargetAbi_NATIVEAOT :: bool
  TargetOS_IsUnix :: bool
  compAppleArm64Abi :: bool
  IsBaselineSimdIsaSupported :: bool
  emitIns_valid_imm_for_ldst_offset :: "int \<Rightarrow> nat \<Rightarrow> bool"
  emitTypeSize :: "GenTree \<Rightarrow> nat"
  varTypeUsesFloatArgReg :: "var_types \<Rightarrow> bool"
  varTypeIsFloating :: "var_types \<Rightarrow> bool"
  varTypeIsLong :: "var_types \<Rightarrow> bool"
  genActualType :: "var_types \<Rightarrow> var_types"

text \<open>
  A requirement record: one call of the requirement emitter with its arguments.
  \<open>Use node candidates multiRegIdx\<close> is an operand use; the internal (scratch) register
  reservations, the definitions, the kills and the fixed-register references are records
  of other kinds.
\<close>

datatype Requirement =
    Use GenTree SingleTypeRegSet nat
  | InternalIntDef GenTree SingleTypeRegSet
  | InternalFloatDef GenTree SingleTypeRegSet
  | InternalRegisterUses
  | Def GenTree SingleTypeRegSet
  | Defs GenTree int SingleTypeRegSet
  | Kills GenTree regMaskTP
  | DefWithKills GenTree SingleTypeRegSet regMaskTP
  | CallDefsWithKills GenTree int regMaskTP regMaskTP
  | FixedReg regNumber SingleTypeRegSet
  | AsyncContinuationBusy GenTree
  | SwiftErrorBusy GenTree

text \<open>The members of \<^verbatim>\<open>LinearScan\<close> that the builders read and write.\<close>

record LinearScan =
  refPositions :: "Requirement list"
  placedArgRegs :: regMaskTP
  numPlacedArgLocals :: nat
  setInternalRegsDelayFree :: bool
  availableIntRegs :: SingleTypeRegSet
  availableFloatRegs :: SingleTypeRegSet

text \<open>
  What a composite use builder does: the operand uses it emits, in order, each with its
  node, candidate set and register index, and the count it returns.
\<close>

type_synonym OperandUses = "(GenTree \<times> SingleTypeRegSet \<times> nat) list \<times> int"

text \<open>
  The members of \<^verbatim>\<open>LinearScan\<close> that are implemented outside this file and taken as
  parameters: the kill sets, the candidate sets \<^verbatim>\<open>allRegs(type)\<close> and
  \<^verbatim>\<open>internalFloatRegCandidates()\<close>, and the composite use builders.
\<close>

record LsraBuild =
  getKillSetForCall :: "GenTreeCall \<Rightarrow> regMaskTP"
  getKillSetForBlockStore :: "GenTreeBlk \<Rightarrow> regMaskTP"
  allRegs :: "var_types \<Rightarrow> SingleTypeRegSet"
  internalFloatRegCandidates :: SingleTypeRegSet
  BuildIndirUses :: "GenTree \<Rightarrow> OperandUses"
  BuildOperandUses :: "GenTree option \<Rightarrow> SingleTypeRegSet \<Rightarrow> OperandUses"
  BuildAddrUses :: "GenTree option \<Rightarrow> OperandUses"
  BuildCallArgUses :: "GenTreeCall \<Rightarrow> OperandUses"
  BuildCastUses :: "GenTreeCast \<Rightarrow> SingleTypeRegSet \<Rightarrow> OperandUses"

subsection \<open>The requirement emitter\<close>

text \<open>
  Modelled from the spec: the emitter's primitives are implemented outside this file. The
  spec has them record a use, a definition, an internal register or a kill set, in strict
  program order. Each primitive appends its record to \<open>refPositions\<close>.
\<close>

definition emit :: "Requirement \<Rightarrow> LinearScan \<Rightarrow> LinearScan" where
  "emit r ls = ls\<lparr>refPositions := refPositions ls @ [r]\<rparr>"

definition BuildUse :: "GenTree \<Rightarrow> SingleTypeRegSet \<Rightarrow> nat \<Rightarrow> LinearScan \<Rightarrow> LinearScan" where
  "BuildUse operand candidates multiRegIdx = emit (Use operand candidates multiRegIdx)"

definition buildInternalIntRegisterDefForNode ::
    "GenTree \<Rightarrow> SingleTypeRegSet \<Rightarrow> LinearScan \<Rightarrow> LinearScan" where
  "buildInternalIntRegisterDefForNode tree internalCands = emit (InternalIntDef tree internalCands)"

definition buildInternalFloatRegisterDefForNode ::
    "GenTree \<Rightarrow> SingleTypeRegSet \<Rightarrow> LinearScan \<Rightarrow> LinearScan" where
  "buildInternalFloatRegisterDefForNode tree internalCands =
     emit (InternalFloatDef tree internalCands)"

definition buildInternalRegisterUses :: "LinearScan \<Rightarrow> LinearScan" where
  "buildInternalRegisterUses = emit InternalRegisterUses"

definition BuildDef :: "GenTree \<Rightarrow> SingleTypeRegSet \<Rightarrow> LinearScan \<Rightarrow> LinearScan" where
  "BuildDef tree dstCandidates = emit (Def tree dstCandidates)"

definition BuildDefs :: "GenTree \<Rightarrow> int \<Rightarrow> SingleTypeRegSet \<Rightarrow> LinearScan \<Rightarrow> LinearScan" where
  "BuildDefs tree dstCount dstCandidates = emit (Defs tree dstCount dstCandidates)"

definition BuildKills :: "GenTree \<Rightarrow> regMaskTP \<Rightarrow> LinearScan \<Rightarrow> LinearScan" where
  "BuildKills tree killMask = emit (Kills tree killMask)"

definition BuildDefWithKills ::
    "GenTree \<Rightarrow> SingleTypeRegSet \<Rightarrow> regMaskTP \<Rightarrow> LinearScan \<Rightarrow> LinearScan" where
  "BuildDefWithKills tree dstCandidates killMask = emit (DefWithKills tree dstCandidates killMask)"

definition BuildCallDefsWithKills ::
    "GenTree \<Rightarrow> int \<Rightarrow> regMaskTP \<Rightarrow> regMaskTP \<Rightarrow> LinearScan \<Rightarrow> LinearScan" where
  "BuildCallDefsWithKills tree dstCount dstCandidates killMask =
     emit (CallDefsWithKills tree dstCount dstCandidates killMask)"

definition newRefPosition_FixedReg :: "regNumber \<Rightarrow> SingleTypeRegSet \<Rightarrow> LinearScan \<Rightarrow> LinearScan" where
  "newRefPosition_FixedReg reg regs = emit (FixedReg reg regs)"

definition MarkAsyncContinuationBusyForCall :: "GenTree \<Rightarrow> LinearScan \<Rightarrow> LinearScan" where
  "MarkAsyncContinuationBusyForCall call = emit (AsyncContinuationBusy call)"

definition MarkSwiftErrorBusyForCall :: "GenTree \<Rightarrow> LinearScan \<Rightarrow> LinearScan" where
  "MarkSwiftErrorBusyForCall call = emit (SwiftErrorBusy call)"

text \<open>
  A call of a composite use builder: its uses are appended in order and its count is
  returned.
\<close>

definition buildUses :: "OperandUses \<Rightarrow> LinearScan \<Rightarrow> int \<times> LinearScan" where
  "buildUses uses ls =
     (snd uses,
      ls\<lparr>refPositions := refPositions ls @ map (\<lambda>(node, candidates, idx). Use node candidates idx) (fst uses)\<rparr>)"

text \<open>\<^verbatim>\<open>assert(cond)\<close> and \<^verbatim>\<open>unreached()\<close>: a violated precondition aborts the build.\<close>

definition assertion :: "bool \<Rightarrow> unit option" where
  "assertion cond = (if cond then Some () else None)"

definition unreached :: "'a option" where
  "unreached = None"

subsection \<open>BuildIndir\<close>

text \<open>
  Lines 48 to 72, on \<^verbatim>\<open>TARGET_ARM\<close> only: an unaligned floating-point value is loaded or
  stored through one integer register (\<^verbatim>\<open>TYP_FLOAT\<close>) or two (\<^verbatim>\<open>TYP_DOUBLE\<close>).
\<close>

definition BuildIndir_unaligned :: "Target \<Rightarrow> GenTree \<Rightarrow> LinearScan \<Rightarrow> LinearScan option" where
  "BuildIndir_unaligned tgt indirTree ls =
     (if arch tgt = TARGET_ARM \<and> GTF_IND_UNALIGNED \<in> gtFlags (gtInfo indirTree) then do {
        type \<leftarrow> (if OperIs indirTree [GT_STOREIND]
                  then do { data \<leftarrow> Data indirTree; Some (TypeGet data) }
                  else if OperIs indirTree [GT_IND] then Some (TypeGet indirTree)
                  else Some TYP_UNDEF);
        if type = TYP_FLOAT then Some (buildInternalIntRegisterDefForNode indirTree RBM_NONE ls)
        else if type = TYP_DOUBLE
          then Some (buildInternalIntRegisterDefForNode indirTree RBM_NONE
                       (buildInternalIntRegisterDefForNode indirTree RBM_NONE ls))
        else Some ls
      } else Some ls)"

text \<open>
  Lines 74 to 95: a contained \<^verbatim>\<open>GT_LEA\<close> needs one internal register when it has both an
  index and an offset, or when its offset is not a valid immediate of the load or store.
\<close>

definition BuildIndir_addrMode :: "Compiler \<Rightarrow> GenTree \<Rightarrow> GenTree \<Rightarrow> LinearScan \<Rightarrow> LinearScan" where
  "BuildIndir_addrMode compiler indirTree addr ls =
     (if isContained addr then
        (if OperIs addr [GT_LEA] then
           (let lea = addr;
                index = Index lea;
                cns = Offset lea
            in if index \<noteq> None \<and> cns \<noteq> 0
                 then buildInternalIntRegisterDefForNode indirTree RBM_NONE ls
               else if \<not> emitIns_valid_imm_for_ldst_offset compiler cns (emitTypeSize compiler indirTree)
                 then buildInternalIntRegisterDefForNode indirTree RBM_NONE ls
               else ls)
         else ls)
      else ls)"

text \<open>Lines 97 to 107, under \<^verbatim>\<open>FEATURE_SIMD\<close>: one more integer register for \<^verbatim>\<open>TYP_SIMD12\<close>.\<close>

definition BuildIndir_simd12 :: "Target \<Rightarrow> GenTree \<Rightarrow> GenTree \<Rightarrow> LinearScan \<Rightarrow> LinearScan option" where
  "BuildIndir_simd12 tgt indirTree addr ls =
     (if FEATURE_SIMD tgt \<and> TypeIs indirTree TYP_SIMD12 then do {
        assertion (\<not> isContained addr);
        Some (buildInternalIntRegisterDefForNode indirTree RBM_NONE ls)
      } else Some ls)"

text \<open>
  \<^verbatim>\<open>int LinearScan::BuildIndir(GenTreeIndir* indirTree)\<close>: the three rules that reserve
  internal registers, in the order of the source, then the uses of the address, the uses
  of the internal registers and the definition.
\<close>

definition BuildIndir ::
    "Target \<Rightarrow> Compiler \<Rightarrow> LsraBuild \<Rightarrow> GenTree \<Rightarrow> LinearScan \<Rightarrow> (int \<times> LinearScan) option" where
  "BuildIndir tgt compiler lsra indirTree ls = do {
     assertion (\<not> TypeIs indirTree TYP_STRUCT);
     addr \<leftarrow> Addr indirTree;
     ls \<leftarrow> BuildIndir_unaligned tgt indirTree ls;
     let ls = BuildIndir_addrMode compiler indirTree addr ls;
     ls \<leftarrow> BuildIndir_simd12 tgt indirTree addr ls;
     let (srcCount, ls) = buildUses (BuildIndirUses lsra indirTree) ls;
     let ls = buildInternalRegisterUses ls;
     let ls = (if \<not> OperIs indirTree [GT_STOREIND, GT_NULLCHECK] then BuildDef indirTree RBM_NONE ls
               else ls);
     Some (srcCount, ls)
   }"

subsection \<open>BuildCall\<close>

text \<open>
  Lines 130 to 149: \<open>hasMultiRegRetVal\<close>, \<open>retTypeDesc\<close> and \<open>dstCount\<close>, from their
  initial values \<^verbatim>\<open>false\<close>, \<^verbatim>\<open>nullptr\<close> and \<^verbatim>\<open>0\<close>.
\<close>

definition BuildCall_dstCount :: "GenTreeCall \<Rightarrow> bool \<times> ReturnTypeDesc option \<times> int" where
  "BuildCall_dstCount call =
     (if \<not> TypeIs (callNode call) TYP_VOID then
        (if HasMultiRegRetVal call
           then (True, Some (GetReturnTypeDesc call), int (GetReturnRegCount (GetReturnTypeDesc call)))
           else (False, None, 1))
      else (False, None, 0))"

text \<open>
  Lines 151 to 160: the call target, \<^verbatim>\<open>gtControlExpr\<close> or, for an indirect call,
  \<^verbatim>\<open>gtCallAddr\<close>.
\<close>

definition BuildCall_ctrlExpr :: "GenTreeCall \<Rightarrow> GenTree option option" where
  "BuildCall_ctrlExpr call = do {
     let ctrlExpr = gtControlExpr call;
     if gtCallType call = CT_INDIRECT then do {
       assertion (ctrlExpr = None);
       assertion (gtCallAddr call \<noteq> None);
       Some (gtCallAddr call)
     } else Some ctrlExpr
   }"

text \<open>
  Lines 163 to 220: the candidates of the call target and the internal registers of the
  call. The last \<^verbatim>\<open>else\<close> branch and the null-check register exist on \<^verbatim>\<open>TARGET_ARM\<close> only.
  The result holds \<open>ctrlExprCandidates\<close>, whose initial value is \<^verbatim>\<open>RBM_NONE\<close>.
\<close>

definition BuildCall_target ::
    "Target \<Rightarrow> Compiler \<Rightarrow> LsraBuild \<Rightarrow> GenTreeCall \<Rightarrow> GenTree option \<Rightarrow> LinearScan \<Rightarrow>
     (SingleTypeRegSet \<times> LinearScan) option" where
  "BuildCall_target tgt compiler lsra call ctrlExpr ls = do {
     let ctrlExprCandidates = RBM_NONE;
     (ctrlExprCandidates, ls) \<leftarrow>
       (case ctrlExpr of
          Some target \<Rightarrow> do {
            assertion (\<not> TypeIs target TYP_VOID);
            if IsFastTailCall call then do {
              let ctrlExprCandidates =
                    allRegs lsra TYP_INT \<inter> GetIntRegSet (RBM_INT_CALLEE_TRASH tgt) \<inter> - SRBM_LR tgt;
              let ctrlExprCandidates =
                    (if getNeedsGSSecurityCookie compiler
                       then ctrlExprCandidates \<inter>
                              - (genSingleTypeRegMask (REG_GSCOOKIE_TMP_0 tgt) \<union>
                                 genSingleTypeRegMask (REG_GSCOOKIE_TMP_1 tgt))
                       else ctrlExprCandidates);
              assertion (ctrlExprCandidates \<noteq> RBM_NONE);
              Some (ctrlExprCandidates, ls)
            } else Some (ctrlExprCandidates, ls)
          }
        | None \<Rightarrow>
            if IsR2ROrVirtualStubRelativeIndir call then
              (if IsFastTailCall call then do {
                 let candidates = allRegs lsra TYP_INT \<inter> getLow (RBM_INT_CALLEE_TRASH tgt);
                 assertion (candidates \<noteq> RBM_NONE);
                 Some (ctrlExprCandidates, buildInternalIntRegisterDefForNode (callNode call) candidates ls)
               } else
                 Some (ctrlExprCandidates,
                       if arch tgt = TARGET_ARM
                         then buildInternalIntRegisterDefForNode (callNode call) RBM_NONE ls
                         else ls))
            else
              Some (ctrlExprCandidates,
                    if arch tgt = TARGET_ARM
                      then buildInternalIntRegisterDefForNode (callNode call) RBM_NONE ls
                      else ls));
     let ls = (if arch tgt = TARGET_ARM \<and> NeedsNullCheck call then
                 (let candidates = (if IsFastTailCall call then SRBM_LR tgt else RBM_NONE)
                  in buildInternalIntRegisterDefForNode (callNode call) candidates ls)
               else ls);
     Some (ctrlExprCandidates, ls)
   }"

text \<open>
  Lines 222 to 249: the candidates of a single return register, from their initial value
  \<^verbatim>\<open>RBM_NONE\<close>. The helper that returns in \<^verbatim>\<open>REG_PINVOKE_TCB\<close> exists on \<^verbatim>\<open>TARGET_ARM\<close> only.
\<close>

definition BuildCall_singleDstCandidates ::
    "Target \<Rightarrow> Compiler \<Rightarrow> GenTreeCall \<Rightarrow> bool \<Rightarrow> SingleTypeRegSet" where
  "BuildCall_singleDstCandidates tgt compiler call hasMultiRegRetVal =
     (let singleDstCandidates = RBM_NONE;
          registerType = TypeGet (callNode call)
      in if arch tgt = TARGET_ARM \<and> IsHelperCall_INIT_PINVOKE_FRAME call
           then GetIntRegSet (RBM_PINVOKE_TCB tgt)
         else if \<not> hasMultiRegRetVal then
           (if varTypeUsesFloatArgReg compiler registerType then GetFloatRegSet (RBM_FLOATRET tgt)
            else if registerType = TYP_LONG then GetIntRegSet (RBM_LNGRET tgt)
            else GetIntRegSet (RBM_INTRET tgt))
         else singleDstCandidates)"

text \<open>
  Lines 251 to 272: the uses of the arguments, then the use of the call target. The
  thread-local-storage sequence exists on \<^verbatim>\<open>TARGET_ARM64\<close> only.
\<close>

definition BuildCall_uses ::
    "Target \<Rightarrow> Compiler \<Rightarrow> LsraBuild \<Rightarrow> GenTreeCall \<Rightarrow> GenTree option \<Rightarrow> SingleTypeRegSet \<Rightarrow>
     int \<times> LinearScan \<Rightarrow> (int \<times> LinearScan) option" where
  "BuildCall_uses tgt compiler lsra call ctrlExpr ctrlExprCandidates acc =
     (case acc of (srcCount, ls) \<Rightarrow> do {
        let (argUses, ls) = buildUses (BuildCallArgUses lsra call) ls;
        let srcCount = srcCount + argUses;
        case ctrlExpr of
          Some target \<Rightarrow> do {
            (ctrlExprCandidates, ls) \<leftarrow>
              (if arch tgt = TARGET_ARM64 \<and> IsTargetAbi_NATIVEAOT compiler \<and> TargetOS_IsUnix compiler \<and>
                  CountArgs call = 0 \<and> gtIsTlsIconHandle (gtInfo target)
               then do {
                 assertion (GTF_TLS_GET_ADDR \<in> gtFlags (gtInfo (callNode call)));
                 let ls = newRefPosition_FixedReg (REG_R0 tgt) (genSingleTypeRegMask (REG_R0 tgt)) ls;
                 let ls = newRefPosition_FixedReg (REG_R1 tgt) (genSingleTypeRegMask (REG_R1 tgt)) ls;
                 Some (genSingleTypeRegMask (REG_R2 tgt), ls)
               } else Some (ctrlExprCandidates, ls));
            let ls = BuildUse target ctrlExprCandidates 0 ls;
            Some (srcCount + 1, ls)
          }
        | None \<Rightarrow> Some (srcCount, ls)
      })"

text \<open>
  Lines 276 to 301: the marking of the async continuation, then the definitions and the
  kills of the call.
\<close>

definition BuildCall_defsAndKills ::
    "Compiler \<Rightarrow> LsraBuild \<Rightarrow> GenTreeCall \<Rightarrow> bool \<Rightarrow> ReturnTypeDesc option \<Rightarrow> int \<Rightarrow>
     SingleTypeRegSet \<Rightarrow> LinearScan \<Rightarrow> LinearScan option" where
  "BuildCall_defsAndKills compiler lsra call hasMultiRegRetVal retTypeDesc dstCount singleDstCandidates ls = do {
     let ls = (if IsAsync call \<and> compIsAsync compiler \<and> \<not> IsFastTailCall call
                 then MarkAsyncContinuationBusyForCall (callNode call) ls
               else ls);
     let killMask = getKillSetForCall lsra call;
     if dstCount > 0 then
       (if hasMultiRegRetVal then do {
          desc \<leftarrow> retTypeDesc;
          let multiDstCandidates = GetABIReturnRegs desc;
          assertion (genCountBits multiDstCandidates > 0);
          Some (BuildCallDefsWithKills (callNode call) dstCount multiDstCandidates killMask ls)
        } else do {
          assertion (dstCount = 1);
          Some (BuildDefWithKills (callNode call) singleDstCandidates killMask ls)
        })
     else Some (BuildKills (callNode call) killMask ls)
   }"

text \<open>
  \<^verbatim>\<open>int LinearScan::BuildCall(GenTreeCall* call)\<close>: the parts above in the order of the
  source, then the Swift error register (under \<^verbatim>\<open>SWIFT_SUPPORT\<close>) and the reset of the
  placement state of lines 310 to 312.
\<close>

definition BuildCall ::
    "Target \<Rightarrow> Compiler \<Rightarrow> LsraBuild \<Rightarrow> GenTreeCall \<Rightarrow> LinearScan \<Rightarrow> (int \<times> LinearScan) option" where
  "BuildCall tgt compiler lsra call ls = do {
     let srcCount = 0;
     let (hasMultiRegRetVal, retTypeDesc, dstCount) = BuildCall_dstCount call;
     ctrlExpr \<leftarrow> BuildCall_ctrlExpr call;
     (ctrlExprCandidates, ls) \<leftarrow> BuildCall_target tgt compiler lsra call ctrlExpr ls;
     let singleDstCandidates = BuildCall_singleDstCandidates tgt compiler call hasMultiRegRetVal;
     (srcCount, ls) \<leftarrow> BuildCall_uses tgt compiler lsra call ctrlExpr ctrlExprCandidates (srcCount, ls);
     let ls = buildInternalRegisterUses ls;
     ls \<leftarrow> BuildCall_defsAndKills compiler lsra call hasMultiRegRetVal retTypeDesc dstCount
             singleDstCandidates ls;
     let ls = (if SWIFT_SUPPORT tgt \<and> HasSwiftErrorHandling call
                 then MarkSwiftErrorBusyForCall (callNode call) ls
               else ls);
     let ls = ls\<lparr>placedArgRegs := RBM_NONE, numPlacedArgLocals := 0\<rparr>;
     Some (srcCount, ls)
   }"

subsection \<open>BuildPutArgStk\<close>

text \<open>Lines 344 to 357: the loop over the uses of a \<^verbatim>\<open>GT_FIELD_LIST\<close>.\<close>

fun BuildPutArgStk_FieldList ::
    "Target \<Rightarrow> (GenTree \<times> var_types) list \<Rightarrow> int \<times> LinearScan \<Rightarrow> int \<times> LinearScan" where
  "BuildPutArgStk_FieldList tgt [] (srcCount, ls) = (srcCount, ls)"
| "BuildPutArgStk_FieldList tgt ((node, type) # uses) (srcCount, ls) =
     (let ls = BuildUse node RBM_NONE 0 ls;
          srcCount = srcCount + 1;
          ls = (if FEATURE_SIMD tgt \<and> type = TYP_SIMD12
                  then buildInternalIntRegisterDefForNode node RBM_NONE ls
                else ls)
      in BuildPutArgStk_FieldList tgt uses (srcCount, ls))"

text \<open>\<^verbatim>\<open>int LinearScan::BuildPutArgStk(GenTreePutArgStk* argNode)\<close>; \<^verbatim>\<open>Data()\<close> is its operand.\<close>

definition BuildPutArgStk ::
    "Target \<Rightarrow> Compiler \<Rightarrow> LsraBuild \<Rightarrow> GenTreePutArgStk \<Rightarrow> LinearScan \<Rightarrow> (int \<times> LinearScan) option" where
  "BuildPutArgStk tgt compiler lsra argNode ls = do {
     assertion (OperIs (putArgNode argNode) [GT_PUTARG_STK]);
     src \<leftarrow> gtGetOp1 (putArgNode argNode);
     let srcCount = 0;
     (srcCount, ls) \<leftarrow>
       (if TypeIs src TYP_STRUCT then
          (if OperIs src [GT_FIELD_LIST] then do {
             assertion (isContained src);
             Some (BuildPutArgStk_FieldList tgt (gtFieldUses src) (srcCount, ls))
           } else do {
             let ls = buildInternalIntRegisterDefForNode (putArgNode argNode) RBM_NONE ls;
             let ls = (if arch tgt = TARGET_ARM64
                         then buildInternalIntRegisterDefForNode (putArgNode argNode) RBM_NONE ls
                       else ls);
             assertion (isContained src);
             if OperIs src [GT_BLK] then Some (buildUses (BuildOperandUses lsra (Addr src) RBM_NONE) ls)
             else do {
               assertion (OperIs src [GT_LCL_VAR, GT_LCL_FLD]);
               Some (srcCount, ls)
             }
           })
        else do {
          assertion (\<not> isContained src);
          let (srcCount, ls) = buildUses (BuildOperandUses lsra (Some src) RBM_NONE) ls;
          let ls = (if FEATURE_SIMD tgt \<and> compAppleArm64Abi compiler \<and> GetStackByteSize argNode = 12
                      then buildInternalIntRegisterDefForNode (putArgNode argNode) RBM_NONE ls
                    else ls);
          Some (srcCount, ls)
        });
     let ls = buildInternalRegisterUses ls;
     Some (srcCount, ls)
   }"

subsection \<open>BuildPutArgSplit\<close>

text \<open>
  Lines 424 to 429: the loop that collects \<open>argMask\<close> and records the register of each
  destination slot on the node.
\<close>

function BuildPutArgSplit_argMask ::
    "regNumber \<Rightarrow> nat \<Rightarrow> SingleTypeRegSet \<times> GenTreePutArgSplit \<Rightarrow> SingleTypeRegSet \<times> GenTreePutArgSplit" where
  "BuildPutArgSplit_argMask argReg i (argMask, argNode) =
     (if i < gtNumRegs argNode then
        (let thisArgReg = argReg + i;
             argMask = argMask \<union> genSingleTypeRegMask thisArgReg;
             argNode = SetRegNumByIdx thisArgReg i argNode
         in BuildPutArgSplit_argMask argReg (i + 1) (argMask, argNode))
      else (argMask, argNode))"
  by pat_completeness auto
termination
  by (relation "measure (\<lambda>(argReg, i, argMask, argNode). gtNumRegs argNode - i)")
     (auto simp: SetRegNumByIdx_def)

declare BuildPutArgSplit_argMask.simps [simp del]

text \<open>
  Lines 463 to 478: the loop over the registers of one field. A slot whose ordinal
  \<open>sourceRegCount\<close> is below \<open>gtNumRegs\<close> is bound to its argument register, which is added
  to \<open>placedArgRegs\<close>; a later slot is built with no candidates.
\<close>

function BuildPutArgSplit_FieldRegs ::
    "GenTreePutArgSplit \<Rightarrow> regNumber \<Rightarrow> GenTree \<Rightarrow> nat \<Rightarrow> nat \<Rightarrow> nat \<times> LinearScan \<Rightarrow> nat \<times> LinearScan" where
  "BuildPutArgSplit_FieldRegs argNode argReg node currentRegCount regIndex (sourceRegCount, ls) =
     (if regIndex < currentRegCount then
        (let ls = (if sourceRegCount < gtNumRegs argNode then
                     (let nextArgReg = argReg + sourceRegCount;
                          sourceMask = genSingleTypeRegMask nextArgReg;
                          ls = BuildUse node sourceMask regIndex ls
                      in ls\<lparr>placedArgRegs := AddRegNumInMask nextArgReg (placedArgRegs ls)\<rparr>)
                   else BuildUse node RBM_NONE regIndex ls);
             sourceRegCount = sourceRegCount + 1
         in BuildPutArgSplit_FieldRegs argNode argReg node currentRegCount (regIndex + 1)
              (sourceRegCount, ls))
      else (sourceRegCount, ls))"
  by pat_completeness auto
termination
  by (relation "measure (\<lambda>(argNode, argReg, node, currentRegCount, regIndex, acc). currentRegCount - regIndex)")
     auto

declare BuildPutArgSplit_FieldRegs.simps [simp del]

text \<open>Lines 444 to 479: the loop over the uses of the \<^verbatim>\<open>GT_FIELD_LIST\<close>.\<close>

fun BuildPutArgSplit_FieldList ::
    "Target \<Rightarrow> GenTreePutArgSplit \<Rightarrow> regNumber \<Rightarrow> (GenTree \<times> var_types) list \<Rightarrow>
     nat \<times> LinearScan \<Rightarrow> (nat \<times> LinearScan) option" where
  "BuildPutArgSplit_FieldList tgt argNode argReg [] (sourceRegCount, ls) = Some (sourceRegCount, ls)"
| "BuildPutArgSplit_FieldList tgt argNode argReg ((node, type) # uses) (sourceRegCount, ls) = do {
     assertion (\<not> isContained node);
     currentRegCount \<leftarrow>
       (if arch tgt = TARGET_ARM \<and> gtIsMultiRegOp (gtInfo node)
          then Some (gtMultiRegCount (gtInfo node))
        else do {
          assertion (\<not> gtIsMultiRegNode (gtInfo node));
          Some 1
        });
     BuildPutArgSplit_FieldList tgt argNode argReg uses
       (BuildPutArgSplit_FieldRegs argNode argReg node currentRegCount 0 (sourceRegCount, ls))
   }"

text \<open>
  \<^verbatim>\<open>int LinearScan::BuildPutArgSplit(GenTreePutArgSplit* argNode)\<close>. The node is returned
  with the registers that \<^verbatim>\<open>SetRegNumByIdx\<close> recorded on it.
\<close>

definition BuildPutArgSplit ::
    "Target \<Rightarrow> Compiler \<Rightarrow> LsraBuild \<Rightarrow> GenTreePutArgSplit \<Rightarrow> LinearScan \<Rightarrow>
     (int \<times> GenTreePutArgSplit \<times> LinearScan) option" where
  "BuildPutArgSplit tgt compiler lsra argNode ls = do {
     let srcCount = 0;
     assertion (OperIs (putArgNode argNode) [GT_PUTARG_SPLIT]);
     src \<leftarrow> gtGetOp1 (putArgNode argNode);
     let dstCount = int (gtNumRegs argNode);
     let argReg = GetRegNum argNode;
     let (argMask, argNode) = BuildPutArgSplit_argMask argReg 0 (RBM_NONE, argNode);
     assertion (argMask = RBM_NONE \<or> argMask \<inter> availableIntRegs ls \<noteq> RBM_NONE \<or>
                argMask \<inter> availableFloatRegs ls \<noteq> RBM_NONE);
     (srcCount, ls) \<leftarrow>
       (if OperIs src [GT_FIELD_LIST] then do {
          (sourceRegCount, ls) \<leftarrow>
            BuildPutArgSplit_FieldList tgt argNode argReg (gtFieldUses src) (0, ls);
          let srcCount = srcCount + int sourceRegCount;
          assertion (isContained src);
          Some (srcCount, ls)
        } else do {
          assertion (TypeIs src TYP_STRUCT \<and> isContained src);
          if OperIs src [GT_BLK] then do {
            let ls = (if gtNumRegs argNode = 1
                        then buildInternalIntRegisterDefForNode (putArgNode argNode)
                               (allRegs lsra TYP_INT \<inter> - argMask) ls
                      else ls);
            Some (buildUses (BuildOperandUses lsra (Addr src) RBM_NONE) ls)
          } else do {
            assertion (OperIsLocalRead src);
            Some (srcCount, ls)
          }
        });
     let ls = buildInternalRegisterUses ls;
     let ls = BuildDefs (putArgNode argNode) dstCount argMask ls;
     Some (srcCount, argNode, ls)
   }"

subsection \<open>BuildBlockStore\<close>

text \<open>
  Lines 543 to 571: the strategies of a block initialisation. The register reservations
  of \<^verbatim>\<open>BlkOpKindUnroll\<close> exist on \<^verbatim>\<open>TARGET_ARM64\<close> only.
\<close>

definition BuildBlockStore_InitBlk ::
    "Target \<Rightarrow> LsraBuild \<Rightarrow> GenTreeBlk \<Rightarrow> GenTree \<Rightarrow> nat \<Rightarrow> LinearScan \<Rightarrow> LinearScan option" where
  "BuildBlockStore_InitBlk tgt lsra blkNode dstAddr blkSize ls =
     (case gtBlkOpKind blkNode of
        BlkOpKindUnroll \<Rightarrow>
          (if arch tgt = TARGET_ARM64 then
             (let ls = (if isContained dstAddr
                          then buildInternalIntRegisterDefForNode (blkTree blkNode) RBM_NONE ls
                        else ls);
                  ls = (if blkSize > FP_REGSIZE_BYTES
                          then buildInternalFloatRegisterDefForNode (blkTree blkNode)
                                 (internalFloatRegCandidates lsra) ls
                        else ls)
              in Some ls)
           else Some ls)
      | BlkOpKindLoop \<Rightarrow>
          Some (buildInternalIntRegisterDefForNode (blkTree blkNode) (availableIntRegs ls) ls)
      | _ \<Rightarrow> unreached)"

text \<open>
  Lines 583 to 619: \<^verbatim>\<open>BlkOpKindCpObjUnroll\<close>, the copy with write barriers. The result
  holds \<open>dstAddrRegMask\<close> and \<open>srcRegMask\<close>.
\<close>

definition BuildBlockStore_CpObjUnroll ::
    "Target \<Rightarrow> Compiler \<Rightarrow> LsraBuild \<Rightarrow> GenTreeBlk \<Rightarrow> GenTree option \<Rightarrow> nat \<Rightarrow> LinearScan \<Rightarrow>
     (SingleTypeRegSet \<times> SingleTypeRegSet \<times> LinearScan) option" where
  "BuildBlockStore_CpObjUnroll tgt compiler lsra blkNode srcAddrOrFill blkSize ls = do {
     let internalIntCandidates =
           allRegs lsra TYP_INT \<inter>
           - GetRegSetForType_Int (RBM_WRITE_BARRIER_DST_BYREF tgt \<union> RBM_WRITE_BARRIER_SRC_BYREF tgt);
     let ls = buildInternalIntRegisterDefForNode (blkTree blkNode) internalIntCandidates ls;
     let ls = (if blkSize \<ge> 2 * REGSIZE_BYTES tgt
                 then buildInternalIntRegisterDefForNode (blkTree blkNode) internalIntCandidates ls
               else ls);
     let ls = (if blkSize \<ge> 4 * REGSIZE_BYTES tgt \<and> IsBaselineSimdIsaSupported compiler
                 then buildInternalFloatRegisterDefForNode (blkTree blkNode) (internalFloatRegCandidates lsra)
                        (buildInternalFloatRegisterDefForNode (blkTree blkNode)
                           (internalFloatRegCandidates lsra) ls)
               else ls);
     let dstAddrRegMask = GetIntRegSet (RBM_WRITE_BARRIER_DST_BYREF tgt);
     case srcAddrOrFill of
       Some srcAddr \<Rightarrow> do {
         assertion (\<not> isContained srcAddr);
         Some (dstAddrRegMask, GetIntRegSet (RBM_WRITE_BARRIER_SRC_BYREF tgt), ls)
       }
     | None \<Rightarrow> Some (dstAddrRegMask, RBM_NONE, ls)
   }"

text \<open>
  Lines 621 to 663: \<^verbatim>\<open>BlkOpKindUnroll\<close> of a block copy. All but the first reservation
  exist on \<^verbatim>\<open>TARGET_ARM64\<close> only.
\<close>

definition BuildBlockStore_Unroll ::
    "Target \<Rightarrow> LsraBuild \<Rightarrow> GenTreeBlk \<Rightarrow> GenTree \<Rightarrow> GenTree \<Rightarrow> GenTree option \<Rightarrow> nat \<Rightarrow>
     LinearScan \<Rightarrow> LinearScan" where
  "BuildBlockStore_Unroll tgt lsra blkNode dstAddr src srcAddrOrFill blkSize ls =
     (let ls = buildInternalIntRegisterDefForNode (blkTree blkNode) RBM_NONE ls in
      if arch tgt = TARGET_ARM64 then
        (let canUseLoadStorePairIntRegsInstrs = (blkSize \<ge> 2 * REGSIZE_BYTES tgt);
             ls = (if canUseLoadStorePairIntRegsInstrs
                     then buildInternalIntRegisterDefForNode (blkTree blkNode) RBM_NONE ls
                   else ls);
             isSrcAddrLocal =
               (OperIs src [GT_LCL_VAR, GT_LCL_FLD] \<or>
                (case srcAddrOrFill of None \<Rightarrow> False | Some srcAddr \<Rightarrow> OperIs srcAddr [GT_LCL_ADDR]));
             isDstAddrLocal = OperIs dstAddr [GT_LCL_ADDR];
             canUse16ByteWideInstrs = (blkSize \<ge> 2 * FP_REGSIZE_BYTES);
             ls = (if canUse16ByteWideInstrs
                     then buildInternalFloatRegisterDefForNode (blkTree blkNode)
                            (internalFloatRegCandidates lsra)
                            (buildInternalFloatRegisterDefForNode (blkTree blkNode)
                               (internalFloatRegCandidates lsra) ls)
                   else ls);
             srcAddrMayNeedReg =
               (isSrcAddrLocal \<or>
                (case srcAddrOrFill of None \<Rightarrow> False | Some srcAddr \<Rightarrow> isContained srcAddr));
             dstAddrMayNeedReg = (isDstAddrLocal \<or> isContained dstAddr)
         in if srcAddrMayNeedReg \<and> dstAddrMayNeedReg
              then buildInternalIntRegisterDefForNode (blkTree blkNode) RBM_NONE ls
            else ls)
      else ls)"

text \<open>Lines 685 to 690: one vector register for each \<open>i\<close> below \<open>simdRegs\<close>.\<close>

function BuildBlockStore_simdRegs :: "LsraBuild \<Rightarrow> GenTreeBlk \<Rightarrow> nat \<Rightarrow> nat \<Rightarrow> LinearScan \<Rightarrow> LinearScan" where
  "BuildBlockStore_simdRegs lsra blkNode simdRegs i ls =
     (if i < simdRegs then
        BuildBlockStore_simdRegs lsra blkNode simdRegs (i + 1)
          (buildInternalFloatRegisterDefForNode (blkTree blkNode) (internalFloatRegCandidates lsra) ls)
      else ls)"
  by pat_completeness auto
termination
  by (relation "measure (\<lambda>(lsra, blkNode, simdRegs, i, ls). simdRegs - i)") auto

declare BuildBlockStore_simdRegs.simps [simp del]

text \<open>
  Lines 665 to 707: \<^verbatim>\<open>BlkOpKindUnrollMemmove\<close>. \<open>blkSize\<close> is the \<^verbatim>\<open>unsigned size\<close> of the source; the quotient, the
  remainder and the increment of \<open>simdRegs\<close> cannot wrap. The strategy is \<^verbatim>\<open>unreached()\<close>
  on \<^verbatim>\<open>TARGET_ARM\<close>.
\<close>

definition BuildBlockStore_UnrollMemmove ::
    "Target \<Rightarrow> LsraBuild \<Rightarrow> GenTreeBlk \<Rightarrow> nat \<Rightarrow> LinearScan \<Rightarrow> LinearScan option" where
  "BuildBlockStore_UnrollMemmove tgt lsra blkNode blkSize ls =
     (if arch tgt = TARGET_ARM64 then do {
        assertion (blkSize > 0);
        let simdSize = FP_REGSIZE_BYTES;
        if blkSize \<ge> simdSize then do {
          let simdRegs = blkSize div simdSize;
          let simdRegs = (if blkSize mod simdSize \<noteq> 0 then simdRegs + 1 else simdRegs);
          Some (BuildBlockStore_simdRegs lsra blkNode simdRegs 0 ls)
        }
        else if isPow2 blkSize then
          Some (buildInternalIntRegisterDefForNode (blkTree blkNode) (availableIntRegs ls) ls)
        else
          Some (buildInternalIntRegisterDefForNode (blkTree blkNode) (availableIntRegs ls)
                  (buildInternalIntRegisterDefForNode (blkTree blkNode) (availableIntRegs ls) ls))
      } else unreached)"

text \<open>
  Lines 720 to 743: the uses of the destination address and of the source address or
  fill value.
\<close>

definition BuildBlockStore_AddrUse ::
    "LsraBuild \<Rightarrow> GenTree \<Rightarrow> SingleTypeRegSet \<Rightarrow> int \<times> LinearScan \<Rightarrow> int \<times> LinearScan" where
  "BuildBlockStore_AddrUse lsra addr regMask acc =
     (case acc of (useCount, ls) \<Rightarrow>
        if \<not> isContained addr then (useCount + 1, BuildUse addr regMask 0 ls)
        else if OperIsAddrMode addr then
          (let (baseUses, ls) = buildUses (BuildAddrUses lsra (Base addr)) ls
           in (useCount + baseUses, ls))
        else (useCount, ls))"

text \<open>
  Lines 533 to 712: the choice of the strategy. The result holds \<open>srcAddrOrFill\<close>,
  \<open>dstAddrRegMask\<close> and \<open>srcRegMask\<close>; the masks are \<^verbatim>\<open>RBM_NONE\<close> unless the strategy
  sets them.
\<close>

definition BuildBlockStore_strategy ::
    "Target \<Rightarrow> Compiler \<Rightarrow> LsraBuild \<Rightarrow> GenTreeBlk \<Rightarrow> GenTree \<Rightarrow> GenTree \<Rightarrow> nat \<Rightarrow> LinearScan \<Rightarrow>
     (GenTree option \<times> SingleTypeRegSet \<times> SingleTypeRegSet \<times> LinearScan) option" where
  "BuildBlockStore_strategy tgt compiler lsra blkNode dstAddr src blkSize ls =
     (if OperIsInitBlkOp blkNode then do {
        srcAddrOrFill \<leftarrow> (if OperIs src [GT_INIT_VAL] then do {
                            assertion (isContained src);
                            Some (gtGetOp1 src)
                          } else Some (Some src));
        ls \<leftarrow> BuildBlockStore_InitBlk tgt lsra blkNode dstAddr blkSize ls;
        Some (srcAddrOrFill, RBM_NONE, RBM_NONE, ls)
      } else do {
        srcAddrOrFill \<leftarrow> (if OperIs src [GT_IND] then do {
                            assertion (isContained src);
                            Some (Addr src)
                          } else Some None);
        case gtBlkOpKind blkNode of
          BlkOpKindCpObjUnroll \<Rightarrow> do {
            (dstAddrRegMask, srcRegMask, ls) \<leftarrow>
              BuildBlockStore_CpObjUnroll tgt compiler lsra blkNode srcAddrOrFill blkSize ls;
            Some (srcAddrOrFill, dstAddrRegMask, srcRegMask, ls)
          }
        | BlkOpKindUnroll \<Rightarrow>
            Some (srcAddrOrFill, RBM_NONE, RBM_NONE,
                  BuildBlockStore_Unroll tgt lsra blkNode dstAddr src srcAddrOrFill blkSize ls)
        | BlkOpKindUnrollMemmove \<Rightarrow> do {
            ls \<leftarrow> BuildBlockStore_UnrollMemmove tgt lsra blkNode blkSize ls;
            Some (srcAddrOrFill, RBM_NONE, RBM_NONE, ls)
          }
        | _ \<Rightarrow> unreached
      })"

text \<open>
  \<^verbatim>\<open>int LinearScan::BuildBlockStore(GenTreeBlk* blkNode)\<close>: the strategy, the register for
  the block size (\<open>sizeRegMask\<close> is never set), the uses of the two addresses, the uses of
  the internal registers and the kills.
\<close>

definition BuildBlockStore ::
    "Target \<Rightarrow> Compiler \<Rightarrow> LsraBuild \<Rightarrow> GenTreeBlk \<Rightarrow> LinearScan \<Rightarrow> (int \<times> LinearScan) option" where
  "BuildBlockStore tgt compiler lsra blkNode ls = do {
     dstAddr \<leftarrow> Addr (blkTree blkNode);
     src \<leftarrow> Data (blkTree blkNode);
     let blkSize = Size blkNode;
     let sizeRegMask = RBM_NONE;
     (srcAddrOrFill, dstAddrRegMask, srcRegMask, ls) \<leftarrow>
       BuildBlockStore_strategy tgt compiler lsra blkNode dstAddr src blkSize ls;
     let ls = (if sizeRegMask \<noteq> RBM_NONE
                 then buildInternalIntRegisterDefForNode (blkTree blkNode) sizeRegMask ls
               else ls);
     let useCount = 0;
     let (useCount, ls) = BuildBlockStore_AddrUse lsra dstAddr dstAddrRegMask (useCount, ls);
     let (useCount, ls) =
           (case srcAddrOrFill of
              Some srcAddr \<Rightarrow> BuildBlockStore_AddrUse lsra srcAddr srcRegMask (useCount, ls)
            | None \<Rightarrow> (useCount, ls));
     let ls = buildInternalRegisterUses ls;
     let killMask = getKillSetForBlockStore lsra blkNode;
     let ls = BuildKills (blkTree blkNode) killMask ls;
     Some (useCount, ls)
   }"

subsection \<open>BuildCast and BuildSelect\<close>

text \<open>
  \<^verbatim>\<open>int LinearScan::BuildCast(GenTreeCast* cast)\<close>. The assertion and the floating-point
  temporary exist on \<^verbatim>\<open>TARGET_ARM\<close> only.
\<close>

definition BuildCast ::
    "Target \<Rightarrow> Compiler \<Rightarrow> LsraBuild \<Rightarrow> GenTreeCast \<Rightarrow> LinearScan \<Rightarrow> (int \<times> LinearScan) option" where
  "BuildCast tgt compiler lsra cast ls = do {
     src \<leftarrow> gtGetOp1 (castNode cast);
     let srcType = genActualType compiler (TypeGet src);
     let castType = gtCastType cast;
     ls \<leftarrow> (if arch tgt = TARGET_ARM then do {
              assertion (\<not> varTypeIsLong compiler srcType \<or> (OperIs src [GT_LONG] \<and> isContained src));
              Some (if varTypeIsFloating compiler srcType \<and> \<not> varTypeIsFloating compiler castType
                      then (buildInternalFloatRegisterDefForNode (castNode cast)
                              (GetFloatRegSet (RBM_ALLFLOAT tgt)) ls)\<lparr>setInternalRegsDelayFree := True\<rparr>
                    else ls)
            } else Some ls);
     let (srcCount, ls) = buildUses (BuildCastUses lsra cast RBM_NONE) ls;
     let ls = buildInternalRegisterUses ls;
     let ls = BuildDef (castNode cast) RBM_NONE ls;
     Some (srcCount, ls)
   }"

text \<open>\<^verbatim>\<open>int LinearScan::BuildSelect(GenTreeOp* select)\<close>.\<close>

definition BuildSelect ::
    "LsraBuild \<Rightarrow> GenTreeConditional \<Rightarrow> LinearScan \<Rightarrow> (int \<times> LinearScan) option" where
  "BuildSelect lsra select ls = do {
     assertion (OperIs (selectNode select) [GT_SELECT, GT_SELECTCC]);
     let srcCount = 0;
     let (srcCount, ls) =
           (if OperIs (selectNode select) [GT_SELECT] then
              (let (condUses, ls) = buildUses (BuildOperandUses lsra (gtCond select) RBM_NONE) ls
               in (srcCount + condUses, ls))
            else (srcCount, ls));
     let (op1Uses, ls) = buildUses (BuildOperandUses lsra (gtOp1 (selectNode select)) RBM_NONE) ls;
     let srcCount = srcCount + op1Uses;
     let (op2Uses, ls) = buildUses (BuildOperandUses lsra (gtOp2 (selectNode select)) RBM_NONE) ls;
     let srcCount = srcCount + op2Uses;
     let ls = BuildDef (selectNode select) RBM_NONE ls;
     Some (srcCount, ls)
   }"

section \<open>Observations on the emitted requirement records\<close>

text \<open>
  The records that a build appended: those of the final state \<open>ls'\<close> after the ones
  that the initial state \<open>ls\<close> already held.
\<close>

definition emitted :: "LinearScan \<Rightarrow> LinearScan \<Rightarrow> Requirement list" where
  "emitted ls ls' = drop (length (refPositions ls)) (refPositions ls')"

definition grows :: "LinearScan \<Rightarrow> LinearScan \<Rightarrow> bool" where
  "grows ls ls' = (take (length (refPositions ls)) (refPositions ls') = refPositions ls)"

fun isUse :: "Requirement \<Rightarrow> bool" where
  "isUse (Use node candidates idx) = True"
| "isUse _ = False"

fun isInternalIntDef :: "Requirement \<Rightarrow> bool" where
  "isInternalIntDef (InternalIntDef node candidates) = True"
| "isInternalIntDef _ = False"

fun isInternalFloatDef :: "Requirement \<Rightarrow> bool" where
  "isInternalFloatDef (InternalFloatDef node candidates) = True"
| "isInternalFloatDef _ = False"

fun isDefOrKill :: "Requirement \<Rightarrow> bool" where
  "isDefOrKill (Def node candidates) = True"
| "isDefOrKill (Defs node dstCount candidates) = True"
| "isDefOrKill (Kills node killMask) = True"
| "isDefOrKill (DefWithKills node candidates killMask) = True"
| "isDefOrKill (CallDefsWithKills node dstCount candidates killMask) = True"
| "isDefOrKill _ = False"

fun isAsyncContinuationBusy :: "Requirement \<Rightarrow> bool" where
  "isAsyncContinuationBusy (AsyncContinuationBusy node) = True"
| "isAsyncContinuationBusy _ = False"

text \<open>The number of operand uses, of scratch integer registers and of scratch vector
  registers that a build emitted.\<close>

definition useCount :: "LinearScan \<Rightarrow> LinearScan \<Rightarrow> int" where
  "useCount ls ls' = int (length (filter isUse (emitted ls ls')))"

definition internalIntRegs :: "LinearScan \<Rightarrow> LinearScan \<Rightarrow> nat" where
  "internalIntRegs ls ls' = length (filter isInternalIntDef (emitted ls ls'))"

definition internalFloatRegs :: "LinearScan \<Rightarrow> LinearScan \<Rightarrow> nat" where
  "internalFloatRegs ls ls' = length (filter isInternalFloatDef (emitted ls ls'))"

text \<open>The candidate sets of the scratch integer registers among some records, in order.\<close>

fun internalIntCandidates :: "Requirement list \<Rightarrow> SingleTypeRegSet list" where
  "internalIntCandidates [] = []"
| "internalIntCandidates (InternalIntDef node candidates # rs) = candidates # internalIntCandidates rs"
| "internalIntCandidates (r # rs) = internalIntCandidates rs"

text \<open>The candidate sets of the operand uses among some records, in order.\<close>

fun useCandidates :: "Requirement list \<Rightarrow> SingleTypeRegSet list" where
  "useCandidates [] = []"
| "useCandidates (Use node candidates idx # rs) = candidates # useCandidates rs"
| "useCandidates (r # rs) = useCandidates rs"

text \<open>
  A composite use builder counts its uses when the count it returns is the number of the
  uses it emits. This is what the builders of this file assume of \<^verbatim>\<open>BuildIndirUses\<close>,
  \<^verbatim>\<open>BuildOperandUses\<close>, \<^verbatim>\<open>BuildAddrUses\<close>, \<^verbatim>\<open>BuildCallArgUses\<close> and \<^verbatim>\<open>BuildCastUses\<close>.
\<close>

definition countsItsUses :: "OperandUses \<Rightarrow> bool" where
  "countsItsUses uses = (snd uses = int (length (fst uses)))"

definition usesCounted :: "LsraBuild \<Rightarrow> bool" where
  "usesCounted lsra =
     ((\<forall>tree. countsItsUses (BuildIndirUses lsra tree)) \<and>
      (\<forall>tree candidates. countsItsUses (BuildOperandUses lsra tree candidates)) \<and>
      (\<forall>tree. countsItsUses (BuildAddrUses lsra tree)) \<and>
      (\<forall>call. countsItsUses (BuildCallArgUses lsra call)) \<and>
      (\<forall>cast candidates. countsItsUses (BuildCastUses lsra cast candidates)))"

text \<open>A build that completes returns the number of the operand uses it emitted.\<close>

definition returnsUseCount :: "LinearScan \<Rightarrow> (int \<times> LinearScan) option \<Rightarrow> bool" where
  "returnsUseCount ls result =
     (case result of None \<Rightarrow> True | Some (srcCount, ls') \<Rightarrow> srcCount = useCount ls ls')"

text \<open>
  The condition of lines 256 and 257, under which the call is the thread-local-storage
  sequence of \<^verbatim>\<open>TARGET_ARM64\<close> and its target is built in \<^verbatim>\<open>REG_R2\<close>.
\<close>

definition tlsSequence :: "Target \<Rightarrow> Compiler \<Rightarrow> GenTreeCall \<Rightarrow> GenTree \<Rightarrow> bool" where
  "tlsSequence tgt compiler call target =
     (arch tgt = TARGET_ARM64 \<and> IsTargetAbi_NATIVEAOT compiler \<and> TargetOS_IsUnix compiler \<and>
      CountArgs call = 0 \<and> gtIsTlsIconHandle (gtInfo target))"

text \<open>
  The spec's rule for the vector registers of the unrolled copy: two of them exactly when
  the size is at least two vector-register widths and both addresses are simple enough
  that vector paired transfers apply. The source's comment says when that is: when both
  address registers are the stack or the frame pointer, that is when both addresses are
  locals.
\<close>

definition spec_Unroll_vectorRegs :: "GenTree \<Rightarrow> GenTree \<Rightarrow> nat \<Rightarrow> nat" where
  "spec_Unroll_vectorRegs dstAddr src blkSize =
     (if blkSize \<ge> 2 * FP_REGSIZE_BYTES \<and>
         (OperIs src [GT_LCL_VAR, GT_LCL_FLD] \<or>
          (OperIs src [GT_IND] \<and>
           (case Addr src of None \<Rightarrow> False | Some srcAddr \<Rightarrow> OperIs srcAddr [GT_LCL_ADDR]))) \<and>
         OperIs dstAddr [GT_LCL_ADDR]
      then 2 else 0)"

text \<open>
  The sub-register slots of a field list, in the order in which the loops of lines 444 to
  479 visit them: each field node with each of its register indices. A field has one
  register, or the register count of a multi-register operation on \<^verbatim>\<open>TARGET_ARM\<close> (lines 451
  to 462).
\<close>

definition fieldRegCount :: "Target \<Rightarrow> GenTree \<Rightarrow> nat" where
  "fieldRegCount tgt node =
     (if arch tgt = TARGET_ARM \<and> gtIsMultiRegOp (gtInfo node) then gtMultiRegCount (gtInfo node)
      else 1)"

fun fieldSlots :: "Target \<Rightarrow> (GenTree \<times> var_types) list \<Rightarrow> (GenTree \<times> nat) list" where
  "fieldSlots tgt [] = []"
| "fieldSlots tgt ((node, type) # uses) =
     map (\<lambda>regIndex. (node, regIndex)) [0..<fieldRegCount tgt node] @ fieldSlots tgt uses"

text \<open>
  The uses of lines 465 to 475 for a list of slots of which the first has the ordinal
  \<open>ordinal\<close>, the value of \<^verbatim>\<open>sourceRegCount\<close>: a slot whose ordinal is below \<^verbatim>\<open>gtNumRegs\<close> is
  bound to the argument register of that ordinal, a later slot has no candidates.
\<close>

fun splitUses :: "GenTreePutArgSplit \<Rightarrow> nat \<Rightarrow> (GenTree \<times> nat) list \<Rightarrow> Requirement list" where
  "splitUses argNode ordinal [] = []"
| "splitUses argNode ordinal ((node, regIndex) # slots) =
     Use node (if ordinal < gtNumRegs argNode then {GetRegNum argNode + ordinal} else RBM_NONE)
       regIndex #
     splitUses argNode (ordinal + 1) slots"

section \<open>Example inputs\<close>

text \<open>
  A 64-bit and a 32-bit target, a compiler instance, the allocator's helpers and an
  allocator state, on which the theorems below are run.
\<close>

definition exTarget64 :: Target where
  "exTarget64 =
     \<lparr>arch = TARGET_ARM64, FEATURE_SIMD = True, SWIFT_SUPPORT = True,
      RBM_INT_CALLEE_TRASH = {0, 1, 2, 16, 17, 30}, SRBM_LR = {30},
      REG_GSCOOKIE_TMP_0 = 16, REG_GSCOOKIE_TMP_1 = 17,
      RBM_PINVOKE_TCB = {}, RBM_FLOATRET = {32}, RBM_LNGRET = {0}, RBM_INTRET = {0},
      RBM_ALLFLOAT = {32, 33}, REG_R0 = 0, REG_R1 = 1, REG_R2 = 2,
      REG_WRITE_BARRIER_DST_BYREF = 14, REG_WRITE_BARRIER_SRC_BYREF = 13\<rparr>"

definition exTarget32 :: Target where
  "exTarget32 =
     \<lparr>arch = TARGET_ARM, FEATURE_SIMD = False, SWIFT_SUPPORT = False,
      RBM_INT_CALLEE_TRASH = {0, 1, 2, 3, 12, 14}, SRBM_LR = {14},
      REG_GSCOOKIE_TMP_0 = 12, REG_GSCOOKIE_TMP_1 = 14,
      RBM_PINVOKE_TCB = {5}, RBM_FLOATRET = {16}, RBM_LNGRET = {0, 1}, RBM_INTRET = {0},
      RBM_ALLFLOAT = {16, 17}, REG_R0 = 0, REG_R1 = 1, REG_R2 = 2,
      REG_WRITE_BARRIER_DST_BYREF = 1, REG_WRITE_BARRIER_SRC_BYREF = 0\<rparr>"

definition exCompiler :: Compiler where
  "exCompiler =
     \<lparr>getNeedsGSSecurityCookie = True, compIsAsync = True, IsTargetAbi_NATIVEAOT = False,
      TargetOS_IsUnix = True, compAppleArm64Abi = False, IsBaselineSimdIsaSupported = True,
      emitIns_valid_imm_for_ldst_offset = (\<lambda>imm size. 0 \<le> imm \<and> imm < 4096),
      emitTypeSize = (\<lambda>tree. 8),
      varTypeUsesFloatArgReg = (\<lambda>type. type = TYP_FLOAT \<or> type = TYP_DOUBLE),
      varTypeIsFloating = (\<lambda>type. type = TYP_FLOAT \<or> type = TYP_DOUBLE),
      varTypeIsLong = (\<lambda>type. type = TYP_LONG),
      genActualType = (\<lambda>type. type)\<rparr>"

text \<open>An operand that is not contained is used once; a contained or missing one is not.\<close>

definition exOperandUses :: "GenTree option \<Rightarrow> SingleTypeRegSet \<Rightarrow> OperandUses" where
  "exOperandUses operand candidates =
     (case operand of
        None \<Rightarrow> ([], 0)
      | Some node \<Rightarrow> if isContained node then ([], 0) else ([(node, candidates, 0)], 1))"

text \<open>
  The uses of an address: the address when it is not contained, the base and the index of
  a contained address mode.
\<close>

definition exAddrUses :: "GenTree option \<Rightarrow> OperandUses" where
  "exAddrUses addr =
     (case addr of
        None \<Rightarrow> ([], 0)
      | Some node \<Rightarrow>
          if \<not> isContained node then ([(node, RBM_NONE, 0)], 1)
          else if OperIs node [GT_LEA] then
            (let uses = fst (exOperandUses (Base node) RBM_NONE) @ fst (exOperandUses (Index node) RBM_NONE)
             in (uses, int (length uses)))
          else ([], 0))"

definition exLsra :: LsraBuild where
  "exLsra =
     \<lparr>getKillSetForCall = (\<lambda>call. {0, 1, 2, 16, 17, 30}),
      getKillSetForBlockStore = (\<lambda>blkNode. {}),
      allRegs = (\<lambda>type. {0, 1, 2, 13, 14, 16, 19, 30}),
      internalFloatRegCandidates = {32, 33},
      BuildIndirUses = (\<lambda>indirTree. exAddrUses (Addr indirTree)),
      BuildOperandUses = exOperandUses,
      BuildAddrUses = exAddrUses,
      BuildCallArgUses = (\<lambda>call. ([], 0)),
      BuildCastUses = (\<lambda>cast candidates. exOperandUses (gtOp1 (castNode cast)) candidates)\<rparr>"

definition exLs :: LinearScan where
  "exLs =
     \<lparr>refPositions = [], placedArgRegs = {3}, numPlacedArgLocals = 1,
      setInternalRegsDelayFree = False,
      availableIntRegs = {0, 1, 2, 13, 14, 16, 19, 30}, availableFloatRegs = {32, 33}\<rparr>"

text \<open>A node without operands, and a node with its two operands.\<close>

definition exInfo :: "genTreeOps \<Rightarrow> var_types \<Rightarrow> bool \<Rightarrow> GenTreeInfo" where
  "exInfo oper type isCont =
     \<lparr>gtOper = oper, gtType = type, gtContained = isCont, gtFlags = {}, gtOffset = 0,
      gtIsMultiRegOp = False, gtMultiRegCount = 0, gtIsMultiRegNode = False,
      gtIsTlsIconHandle = False\<rparr>"

definition exLeaf :: "genTreeOps \<Rightarrow> var_types \<Rightarrow> bool \<Rightarrow> GenTree" where
  "exLeaf oper type isCont = GenTree (exInfo oper type isCont) None None []"

definition exNode :: "genTreeOps \<Rightarrow> var_types \<Rightarrow> bool \<Rightarrow> GenTree option \<Rightarrow> GenTree option \<Rightarrow> GenTree" where
  "exNode oper type isCont op1 op2 = GenTree (exInfo oper type isCont) op1 op2 []"

text \<open>
  An indirection through a contained address mode with a base, an index and the offset 4.
\<close>

definition exLea :: "GenTree option \<Rightarrow> int \<Rightarrow> GenTree" where
  "exLea index offs =
     GenTree ((exInfo GT_LEA (TYP_OTHER 0) True)\<lparr>gtOffset := offs\<rparr>)
       (Some (exLeaf GT_LCL_VAR (TYP_OTHER 0) False)) index []"

definition exIndir :: GenTree where
  "exIndir = exNode GT_IND TYP_INT False (Some (exLea (Some (exLeaf GT_LCL_VAR TYP_INT False)) 4)) None"

text \<open>
  An unaligned \<^verbatim>\<open>TYP_FLOAT\<close> load through a contained address mode with an index and an
  offset, and a load through a contained address mode with neither.
\<close>

definition exIndirUnaligned :: GenTree where
  "exIndirUnaligned =
     GenTree ((exInfo GT_IND TYP_FLOAT False)\<lparr>gtFlags := {GTF_IND_UNALIGNED}\<rparr>)
       (Some (exLea (Some (exLeaf GT_LCL_VAR TYP_INT False)) 4)) None []"

definition exIndirPlain :: GenTree where
  "exIndirPlain = exNode GT_IND TYP_INT False (Some (exLea None 0)) None"

text \<open>
  Calls: a void fast tail call through a control expression, and an async call that
  returns an integer.
\<close>

definition exCallInfo :: "var_types \<Rightarrow> GenTree option \<Rightarrow> GenTreeCall" where
  "exCallInfo type ctrlExpr =
     \<lparr>callNode = exLeaf GT_CALL type False, gtControlExpr = ctrlExpr, gtCallAddr = None,
      gtCallType = CT_USER_FUNC, HasMultiRegRetVal = False,
      GetReturnTypeDesc = \<lparr>GetReturnRegCount = 0, GetABIReturnRegs = {}\<rparr>,
      IsFastTailCall = False, IsR2ROrVirtualStubRelativeIndir = False, NeedsNullCheck = False,
      IsHelperCall_INIT_PINVOKE_FRAME = False, CountArgs = 0, IsAsync = True,
      HasSwiftErrorHandling = False\<rparr>"

definition exTailCall :: GenTreeCall where
  "exTailCall =
     (exCallInfo TYP_VOID (Some (exLeaf GT_LCL_VAR TYP_INT False)))\<lparr>IsFastTailCall := True\<rparr>"

definition exAsyncCall :: GenTreeCall where
  "exAsyncCall = exCallInfo TYP_INT None"

text \<open>
  The thread-local-storage sequence: a compiler for the NativeAOT ABI, and a fast tail
  call without arguments whose control expression is a TLS handle.
\<close>

definition exCompilerAot :: Compiler where
  "exCompilerAot = exCompiler\<lparr>IsTargetAbi_NATIVEAOT := True\<rparr>"

definition exTlsTarget :: GenTree where
  "exTlsTarget =
     GenTree ((exInfo (GT_OTHER 2) TYP_INT False)\<lparr>gtIsTlsIconHandle := True\<rparr>) None None []"

definition exTlsTailCall :: GenTreeCall where
  "exTlsTailCall =
     (exCallInfo TYP_VOID (Some exTlsTarget))
       \<lparr>callNode := GenTree ((exInfo GT_CALL TYP_VOID False)\<lparr>gtFlags := {GTF_TLS_GET_ADDR}\<rparr>)
                      None None [],
        IsFastTailCall := True\<rparr>"

text \<open>
  Block copies from an indirection: the strategy, the size, the destination address and
  the source address.
\<close>

definition exCopyBlk :: "BlkOpKind \<Rightarrow> nat \<Rightarrow> GenTree \<Rightarrow> GenTree \<Rightarrow> GenTreeBlk" where
  "exCopyBlk kind blkSize dstAddr srcAddr =
     \<lparr>blkTree = exNode GT_STORE_BLK TYP_STRUCT False (Some dstAddr)
                  (Some (exNode GT_IND TYP_STRUCT True (Some srcAddr) None)),
      OperIsInitBlkOp = False, gtBlkOpKind = kind, Size = blkSize\<rparr>"

definition exDstAddr :: GenTree where
  "exDstAddr = exLeaf (GT_OTHER 0) (TYP_OTHER 0) False"

definition exSrcAddr :: GenTree where
  "exSrcAddr = exLeaf (GT_OTHER 1) (TYP_OTHER 0) False"

text \<open>
  A field list of \<^verbatim>\<open>TARGET_ARM\<close> with an integer field and a multi-register field of two
  registers, as the operand of a split argument of two destination registers from register
  1 and of a stack argument; a cast of a floating-point value to an integer, and a select.
\<close>

definition exField :: "nat \<Rightarrow> GenTree" where
  "exField n = exLeaf GT_LCL_VAR (TYP_OTHER n) False"

definition exLongField :: GenTree where
  "exLongField =
     GenTree ((exInfo (GT_OTHER 1) TYP_LONG False)\<lparr>gtIsMultiRegOp := True, gtMultiRegCount := 2\<rparr>)
       None None []"

definition exFieldList :: GenTree where
  "exFieldList =
     GenTree (exInfo GT_FIELD_LIST TYP_STRUCT True) None None
       [(exField 1, TYP_INT), (exLongField, TYP_LONG)]"

definition exPutArgSplit :: GenTreePutArgSplit where
  "exPutArgSplit =
     \<lparr>putArgNode = exNode GT_PUTARG_SPLIT TYP_STRUCT False (Some exFieldList) None,
      GetStackByteSize = 4, gtNumRegs = 2, GetRegNum = 1, gtRegNumByIdx = (\<lambda>idx. None)\<rparr>"

definition exPutArgStk :: GenTreePutArgStk where
  "exPutArgStk =
     \<lparr>putArgNode = exNode GT_PUTARG_STK TYP_STRUCT False (Some exFieldList) None,
      GetStackByteSize = 12\<rparr>"

definition exCast :: GenTreeCast where
  "exCast =
     \<lparr>castNode = exNode GT_CAST TYP_INT False (Some (exLeaf GT_LCL_VAR TYP_FLOAT False)) None,
      gtCastType = TYP_INT\<rparr>"

definition exSelect :: GenTreeConditional where
  "exSelect =
     \<lparr>selectNode = exNode GT_SELECT TYP_INT False (Some (exField 1)) (Some (exField 2)),
      gtCond = Some (exField 0)\<rparr>"

section \<open>The emitted records of the emitter's primitives\<close>

lemmas emitter_defs = BuildUse_def buildInternalIntRegisterDefForNode_def
  buildInternalFloatRegisterDefForNode_def buildInternalRegisterUses_def BuildDef_def BuildDefs_def
  BuildKills_def BuildDefWithKills_def BuildCallDefsWithKills_def newRefPosition_FixedReg_def
  MarkAsyncContinuationBusyForCall_def MarkSwiftErrorBusyForCall_def

lemma grows_iff: "grows ls ls' \<longleftrightarrow> refPositions ls' = refPositions ls @ emitted ls ls'"
  unfolding grows_def emitted_def
  by (metis append_take_drop_id append_eq_conv_conj)

lemma growsI: "refPositions ls' = refPositions ls @ new \<Longrightarrow> grows ls ls'"
  by (simp add: grows_def)

lemma emittedI: "refPositions ls' = refPositions ls @ new \<Longrightarrow> emitted ls ls' = new"
  by (simp add: emitted_def)

lemma grows_refl [simp]: "grows ls ls"
  by (simp add: grows_def)

lemma emitted_refl [simp]: "emitted ls ls = []"
  by (simp add: emitted_def)

lemma grows_append:
  assumes "grows ls0 ls" "refPositions ls' = refPositions ls @ new"
  shows "grows ls0 ls'" "emitted ls0 ls' = emitted ls0 ls @ new"
proof -
  have "refPositions ls' = refPositions ls0 @ (emitted ls0 ls @ new)"
    using assms by (simp add: grows_iff)
  then show "grows ls0 ls'" "emitted ls0 ls' = emitted ls0 ls @ new"
    by (rule growsI, rule emittedI)
qed

lemma grows_trans:
  assumes "grows ls0 ls" "grows ls ls'"
  shows "grows ls0 ls'" "emitted ls0 ls' = emitted ls0 ls @ emitted ls ls'"
  using grows_append [OF assms(1), of ls' "emitted ls ls'"] assms(2)
  by (simp_all add: grows_iff)

lemma grows_emit [simp]: "grows ls0 ls \<Longrightarrow> grows ls0 (emit r ls)"
  by (rule grows_append(1) [where new = "[r]"]) (simp_all add: emit_def)

lemma emitted_emit [simp]: "grows ls0 ls \<Longrightarrow> emitted ls0 (emit r ls) = emitted ls0 ls @ [r]"
  by (rule grows_append(2)) (simp_all add: emit_def)

lemma grows_buildUses [simp]: "grows ls0 ls \<Longrightarrow> grows ls0 (snd (buildUses uses ls))"
  by (rule grows_append(1)
        [where new = "map (\<lambda>(node, candidates, idx). Use node candidates idx) (fst uses)"])
     (simp_all add: buildUses_def)

lemma emitted_buildUses [simp]:
  "grows ls0 ls \<Longrightarrow>
   emitted ls0 (snd (buildUses uses ls)) =
   emitted ls0 ls @ map (\<lambda>(node, candidates, idx). Use node candidates idx) (fst uses)"
  by (rule grows_append(2)) (simp_all add: buildUses_def)

lemma fst_buildUses [simp]: "fst (buildUses uses ls) = snd uses"
  by (simp add: buildUses_def)

lemma buildUses_eq:
  "buildUses uses ls = (n, ls') \<longleftrightarrow> n = snd uses \<and> ls' = snd (buildUses uses ls)"
  by (auto simp: buildUses_def)

lemma grows_update [simp]:
  "grows ls0 (ls\<lparr>placedArgRegs := regs\<rparr>) = grows ls0 ls"
  "grows ls0 (ls\<lparr>numPlacedArgLocals := n\<rparr>) = grows ls0 ls"
  "grows ls0 (ls\<lparr>setInternalRegsDelayFree := b\<rparr>) = grows ls0 ls"
  by (simp_all add: grows_def)

lemma emitted_update [simp]:
  "emitted ls0 (ls\<lparr>placedArgRegs := regs\<rparr>) = emitted ls0 ls"
  "emitted ls0 (ls\<lparr>numPlacedArgLocals := n\<rparr>) = emitted ls0 ls"
  "emitted ls0 (ls\<lparr>setInternalRegsDelayFree := b\<rparr>) = emitted ls0 ls"
  by (simp_all add: emitted_def)

lemma filter_map_Use [simp]:
  "filter isUse (map (\<lambda>(node, candidates, idx). Use node candidates idx) us) =
   map (\<lambda>(node, candidates, idx). Use node candidates idx) us"
  "filter isInternalIntDef (map (\<lambda>(node, candidates, idx). Use node candidates idx) us) = []"
  "filter isInternalFloatDef (map (\<lambda>(node, candidates, idx). Use node candidates idx) us) = []"
  "filter isDefOrKill (map (\<lambda>(node, candidates, idx). Use node candidates idx) us) = []"
  "filter isAsyncContinuationBusy (map (\<lambda>(node, candidates, idx). Use node candidates idx) us) = []"
  by (induction us) auto

section \<open>BuildIndir\<close>

lemma BuildIndir_unaligned_emitted:
  assumes "BuildIndir_unaligned tgt indirTree ls = Some ls'"
  shows "grows ls ls'" "filter isUse (emitted ls ls') = []"
    "\<not> (arch tgt = TARGET_ARM \<and> GTF_IND_UNALIGNED \<in> gtFlags (gtInfo indirTree)) \<Longrightarrow> ls' = ls"
  using assms unfolding BuildIndir_unaligned_def buildInternalIntRegisterDefForNode_def
  by (auto split: if_splits Option.bind_splits)

lemma BuildIndir_addrMode_emitted:
  "grows ls (BuildIndir_addrMode compiler indirTree addr ls)"
  "emitted ls (BuildIndir_addrMode compiler indirTree addr ls) =
     (if isContained addr \<and> OperIs addr [GT_LEA] \<and>
         ((Index addr \<noteq> None \<and> Offset addr \<noteq> 0) \<or>
          \<not> emitIns_valid_imm_for_ldst_offset compiler (Offset addr) (emitTypeSize compiler indirTree))
      then [InternalIntDef indirTree RBM_NONE] else [])"
  unfolding BuildIndir_addrMode_def buildInternalIntRegisterDefForNode_def Let_def
  by auto

lemma BuildIndir_simd12_emitted:
  assumes "BuildIndir_simd12 tgt indirTree addr ls = Some ls'"
  shows "grows ls ls'" "filter isUse (emitted ls ls') = []"
    "isContained addr \<Longrightarrow> ls' = ls"
  using assms unfolding BuildIndir_simd12_def buildInternalIntRegisterDefForNode_def assertion_def
  by (auto split: if_splits Option.bind_splits)

lemma BuildIndir_Some:
  assumes "BuildIndir tgt compiler lsra indirTree ls = Some (srcCount, ls')"
  obtains addr ls1 ls2 where
    "Addr indirTree = Some addr"
    "BuildIndir_unaligned tgt indirTree ls = Some ls1"
    "BuildIndir_simd12 tgt indirTree addr (BuildIndir_addrMode compiler indirTree addr ls1) = Some ls2"
    "srcCount = snd (BuildIndirUses lsra indirTree)"
    "ls' = (if \<not> OperIs indirTree [GT_STOREIND, GT_NULLCHECK]
            then emit (Def indirTree RBM_NONE) else id)
             (emit InternalRegisterUses (snd (buildUses (BuildIndirUses lsra indirTree) ls2)))"
proof -
  have "\<exists>addr ls1 ls2. Addr indirTree = Some addr \<and>
    BuildIndir_unaligned tgt indirTree ls = Some ls1 \<and>
    BuildIndir_simd12 tgt indirTree addr (BuildIndir_addrMode compiler indirTree addr ls1) = Some ls2 \<and>
    srcCount = snd (BuildIndirUses lsra indirTree) \<and>
    ls' = (if \<not> OperIs indirTree [GT_STOREIND, GT_NULLCHECK]
            then emit (Def indirTree RBM_NONE) else id)
             (emit InternalRegisterUses (snd (buildUses (BuildIndirUses lsra indirTree) ls2)))"
    using assms unfolding BuildIndir_def Let_def BuildDef_def buildInternalRegisterUses_def
    by (auto split: Option.bind_splits prod.splits if_splits simp: buildUses_eq)
  then show thesis using that by blast
qed

lemma BuildIndir_useCount:
  assumes "usesCounted lsra" "BuildIndir tgt compiler lsra indirTree ls = Some (srcCount, ls')"
  shows "srcCount = useCount ls ls'"
proof -
  from assms(2) obtain addr ls1 ls2 where
    a: "Addr indirTree = Some addr"
    and u: "BuildIndir_unaligned tgt indirTree ls = Some ls1"
    and s: "BuildIndir_simd12 tgt indirTree addr (BuildIndir_addrMode compiler indirTree addr ls1) = Some ls2"
    and n: "srcCount = snd (BuildIndirUses lsra indirTree)"
    and l: "ls' = (if \<not> OperIs indirTree [GT_STOREIND, GT_NULLCHECK]
            then emit (Def indirTree RBM_NONE) else id)
             (emit InternalRegisterUses (snd (buildUses (BuildIndirUses lsra indirTree) ls2)))"
    by (rule BuildIndir_Some)
  note g1 = BuildIndir_unaligned_emitted(1,2) [OF u]
  note g2 = grows_trans [OF g1(1) BuildIndir_addrMode_emitted(1) [of ls1 compiler indirTree addr]]
  note g3 = grows_trans [OF g2(1) BuildIndir_simd12_emitted(1) [OF s]]
  have c: "countsItsUses (BuildIndirUses lsra indirTree)"
    using assms(1) by (simp add: usesCounted_def)
  have "filter isUse (emitted ls ls2) = []"
    using g1(2) BuildIndir_simd12_emitted(2) [OF s]
    by (simp add: g3(2) g2(2) BuildIndir_addrMode_emitted(2))
  then show ?thesis
    using c g3(1) by (simp add: l n useCount_def countsItsUses_def)
qed

text \<open>
  Claim C3. Take a build of an indirection whose address is a contained \<^verbatim>\<open>GT_LEA\<close>, and the
  state \<open>ls1\<close> in which the unaligned floating-point staging of \<^verbatim>\<open>TARGET_ARM\<close> (lines 48 to
  72) leaves the build. From that state on, the build reserves exactly one scratch integer
  register when the address has both an index and a nonzero offset; otherwise it reserves
  one exactly when the offset is not a valid immediate of the access, so that an address
  with neither index nor offset reserves none when a zero offset is a valid immediate. It
  never reserves more than one, and all the scratch integer registers of the build are those
  of the staging and this one.
\<close>

theorem BuildIndir_addrMode_scratch:
  assumes "BuildIndir tgt compiler lsra indirTree ls = Some (srcCount, ls')"
    and "BuildIndir_unaligned tgt indirTree ls = Some ls1"
    and "Addr indirTree = Some addr" and "isContained addr" and "OperIs addr [GT_LEA]"
  shows "internalIntRegs ls1 ls' =
           (if Index addr \<noteq> None \<and> Offset addr \<noteq> 0 then 1
            else if emitIns_valid_imm_for_ldst_offset compiler (Offset addr)
                      (emitTypeSize compiler indirTree) then 0
            else 1) \<and>
         (Index addr = None \<and> Offset addr = 0 \<and>
          emitIns_valid_imm_for_ldst_offset compiler 0 (emitTypeSize compiler indirTree) \<longrightarrow>
            internalIntRegs ls1 ls' = 0) \<and>
         internalIntRegs ls1 ls' \<le> 1 \<and>
         internalIntRegs ls ls' = internalIntRegs ls ls1 + internalIntRegs ls1 ls'"
proof -
  from assms(1) obtain addr' ls1' ls2 where
    a: "Addr indirTree = Some addr'"
    and u: "BuildIndir_unaligned tgt indirTree ls = Some ls1'"
    and s: "BuildIndir_simd12 tgt indirTree addr' (BuildIndir_addrMode compiler indirTree addr' ls1') = Some ls2"
    and l: "ls' = (if \<not> OperIs indirTree [GT_STOREIND, GT_NULLCHECK]
            then emit (Def indirTree RBM_NONE) else id)
             (emit InternalRegisterUses (snd (buildUses (BuildIndirUses lsra indirTree) ls2)))"
    by (rule BuildIndir_Some)
  have [simp]: "addr' = addr" "ls1' = ls1" using a u assms(2,3) by simp_all
  have ls2: "ls2 = BuildIndir_addrMode compiler indirTree addr ls1"
    using BuildIndir_simd12_emitted(3) [OF s] assms(4) by simp
  have g12: "grows ls1 ls2" by (simp add: ls2 BuildIndir_addrMode_emitted(1))
  have g1': "grows ls1 ls'" using g12 by (simp add: l)
  have g01: "grows ls ls1" by (rule BuildIndir_unaligned_emitted(1) [OF assms(2)])
  note t = grows_trans [OF g01 g1']
  have 1: "internalIntRegs ls1 ls' =
           (if Index addr \<noteq> None \<and> Offset addr \<noteq> 0 then 1
            else if emitIns_valid_imm_for_ldst_offset compiler (Offset addr)
                      (emitTypeSize compiler indirTree) then 0
            else 1)"
    using assms(4,5) g12
    by (auto simp: internalIntRegs_def l ls2 [symmetric])
       (auto simp: ls2 BuildIndir_addrMode_emitted(2))
  have 2: "internalIntRegs ls ls' = internalIntRegs ls ls1 + internalIntRegs ls1 ls'"
    by (simp add: internalIntRegs_def t(2))
  show ?thesis using 1 2 by simp
qed

lemma exLsra_usesCounted: "usesCounted exLsra"
  by (auto simp: usesCounted_def countsItsUses_def exLsra_def exOperandUses_def exAddrUses_def
           split: option.splits)

lemma exIndir_eval:
  "\<exists>ls'. BuildIndir exTarget64 exCompiler exLsra exIndir exLs = Some (2, ls')"
  by (simp add: BuildIndir_def BuildIndir_unaligned_def BuildIndir_addrMode_def BuildIndir_simd12_def
      exTarget64_def exCompiler_def exLsra_def exIndir_def exLs_def exLea_def exNode_def exLeaf_def
      exInfo_def exOperandUses_def exAddrUses_def Base_def assertion_def TypeIs_def Addr_def OperIs_def isContained_def
      Index_def Offset_def buildUses_def emitter_defs emit_def)

lemma exIndirUnaligned_eval:
  "\<exists>ls'. BuildIndir exTarget32 exCompiler exLsra exIndirUnaligned exLs = Some (2, ls')"
  by (simp add: BuildIndir_def BuildIndir_unaligned_def BuildIndir_addrMode_def BuildIndir_simd12_def
      exTarget32_def exCompiler_def exLsra_def exIndirUnaligned_def exLs_def exLea_def exLeaf_def
      exInfo_def exOperandUses_def exAddrUses_def Base_def assertion_def TypeIs_def TypeGet_def
      Addr_def OperIs_def isContained_def Index_def Offset_def buildUses_def emitter_defs emit_def
      Let_def)

lemma exIndirPlain_eval:
  "\<exists>ls'. BuildIndir exTarget64 exCompiler exLsra exIndirPlain exLs = Some (1, ls')"
  by (simp add: BuildIndir_def BuildIndir_unaligned_def BuildIndir_addrMode_def BuildIndir_simd12_def
      exTarget64_def exCompiler_def exLsra_def exIndirPlain_def exLs_def exLea_def exNode_def
      exLeaf_def exInfo_def exOperandUses_def exAddrUses_def Base_def assertion_def TypeIs_def
      Addr_def OperIs_def isContained_def Index_def Offset_def buildUses_def emitter_defs emit_def)

theorem BuildIndir_addrMode_scratch_witness:
  "BuildIndir exTarget32 exCompiler exLsra exIndirUnaligned exLs \<noteq> None \<and>
   internalIntRegs (the (BuildIndir_unaligned exTarget32 exIndirUnaligned exLs))
     (snd (the (BuildIndir exTarget32 exCompiler exLsra exIndirUnaligned exLs))) = 1 \<and>
   internalIntRegs exLs
     (snd (the (BuildIndir exTarget32 exCompiler exLsra exIndirUnaligned exLs))) = 2 \<and>
   BuildIndir exTarget64 exCompiler exLsra exIndir exLs \<noteq> None \<and>
   internalIntRegs exLs (snd (the (BuildIndir exTarget64 exCompiler exLsra exIndir exLs))) = 1 \<and>
   BuildIndir exTarget64 exCompiler exLsra exIndirPlain exLs \<noteq> None \<and>
   internalIntRegs exLs (snd (the (BuildIndir exTarget64 exCompiler exLsra exIndirPlain exLs))) = 0"
proof -
  obtain ls1 where e1: "BuildIndir exTarget32 exCompiler exLsra exIndirUnaligned exLs = Some (2, ls1)"
    using exIndirUnaligned_eval by blast
  obtain ls2 where e2: "BuildIndir exTarget64 exCompiler exLsra exIndir exLs = Some (2, ls2)"
    using exIndir_eval by blast
  obtain ls3 where e3: "BuildIndir exTarget64 exCompiler exLsra exIndirPlain exLs = Some (1, ls3)"
    using exIndirPlain_eval by blast
  have u1: "BuildIndir_unaligned exTarget32 exIndirUnaligned exLs =
            Some (emit (InternalIntDef exIndirUnaligned RBM_NONE) exLs)"
    by (simp add: BuildIndir_unaligned_def exTarget32_def exIndirUnaligned_def exInfo_def
          OperIs_def TypeGet_def buildInternalIntRegisterDefForNode_def)
  have u2: "BuildIndir_unaligned exTarget64 exIndir exLs = Some exLs"
    by (simp add: BuildIndir_unaligned_def exTarget64_def)
  have u3: "BuildIndir_unaligned exTarget64 exIndirPlain exLs = Some exLs"
    by (simp add: BuildIndir_unaligned_def exTarget64_def)
  have a1: "Addr exIndirUnaligned = Some (exLea (Some (exLeaf GT_LCL_VAR TYP_INT False)) 4)"
    by (simp add: exIndirUnaligned_def Addr_def)
  have a2: "Addr exIndir = Some (exLea (Some (exLeaf GT_LCL_VAR TYP_INT False)) 4)"
    by (simp add: exIndir_def exNode_def Addr_def)
  have a3: "Addr exIndirPlain = Some (exLea None 0)"
    by (simp add: exIndirPlain_def exNode_def Addr_def)
  have p: "isContained (exLea index offs)" "OperIs (exLea index offs) [GT_LEA]"
    "Index (exLea index offs) = index" "Offset (exLea index offs) = offs" for index offs
    by (simp_all add: exLea_def exInfo_def isContained_def OperIs_def Index_def Offset_def)
  have v: "emitIns_valid_imm_for_ldst_offset exCompiler 0 (emitTypeSize exCompiler exIndirPlain)"
    by (simp add: exCompiler_def)
  have i: "internalIntRegs exLs (emit (InternalIntDef exIndirUnaligned RBM_NONE) exLs) = 1"
    "internalIntRegs exLs exLs = 0"
    by (simp add: internalIntRegs_def) (simp add: internalIntRegs_def emitted_def)
  show ?thesis
    unfolding e1 e2 e3 u1
    using BuildIndir_addrMode_scratch [OF e1 u1 a1 p(1,2)]
      BuildIndir_addrMode_scratch [OF e2 u2 a2 p(1,2)]
      BuildIndir_addrMode_scratch [OF e3 u3 a3 p(1,2)] v i
    by (simp add: p)
qed

section \<open>BuildCall\<close>

lemma internalIntDef_filters:
  assumes "\<forall>r\<in>set rs. isInternalIntDef r"
  shows "filter isUse rs = []" "filter isDefOrKill rs = []" "filter isAsyncContinuationBusy rs = []"
    "\<forall>r\<in>set rs. \<not> isDefOrKill r"
proof -
  have "\<And>r. isInternalIntDef r \<Longrightarrow> \<not> isUse r \<and> \<not> isDefOrKill r \<and> \<not> isAsyncContinuationBusy r"
    by (case_tac r) simp_all
  with assms show "filter isUse rs = []" "filter isDefOrKill rs = []"
    "filter isAsyncContinuationBusy rs = []" "\<forall>r\<in>set rs. \<not> isDefOrKill r"
    by (auto simp: filter_empty_conv)
qed

lemma BuildCall_target_emitted:
  assumes "BuildCall_target tgt compiler lsra call ctrlExpr ls = Some (candidates, ls')"
  shows "grows ls ls'" "\<forall>r\<in>set (emitted ls ls'). isInternalIntDef r"
  using assms unfolding BuildCall_target_def buildInternalIntRegisterDefForNode_def Let_def assertion_def
  by (auto split: if_splits Option.bind_splits option.splits)

lemma BuildCall_target_candidates:
  assumes "BuildCall_target tgt compiler lsra call (Some target) ls = Some (candidates, ls')"
  shows "candidates =
           (if IsFastTailCall call then
              allRegs lsra TYP_INT \<inter> RBM_INT_CALLEE_TRASH tgt \<inter> - SRBM_LR tgt \<inter>
              (if getNeedsGSSecurityCookie compiler
                 then - {REG_GSCOOKIE_TMP_0 tgt, REG_GSCOOKIE_TMP_1 tgt} else UNIV)
            else RBM_NONE)"
    "IsFastTailCall call \<Longrightarrow> candidates \<noteq> RBM_NONE"
  using assms unfolding BuildCall_target_def Let_def assertion_def GetIntRegSet_def
    genSingleTypeRegMask_def
  by (auto split: if_splits Option.bind_splits)

lemma BuildCall_uses_emitted:
  assumes "BuildCall_uses tgt compiler lsra call ctrlExpr candidates (n0, ls) = Some (n, ls')"
  shows "grows ls ls'"
    "filter isUse (emitted ls ls') =
       map (\<lambda>(node, candidates, idx). Use node candidates idx) (fst (BuildCallArgUses lsra call)) @
       (case ctrlExpr of None \<Rightarrow> []
        | Some target \<Rightarrow>
            [Use target (if tlsSequence tgt compiler call target then {REG_R2 tgt} else candidates) 0])"
    "n = n0 + snd (BuildCallArgUses lsra call) + (case ctrlExpr of None \<Rightarrow> 0 | Some target \<Rightarrow> 1)"
    "filter isDefOrKill (emitted ls ls') = []"
    "filter isAsyncContinuationBusy (emitted ls ls') = []"
  using assms unfolding BuildCall_uses_def Let_def assertion_def tlsSequence_def
    genSingleTypeRegMask_def newRefPosition_FixedReg_def BuildUse_def
  by (auto split: if_splits Option.bind_splits option.splits prod.splits simp: buildUses_eq)

lemma BuildCall_defsAndKills_emitted:
  assumes "BuildCall_defsAndKills compiler lsra call hasMultiRegRetVal retTypeDesc dstCount
             singleDstCandidates ls = Some ls'"
  shows "grows ls ls'"
    "emitted ls ls' =
       (if IsAsync call \<and> compIsAsync compiler \<and> \<not> IsFastTailCall call
          then [AsyncContinuationBusy (callNode call)] else []) @
       [if dstCount > 0 then
          (if hasMultiRegRetVal
             then CallDefsWithKills (callNode call) dstCount (GetABIReturnRegs (the retTypeDesc))
                    (getKillSetForCall lsra call)
           else DefWithKills (callNode call) singleDstCandidates (getKillSetForCall lsra call))
        else Kills (callNode call) (getKillSetForCall lsra call)]"
  using assms unfolding BuildCall_defsAndKills_def Let_def assertion_def
    MarkAsyncContinuationBusyForCall_def BuildCallDefsWithKills_def BuildDefWithKills_def
    BuildKills_def
  by (auto split: if_splits Option.bind_splits)

lemma BuildCall_Some:
  assumes "BuildCall tgt compiler lsra call ls = Some (srcCount, ls')"
  obtains ctrlExpr candidates ls1 ls2 ls3 where
    "BuildCall_ctrlExpr call = Some ctrlExpr"
    "BuildCall_target tgt compiler lsra call ctrlExpr ls = Some (candidates, ls1)"
    "BuildCall_uses tgt compiler lsra call ctrlExpr candidates (0, ls1) = Some (srcCount, ls2)"
    "BuildCall_defsAndKills compiler lsra call (fst (BuildCall_dstCount call))
       (fst (snd (BuildCall_dstCount call))) (snd (snd (BuildCall_dstCount call)))
       (BuildCall_singleDstCandidates tgt compiler call (fst (BuildCall_dstCount call)))
       (emit InternalRegisterUses ls2) = Some ls3"
    "ls' = ((if SWIFT_SUPPORT tgt \<and> HasSwiftErrorHandling call
              then emit (SwiftErrorBusy (callNode call)) else id) ls3)
            \<lparr>placedArgRegs := RBM_NONE, numPlacedArgLocals := 0\<rparr>"
proof -
  have "\<exists>ctrlExpr candidates ls1 ls2 ls3.
    BuildCall_ctrlExpr call = Some ctrlExpr \<and>
    BuildCall_target tgt compiler lsra call ctrlExpr ls = Some (candidates, ls1) \<and>
    BuildCall_uses tgt compiler lsra call ctrlExpr candidates (0, ls1) = Some (srcCount, ls2) \<and>
    BuildCall_defsAndKills compiler lsra call (fst (BuildCall_dstCount call))
       (fst (snd (BuildCall_dstCount call))) (snd (snd (BuildCall_dstCount call)))
       (BuildCall_singleDstCandidates tgt compiler call (fst (BuildCall_dstCount call)))
       (emit InternalRegisterUses ls2) = Some ls3 \<and>
    ls' = ((if SWIFT_SUPPORT tgt \<and> HasSwiftErrorHandling call
              then emit (SwiftErrorBusy (callNode call)) else id) ls3)
            \<lparr>placedArgRegs := RBM_NONE, numPlacedArgLocals := 0\<rparr>"
    using assms unfolding BuildCall_def Let_def buildInternalRegisterUses_def
      MarkSwiftErrorBusyForCall_def
    by (auto split: Option.bind_splits prod.splits if_splits)
  then show thesis using that by blast
qed

lemma BuildCall_trace:
  assumes "BuildCall tgt compiler lsra call ls = Some (srcCount, ls')"
  obtains ctrlExpr candidates ls1 ls2 where
    "BuildCall_ctrlExpr call = Some ctrlExpr"
    "BuildCall_target tgt compiler lsra call ctrlExpr ls = Some (candidates, ls1)"
    "BuildCall_uses tgt compiler lsra call ctrlExpr candidates (0, ls1) = Some (srcCount, ls2)"
    "emitted ls ls' =
       emitted ls ls1 @ emitted ls1 ls2 @ [InternalRegisterUses] @
       (if IsAsync call \<and> compIsAsync compiler \<and> \<not> IsFastTailCall call
          then [AsyncContinuationBusy (callNode call)] else []) @
       [if snd (snd (BuildCall_dstCount call)) > 0 then
          (if fst (BuildCall_dstCount call)
             then CallDefsWithKills (callNode call) (snd (snd (BuildCall_dstCount call)))
                    (GetABIReturnRegs (the (fst (snd (BuildCall_dstCount call)))))
                    (getKillSetForCall lsra call)
           else DefWithKills (callNode call)
                  (BuildCall_singleDstCandidates tgt compiler call (fst (BuildCall_dstCount call)))
                  (getKillSetForCall lsra call))
        else Kills (callNode call) (getKillSetForCall lsra call)] @
       (if SWIFT_SUPPORT tgt \<and> HasSwiftErrorHandling call
          then [SwiftErrorBusy (callNode call)] else [])"
    "placedArgRegs ls' = RBM_NONE" "numPlacedArgLocals ls' = 0"
proof -
  from assms obtain ctrlExpr candidates ls1 ls2 ls3 where
    c: "BuildCall_ctrlExpr call = Some ctrlExpr"
    and t: "BuildCall_target tgt compiler lsra call ctrlExpr ls = Some (candidates, ls1)"
    and u: "BuildCall_uses tgt compiler lsra call ctrlExpr candidates (0, ls1) = Some (srcCount, ls2)"
    and d: "BuildCall_defsAndKills compiler lsra call (fst (BuildCall_dstCount call))
       (fst (snd (BuildCall_dstCount call))) (snd (snd (BuildCall_dstCount call)))
       (BuildCall_singleDstCandidates tgt compiler call (fst (BuildCall_dstCount call)))
       (emit InternalRegisterUses ls2) = Some ls3"
    and l: "ls' = ((if SWIFT_SUPPORT tgt \<and> HasSwiftErrorHandling call
              then emit (SwiftErrorBusy (callNode call)) else id) ls3)
            \<lparr>placedArgRegs := RBM_NONE, numPlacedArgLocals := 0\<rparr>"
    by (rule BuildCall_Some)
  note g1 = BuildCall_target_emitted(1) [OF t]
  note g2 = grows_trans [OF g1 BuildCall_uses_emitted(1) [OF u]]
  have g2': "grows ls (emit InternalRegisterUses ls2)"
    "emitted ls (emit InternalRegisterUses ls2) = emitted ls ls2 @ [InternalRegisterUses]"
    using g2(1) by simp_all
  note g3 = grows_trans [OF g2'(1) BuildCall_defsAndKills_emitted(1) [OF d]]
  have "emitted ls ls' =
       emitted ls ls3 @
       (if SWIFT_SUPPORT tgt \<and> HasSwiftErrorHandling call
          then [SwiftErrorBusy (callNode call)] else [])"
    using g3(1) by (simp add: l)
  then have e: "emitted ls ls' =
       emitted ls ls1 @ emitted ls1 ls2 @ [InternalRegisterUses] @
       (if IsAsync call \<and> compIsAsync compiler \<and> \<not> IsFastTailCall call
          then [AsyncContinuationBusy (callNode call)] else []) @
       [if snd (snd (BuildCall_dstCount call)) > 0 then
          (if fst (BuildCall_dstCount call)
             then CallDefsWithKills (callNode call) (snd (snd (BuildCall_dstCount call)))
                    (GetABIReturnRegs (the (fst (snd (BuildCall_dstCount call)))))
                    (getKillSetForCall lsra call)
           else DefWithKills (callNode call)
                  (BuildCall_singleDstCandidates tgt compiler call (fst (BuildCall_dstCount call)))
                  (getKillSetForCall lsra call))
        else Kills (callNode call) (getKillSetForCall lsra call)] @
       (if SWIFT_SUPPORT tgt \<and> HasSwiftErrorHandling call
          then [SwiftErrorBusy (callNode call)] else [])"
    by (simp only: g3(2) g2'(2) g2(2) BuildCall_defsAndKills_emitted(2) [OF d] append_assoc)
  have p: "placedArgRegs ls' = RBM_NONE" "numPlacedArgLocals ls' = 0"
    by (simp_all add: l)
  show thesis using that [OF c t u e p] .
qed

lemma BuildCall_target_filters:
  assumes "BuildCall_target tgt compiler lsra call ctrlExpr ls = Some (candidates, ls')"
  shows "filter isUse (emitted ls ls') = []" "filter isDefOrKill (emitted ls ls') = []"
    "filter isAsyncContinuationBusy (emitted ls ls') = []"
    "\<forall>r\<in>set (emitted ls ls'). \<not> isDefOrKill r"
  using internalIntDef_filters [OF BuildCall_target_emitted(2) [OF assms]] by simp_all

lemmas BuildCall_eval_defs = BuildCall_def BuildCall_dstCount_def BuildCall_ctrlExpr_def
  BuildCall_target_def BuildCall_singleDstCandidates_def BuildCall_uses_def
  BuildCall_defsAndKills_def

lemmas ex_defs = exTarget64_def exTarget32_def exCompiler_def exLsra_def exLs_def exInfo_def
  exLeaf_def exNode_def exOperandUses_def exAddrUses_def

lemmas node_defs = OperIs_def TypeGet_def TypeIs_def isContained_def Addr_def Data_def Base_def
  Index_def Offset_def gtGetOp1_def OperIsAddrMode_def OperIsLocalRead_def

lemmas regset_defs = genSingleTypeRegMask_def genCountBits_def GetIntRegSet_def GetFloatRegSet_def
  getLow_def GetRegSetForType_Int_def AddRegNumInMask_def

text \<open>
  Claim C2. When the build of a call node completes, whatever the shape of the call and
  the path taken, the cross-call placement state is empty: \<open>placedArgRegs\<close> holds no
  register and \<open>numPlacedArgLocals\<close> is zero.
\<close>

theorem BuildCall_clears_placement:
  "BuildCall tgt compiler lsra call ls = Some (srcCount, ls') \<Longrightarrow>
   placedArgRegs ls' = RBM_NONE \<and> numPlacedArgLocals ls' = 0"
  by (erule BuildCall_trace) simp

lemma exTailCall_eval:
  "\<exists>ls'. BuildCall exTarget64 exCompiler exLsra exTailCall exLs = Some (1, ls')"
  by (simp add: BuildCall_eval_defs ex_defs node_defs regset_defs exTailCall_def exCallInfo_def
        assertion_def buildUses_def emitter_defs emit_def)

theorem BuildCall_clears_placement_witness:
  "placedArgRegs exLs = {3} \<and> numPlacedArgLocals exLs = 1 \<and>
   BuildCall exTarget64 exCompiler exLsra exTailCall exLs \<noteq> None \<and>
   placedArgRegs (snd (the (BuildCall exTarget64 exCompiler exLsra exTailCall exLs))) = RBM_NONE \<and>
   numPlacedArgLocals (snd (the (BuildCall exTarget64 exCompiler exLsra exTailCall exLs))) = 0"
proof -
  obtain ls' where e: "BuildCall exTarget64 exCompiler exLsra exTailCall exLs = Some (1, ls')"
    using exTailCall_eval by blast
  show ?thesis
    unfolding e using BuildCall_clears_placement [OF e] by (simp add: exLs_def)
qed

text \<open>
  Claim C10. A build of a call marks the async continuation busy exactly when the call is
  async, the method is compiled as async and the call is not a fast tail call; it marks it
  once, for the call node. For a fast tail call the marking never occurs.
\<close>

theorem BuildCall_async_marking:
  assumes "BuildCall tgt compiler lsra call ls = Some (srcCount, ls')"
  shows "filter isAsyncContinuationBusy (emitted ls ls') =
           (if IsAsync call \<and> compIsAsync compiler \<and> \<not> IsFastTailCall call
              then [AsyncContinuationBusy (callNode call)] else [])"
  using assms
  by (elim BuildCall_trace) (simp add: BuildCall_target_filters(3) BuildCall_uses_emitted(5))

lemma exAsyncCall_eval:
  "\<exists>ls'. BuildCall exTarget64 exCompiler exLsra exAsyncCall exLs = Some (0, ls')"
  by (simp add: BuildCall_eval_defs ex_defs node_defs regset_defs exAsyncCall_def exCallInfo_def
        assertion_def buildUses_def emitter_defs emit_def)

theorem BuildCall_async_marking_witness:
  "filter isAsyncContinuationBusy
     (emitted exLs (snd (the (BuildCall exTarget64 exCompiler exLsra exAsyncCall exLs)))) =
     [AsyncContinuationBusy (callNode exAsyncCall)] \<and>
   filter isAsyncContinuationBusy
     (emitted exLs (snd (the (BuildCall exTarget64 exCompiler exLsra exTailCall exLs)))) = []"
proof -
  obtain ls1 where e1: "BuildCall exTarget64 exCompiler exLsra exAsyncCall exLs = Some (0, ls1)"
    using exAsyncCall_eval by blast
  obtain ls2 where e2: "BuildCall exTarget64 exCompiler exLsra exTailCall exLs = Some (1, ls2)"
    using exTailCall_eval by blast
  show ?thesis
    unfolding e1 e2
    using BuildCall_async_marking [OF e1] BuildCall_async_marking [OF e2]
    by (simp add: exAsyncCall_def exTailCall_def exCallInfo_def exCompiler_def)
qed

text \<open>The count that \<^verbatim>\<open>BuildCall\<close> returns is the number of the uses it emitted.\<close>

lemma BuildCall_useCount:
  assumes "usesCounted lsra" "BuildCall tgt compiler lsra call ls = Some (srcCount, ls')"
  shows "srcCount = useCount ls ls'"
proof -
  have c: "countsItsUses (BuildCallArgUses lsra call)"
    using assms(1) by (simp add: usesCounted_def)
  show ?thesis
    using assms(2) c
    apply (elim BuildCall_trace)
    apply (frule BuildCall_uses_emitted(3))
    apply (simp add: useCount_def BuildCall_target_filters(1) BuildCall_uses_emitted(2)
             countsItsUses_def split: option.splits)
    done
qed

text \<open>
  Claim C7. The destination count of a call is the register count of its return type
  descriptor when it has a multi-register return value, 1 when it returns another value
  and 0 when it is void. The first definition or kill record of the build comes after all
  the uses and internal registers: it is the kill set combined with the definitions when
  the destination count is positive, and the kill set alone when it is zero. Only the
  marking of the Swift error register may follow it.
\<close>

theorem BuildCall_defs_and_kills:
  assumes "BuildCall tgt compiler lsra call ls = Some (srcCount, ls')"
    and "dstCount = snd (snd (BuildCall_dstCount call))"
  shows "dstCount =
           (if TypeIs (callNode call) TYP_VOID then 0
            else if HasMultiRegRetVal call then int (GetReturnRegCount (GetReturnTypeDesc call))
            else 1) \<and>
         dropWhile (\<lambda>r. \<not> isDefOrKill r) (emitted ls ls') =
           (if dstCount > 0 then
              (if HasMultiRegRetVal call
                 then CallDefsWithKills (callNode call) dstCount
                        (GetABIReturnRegs (GetReturnTypeDesc call)) (getKillSetForCall lsra call)
               else DefWithKills (callNode call)
                      (BuildCall_singleDstCandidates tgt compiler call False)
                      (getKillSetForCall lsra call))
            else Kills (callNode call) (getKillSetForCall lsra call)) #
           (if SWIFT_SUPPORT tgt \<and> HasSwiftErrorHandling call
              then [SwiftErrorBusy (callNode call)] else [])"
proof -
  have d: "dstCount =
           (if TypeIs (callNode call) TYP_VOID then 0
            else if HasMultiRegRetVal call then int (GetReturnRegCount (GetReturnTypeDesc call))
            else 1)"
    by (simp add: assms(2) BuildCall_dstCount_def)
  have m: "dstCount > 0 \<Longrightarrow> fst (BuildCall_dstCount call) = HasMultiRegRetVal call"
    "fst (BuildCall_dstCount call) \<Longrightarrow> fst (snd (BuildCall_dstCount call)) = Some (GetReturnTypeDesc call)"
    "\<not> fst (BuildCall_dstCount call) \<Longrightarrow>
       BuildCall_singleDstCandidates tgt compiler call (fst (BuildCall_dstCount call)) =
       BuildCall_singleDstCandidates tgt compiler call False"
    by (auto simp: assms(2) BuildCall_dstCount_def split: if_splits)
  have u: "\<And>rs. filter isDefOrKill rs = [] \<Longrightarrow> \<forall>r\<in>set rs. \<not> isDefOrKill r"
    by (simp add: filter_empty_conv)
  show ?thesis
    using assms(1)
    apply (elim BuildCall_trace)
    apply (rule conjI [OF d])
    apply (simp only: dropWhile_append)
    apply (simp add: BuildCall_target_filters(4) u [OF BuildCall_uses_emitted(4)]
             assms(2) [symmetric])
    using m by (auto simp: assms(2))
qed

theorem BuildCall_defs_and_kills_witness:
  "snd (snd (BuildCall_dstCount exAsyncCall)) = 1 \<and>
   dropWhile (\<lambda>r. \<not> isDefOrKill r)
     (emitted exLs (snd (the (BuildCall exTarget64 exCompiler exLsra exAsyncCall exLs)))) =
     [DefWithKills (callNode exAsyncCall) {0} {0, 1, 2, 16, 17, 30}] \<and>
   snd (snd (BuildCall_dstCount exTailCall)) = 0 \<and>
   dropWhile (\<lambda>r. \<not> isDefOrKill r)
     (emitted exLs (snd (the (BuildCall exTarget64 exCompiler exLsra exTailCall exLs)))) =
     [Kills (callNode exTailCall) {0, 1, 2, 16, 17, 30}]"
proof -
  obtain ls1 where e1: "BuildCall exTarget64 exCompiler exLsra exAsyncCall exLs = Some (0, ls1)"
    using exAsyncCall_eval by blast
  obtain ls2 where e2: "BuildCall exTarget64 exCompiler exLsra exTailCall exLs = Some (1, ls2)"
    using exTailCall_eval by blast
  show ?thesis
    unfolding e1 e2
    using BuildCall_defs_and_kills [OF e1 refl] BuildCall_defs_and_kills [OF e2 refl]
    by (simp add: exAsyncCall_def exTailCall_def exCallInfo_def exCompiler_def exTarget64_def
          exLsra_def exLeaf_def exInfo_def TypeIs_def TypeGet_def
          BuildCall_singleDstCandidates_def GetIntRegSet_def)
qed

text \<open>
  Claim C6. When a call target is present (the control expression, or the address of an
  indirect call) and the call is a fast tail call, the only uses of the build are the
  argument uses and then one use of the target. Line 174 restricts its candidates to the
  integer registers of \<^verbatim>\<open>RBM_INT_CALLEE_TRASH\<close> without the link register and, when the GS
  security cookie is needed, without the two cookie temporaries; the thread-local-storage
  sequence of \<^verbatim>\<open>TARGET_ARM64\<close> (lines 256 to 268) replaces them by the single register
  \<^verbatim>\<open>REG_R2\<close>. The register constants are the target's: provided that \<^verbatim>\<open>REG_R2\<close> is one of
  \<^verbatim>\<open>RBM_INT_CALLEE_TRASH\<close> and is neither the link register nor a cookie temporary, the
  candidates that the use carries are, on every path, registers of \<^verbatim>\<open>RBM_INT_CALLEE_TRASH\<close>
  other than the link register and, when the cookie is needed, other than the two cookie
  temporaries, and they are never empty.
\<close>

theorem BuildCall_fast_tail_call_target:
  assumes "BuildCall tgt compiler lsra call ls = Some (srcCount, ls')"
    and "BuildCall_ctrlExpr call = Some (Some target)"
    and "IsFastTailCall call"
    and "restricted =
           allRegs lsra TYP_INT \<inter> RBM_INT_CALLEE_TRASH tgt \<inter> - SRBM_LR tgt \<inter>
           (if getNeedsGSSecurityCookie compiler
              then - {REG_GSCOOKIE_TMP_0 tgt, REG_GSCOOKIE_TMP_1 tgt} else UNIV)"
    and "candidates = (if tlsSequence tgt compiler call target then {REG_R2 tgt} else restricted)"
    and "tlsSequence tgt compiler call target \<Longrightarrow>
           REG_R2 tgt \<in> RBM_INT_CALLEE_TRASH tgt \<and> REG_R2 tgt \<notin> SRBM_LR tgt \<and>
           (getNeedsGSSecurityCookie compiler \<longrightarrow>
              REG_R2 tgt \<noteq> REG_GSCOOKIE_TMP_0 tgt \<and> REG_R2 tgt \<noteq> REG_GSCOOKIE_TMP_1 tgt)"
  shows "filter isUse (emitted ls ls') =
           map (\<lambda>(node, candidates, idx). Use node candidates idx) (fst (BuildCallArgUses lsra call)) @
           [Use target candidates 0] \<and>
         candidates \<subseteq> RBM_INT_CALLEE_TRASH tgt \<and>
         candidates \<inter> SRBM_LR tgt = {} \<and>
         (getNeedsGSSecurityCookie compiler \<longrightarrow>
            REG_GSCOOKIE_TMP_0 tgt \<notin> candidates \<and> REG_GSCOOKIE_TMP_1 tgt \<notin> candidates) \<and>
         candidates \<noteq> RBM_NONE \<and>
         restricted \<noteq> RBM_NONE \<and>
         (\<not> tlsSequence tgt compiler call target \<longrightarrow> candidates \<subseteq> allRegs lsra TYP_INT)"
proof -
  from assms(1) obtain ctrlExpr cands ls1 ls2 where
    c: "BuildCall_ctrlExpr call = Some ctrlExpr"
    and t: "BuildCall_target tgt compiler lsra call ctrlExpr ls = Some (cands, ls1)"
    and u: "BuildCall_uses tgt compiler lsra call ctrlExpr cands (0, ls1) = Some (srcCount, ls2)"
    and e: "filter isUse (emitted ls ls') = filter isUse (emitted ls ls1) @ filter isUse (emitted ls1 ls2)"
    by (elim BuildCall_trace) simp
  have x: "ctrlExpr = Some target" using c assms(2) by simp
  note k = BuildCall_target_candidates [OF t [unfolded x]]
  have k1: "cands = restricted" using k(1) assms(3,4) by simp
  have k2: "restricted \<noteq> RBM_NONE" using k(2) assms(3) k1 by simp
  have 1: "filter isUse (emitted ls ls') =
           map (\<lambda>(node, candidates, idx). Use node candidates idx) (fst (BuildCallArgUses lsra call)) @
           [Use target candidates 0]"
    by (simp add: e BuildCall_target_filters(1) [OF t] BuildCall_uses_emitted(2) [OF u] x k1
          assms(5))
  show ?thesis
  proof (cases "tlsSequence tgt compiler call target")
    case True
    then show ?thesis using 1 k2 assms(6) by (auto simp: assms(5))
  next
    case False
    then show ?thesis using 1 k2 by (auto simp: assms(4,5))
  qed
qed

lemma exTlsTailCall_eval:
  "\<exists>ls'. BuildCall exTarget64 exCompilerAot exLsra exTlsTailCall exLs = Some (1, ls')"
  by (simp add: BuildCall_eval_defs ex_defs node_defs regset_defs exTlsTailCall_def exCallInfo_def
        exTlsTarget_def exCompilerAot_def assertion_def buildUses_def emitter_defs emit_def)

theorem BuildCall_fast_tail_call_target_witness:
  "filter isUse (emitted exLs (snd (the (BuildCall exTarget64 exCompiler exLsra exTailCall exLs)))) =
     [Use (exLeaf GT_LCL_VAR TYP_INT False) {0, 1, 2} 0] \<and>
   tlsSequence exTarget64 exCompilerAot exTlsTailCall exTlsTarget \<and>
   filter isUse
     (emitted exLs (snd (the (BuildCall exTarget64 exCompilerAot exLsra exTlsTailCall exLs)))) =
     [Use exTlsTarget {2} 0]"
proof -
  obtain ls1 where e1: "BuildCall exTarget64 exCompiler exLsra exTailCall exLs = Some (1, ls1)"
    using exTailCall_eval by blast
  obtain ls2 where e2: "BuildCall exTarget64 exCompilerAot exLsra exTlsTailCall exLs = Some (1, ls2)"
    using exTlsTailCall_eval by blast
  have c1: "BuildCall_ctrlExpr exTailCall = Some (Some (exLeaf GT_LCL_VAR TYP_INT False))"
    by (simp add: BuildCall_ctrlExpr_def exTailCall_def exCallInfo_def)
  have c2: "BuildCall_ctrlExpr exTlsTailCall = Some (Some exTlsTarget)"
    by (simp add: BuildCall_ctrlExpr_def exTlsTailCall_def exCallInfo_def)
  have f: "IsFastTailCall exTailCall" "IsFastTailCall exTlsTailCall"
    by (simp_all add: exTailCall_def exTlsTailCall_def exCallInfo_def)
  have n: "\<not> tlsSequence exTarget64 exCompiler exTailCall (exLeaf GT_LCL_VAR TYP_INT False)"
    by (simp add: tlsSequence_def exCompiler_def)
  have y: "tlsSequence exTarget64 exCompilerAot exTlsTailCall exTlsTarget"
    by (simp add: tlsSequence_def exCompilerAot_def exCompiler_def exTarget64_def
          exTlsTailCall_def exCallInfo_def exTlsTarget_def exInfo_def)
  have r: "REG_R2 exTarget64 \<in> RBM_INT_CALLEE_TRASH exTarget64 \<and>
           REG_R2 exTarget64 \<notin> SRBM_LR exTarget64 \<and>
           (getNeedsGSSecurityCookie exCompilerAot \<longrightarrow>
              REG_R2 exTarget64 \<noteq> REG_GSCOOKIE_TMP_0 exTarget64 \<and>
              REG_R2 exTarget64 \<noteq> REG_GSCOOKIE_TMP_1 exTarget64)"
    by (simp add: exTarget64_def)
  have x1: "filter isUse (emitted exLs ls1) = [Use (exLeaf GT_LCL_VAR TYP_INT False) {0, 1, 2} 0]"
    using BuildCall_fast_tail_call_target [OF e1 c1 f(1) refl refl] n
    by (auto simp: exCompiler_def exTarget64_def exLsra_def)
  have x2: "filter isUse (emitted exLs ls2) = [Use exTlsTarget {2} 0]"
    using BuildCall_fast_tail_call_target [OF e2 c2 f(2) refl refl r] y
    by (simp add: exLsra_def exTarget64_def)
  show ?thesis
    unfolding e1 e2 using x1 x2 y by simp
qed

section \<open>BuildBlockStore\<close>

lemma BuildBlockStore_InitBlk_emitted:
  assumes "BuildBlockStore_InitBlk tgt lsra blkNode dstAddr blkSize ls = Some ls'"
  shows "grows ls ls'" "filter isUse (emitted ls ls') = []"
  using assms unfolding BuildBlockStore_InitBlk_def buildInternalIntRegisterDefForNode_def
    buildInternalFloatRegisterDefForNode_def Let_def unreached_def
  by (auto split: if_splits BlkOpKind.splits)

lemma BuildBlockStore_CpObjUnroll_emitted:
  assumes "BuildBlockStore_CpObjUnroll tgt compiler lsra blkNode srcAddrOrFill blkSize ls =
             Some (dstAddrRegMask, srcRegMask, ls')"
  shows "grows ls ls'"
    "emitted ls ls' =
       InternalIntDef (blkTree blkNode)
         (allRegs lsra TYP_INT \<inter> - {REG_WRITE_BARRIER_DST_BYREF tgt, REG_WRITE_BARRIER_SRC_BYREF tgt}) #
       (if blkSize \<ge> 2 * REGSIZE_BYTES tgt
          then [InternalIntDef (blkTree blkNode)
                  (allRegs lsra TYP_INT \<inter>
                   - {REG_WRITE_BARRIER_DST_BYREF tgt, REG_WRITE_BARRIER_SRC_BYREF tgt})]
        else []) @
       (if blkSize \<ge> 4 * REGSIZE_BYTES tgt \<and> IsBaselineSimdIsaSupported compiler
          then [InternalFloatDef (blkTree blkNode) (internalFloatRegCandidates lsra),
                InternalFloatDef (blkTree blkNode) (internalFloatRegCandidates lsra)]
        else [])"
    "dstAddrRegMask = {REG_WRITE_BARRIER_DST_BYREF tgt}"
    "srcRegMask = (case srcAddrOrFill of None \<Rightarrow> RBM_NONE
                   | Some srcAddr \<Rightarrow> {REG_WRITE_BARRIER_SRC_BYREF tgt})"
    "\<And>srcAddr. srcAddrOrFill = Some srcAddr \<Longrightarrow> \<not> isContained srcAddr"
  using assms unfolding BuildBlockStore_CpObjUnroll_def buildInternalIntRegisterDefForNode_def
    buildInternalFloatRegisterDefForNode_def Let_def assertion_def regset_defs
    RBM_WRITE_BARRIER_DST_BYREF_def RBM_WRITE_BARRIER_SRC_BYREF_def
  by (auto split: if_splits option.splits Option.bind_splits simp: insert_commute)

lemma BuildBlockStore_Unroll_emitted:
  "grows ls (BuildBlockStore_Unroll tgt lsra blkNode dstAddr src srcAddrOrFill blkSize ls)"
  "emitted ls (BuildBlockStore_Unroll tgt lsra blkNode dstAddr src srcAddrOrFill blkSize ls) =
     InternalIntDef (blkTree blkNode) RBM_NONE #
     (if arch tgt = TARGET_ARM64 then
        (if blkSize \<ge> 2 * REGSIZE_BYTES tgt then [InternalIntDef (blkTree blkNode) RBM_NONE] else []) @
        (if blkSize \<ge> 2 * FP_REGSIZE_BYTES
           then [InternalFloatDef (blkTree blkNode) (internalFloatRegCandidates lsra),
                 InternalFloatDef (blkTree blkNode) (internalFloatRegCandidates lsra)]
         else []) @
        (if (OperIs src [GT_LCL_VAR, GT_LCL_FLD] \<or>
             (case srcAddrOrFill of None \<Rightarrow> False
              | Some srcAddr \<Rightarrow> OperIs srcAddr [GT_LCL_ADDR] \<or> isContained srcAddr)) \<and>
            (OperIs dstAddr [GT_LCL_ADDR] \<or> isContained dstAddr)
           then [InternalIntDef (blkTree blkNode) RBM_NONE] else [])
      else [])"
  unfolding BuildBlockStore_Unroll_def buildInternalIntRegisterDefForNode_def
    buildInternalFloatRegisterDefForNode_def Let_def
  by (auto split: option.splits)

lemma BuildBlockStore_simdRegs_emitted:
  "grows ls (BuildBlockStore_simdRegs lsra blkNode simdRegs i ls) \<and>
   emitted ls (BuildBlockStore_simdRegs lsra blkNode simdRegs i ls) =
     replicate (simdRegs - i) (InternalFloatDef (blkTree blkNode) (internalFloatRegCandidates lsra))"
proof (induction lsra blkNode simdRegs i ls rule: BuildBlockStore_simdRegs.induct)
  case (1 lsra blkNode simdRegs i ls)
  show ?case
  proof (cases "i < simdRegs")
    case True
    let ?r = "InternalFloatDef (blkTree blkNode) (internalFloatRegCandidates lsra)"
    let ?ls1 = "emit ?r ls"
    have ih: "grows ?ls1 (BuildBlockStore_simdRegs lsra blkNode simdRegs (i + 1) ?ls1)"
      "emitted ?ls1 (BuildBlockStore_simdRegs lsra blkNode simdRegs (i + 1) ?ls1) =
         replicate (simdRegs - (i + 1)) ?r"
      using "1.IH" [OF True] by (simp_all add: buildInternalFloatRegisterDefForNode_def)
    have g: "grows ls ?ls1" "emitted ls ?ls1 = [?r]" by simp_all
    note t = grows_trans [OF g(1) ih(1)]
    have s: "simdRegs - i = Suc (simdRegs - (i + 1))" using True by simp
    have u: "BuildBlockStore_simdRegs lsra blkNode simdRegs i ls =
             BuildBlockStore_simdRegs lsra blkNode simdRegs (i + 1) ?ls1"
      using True
      by (subst BuildBlockStore_simdRegs.simps) (simp add: buildInternalFloatRegisterDefForNode_def)
    have "emitted ls (BuildBlockStore_simdRegs lsra blkNode simdRegs (i + 1) ?ls1) =
            ?r # replicate (simdRegs - (i + 1)) ?r"
      using t(2) by (simp only: g(2) ih(2) append.simps)
    then have "emitted ls (BuildBlockStore_simdRegs lsra blkNode simdRegs (i + 1) ?ls1) =
            replicate (simdRegs - i) ?r"
      by (simp only: s replicate.simps)
    then show ?thesis
      unfolding u using t(1) by (rule_tac conjI)
  next
    case False
    then show ?thesis
      by (subst (1 2) BuildBlockStore_simdRegs.simps) simp
  qed
qed

lemma simdRegs_round_up:
  "(if blkSize mod 16 \<noteq> 0 then blkSize div 16 + 1 else blkSize div 16) = (blkSize + 15) div (16::nat)"
proof -
  define q where "q = blkSize div 16"
  define r where "r = blkSize mod 16"
  have b: "blkSize = 16 * q + r" and r: "r < 16"
    by (simp_all add: q_def r_def)
  have 1: "(r + 15) div 16 = (if r = 0 then 0 else 1)"
    using r by (simp add: div_nat_eqI)
  have "(blkSize + 15) div 16 = (16 * q + (r + 15)) div 16"
    by (simp only: b add.assoc)
  also have "\<dots> = q + (r + 15) div 16"
    by simp
  finally have 2: "(blkSize + 15) div 16 = q + (if r = 0 then 0 else 1)"
    by (simp only: 1)
  show ?thesis
    unfolding 2 unfolding q_def r_def by simp
qed

lemma BuildBlockStore_UnrollMemmove_emitted:
  assumes "BuildBlockStore_UnrollMemmove tgt lsra blkNode blkSize ls = Some ls'"
  shows "grows ls ls'"
    "emitted ls ls' =
       (if blkSize \<ge> 16
          then replicate ((blkSize + 15) div 16)
                 (InternalFloatDef (blkTree blkNode) (internalFloatRegCandidates lsra))
        else if isPow2 blkSize then [InternalIntDef (blkTree blkNode) (availableIntRegs ls)]
        else [InternalIntDef (blkTree blkNode) (availableIntRegs ls),
              InternalIntDef (blkTree blkNode) (availableIntRegs ls)])"
    "arch tgt = TARGET_ARM64" "blkSize > 0"
proof -
  define simdRegs where
    "simdRegs = (if blkSize mod FP_REGSIZE_BYTES \<noteq> 0 then blkSize div FP_REGSIZE_BYTES + 1
                 else blkSize div FP_REGSIZE_BYTES)"
  have k: "simdRegs = (blkSize + 15) div 16"
    unfolding simdRegs_def FP_REGSIZE_BYTES_def by (rule simdRegs_round_up)
  have a: "arch tgt = TARGET_ARM64"
    using assms unfolding BuildBlockStore_UnrollMemmove_def unreached_def
    by (cases "arch tgt = TARGET_ARM64") simp_all
  have b: "blkSize > 0"
    using assms a unfolding BuildBlockStore_UnrollMemmove_def assertion_def
    by (cases "blkSize > 0") simp_all
  have r: "ls' =
      (if blkSize \<ge> FP_REGSIZE_BYTES then BuildBlockStore_simdRegs lsra blkNode simdRegs 0 ls
       else if isPow2 blkSize
         then emit (InternalIntDef (blkTree blkNode) (availableIntRegs ls)) ls
       else emit (InternalIntDef (blkTree blkNode) (availableIntRegs ls))
              (emit (InternalIntDef (blkTree blkNode) (availableIntRegs ls)) ls))"
    using assms a b
    unfolding BuildBlockStore_UnrollMemmove_def assertion_def Let_def simdRegs_def
      buildInternalIntRegisterDefForNode_def
    by (simp split: if_splits)
  have f: "(blkSize \<ge> FP_REGSIZE_BYTES) = (blkSize \<ge> 16)"
    by (simp add: FP_REGSIZE_BYTES_def)
  show "grows ls ls'"
    unfolding r by (simp add: BuildBlockStore_simdRegs_emitted)
  show "emitted ls ls' =
       (if blkSize \<ge> 16
          then replicate ((blkSize + 15) div 16)
                 (InternalFloatDef (blkTree blkNode) (internalFloatRegCandidates lsra))
        else if isPow2 blkSize then [InternalIntDef (blkTree blkNode) (availableIntRegs ls)]
        else [InternalIntDef (blkTree blkNode) (availableIntRegs ls),
              InternalIntDef (blkTree blkNode) (availableIntRegs ls)])"
    unfolding r f by (simp add: BuildBlockStore_simdRegs_emitted k)
  show "arch tgt = TARGET_ARM64" by (rule a)
  show "blkSize > 0" by (rule b)
qed

lemma BuildBlockStore_AddrUse_emitted:
  "grows ls (snd (BuildBlockStore_AddrUse lsra addr regMask (n0, ls)))"
  "emitted ls (snd (BuildBlockStore_AddrUse lsra addr regMask (n0, ls))) =
     (if \<not> isContained addr then [Use addr regMask 0]
      else if OperIsAddrMode addr
        then map (\<lambda>(node, candidates, idx). Use node candidates idx) (fst (BuildAddrUses lsra (Base addr)))
      else [])"
  "fst (BuildBlockStore_AddrUse lsra addr regMask (n0, ls)) =
     n0 + (if \<not> isContained addr then 1
                 else if OperIsAddrMode addr then snd (BuildAddrUses lsra (Base addr)) else 0)"
  unfolding BuildBlockStore_AddrUse_def BuildUse_def
  by (auto split: prod.splits simp: buildUses_eq)

lemma BuildBlockStore_strategy_init:
  assumes "BuildBlockStore_strategy tgt compiler lsra blkNode dstAddr src blkSize ls =
             Some (srcAddrOrFill, dstAddrRegMask, srcRegMask, ls')"
    and "OperIsInitBlkOp blkNode"
  shows "BuildBlockStore_InitBlk tgt lsra blkNode dstAddr blkSize ls = Some ls'"
  using assms unfolding BuildBlockStore_strategy_def
  by (simp split: Option.bind_splits)

lemma BuildBlockStore_strategy_copy:
  assumes "BuildBlockStore_strategy tgt compiler lsra blkNode dstAddr src blkSize ls =
             Some (srcAddrOrFill, dstAddrRegMask, srcRegMask, ls')"
    and "\<not> OperIsInitBlkOp blkNode"
  shows "srcAddrOrFill = (if OperIs src [GT_IND] then Addr src else None)"
    "gtBlkOpKind blkNode = BlkOpKindCpObjUnroll \<Longrightarrow>
       BuildBlockStore_CpObjUnroll tgt compiler lsra blkNode srcAddrOrFill blkSize ls =
         Some (dstAddrRegMask, srcRegMask, ls')"
    "gtBlkOpKind blkNode = BlkOpKindUnroll \<Longrightarrow>
       ls' = BuildBlockStore_Unroll tgt lsra blkNode dstAddr src srcAddrOrFill blkSize ls"
    "gtBlkOpKind blkNode = BlkOpKindUnrollMemmove \<Longrightarrow>
       BuildBlockStore_UnrollMemmove tgt lsra blkNode blkSize ls = Some ls'"
    "gtBlkOpKind blkNode \<noteq> BlkOpKindInvalid" "gtBlkOpKind blkNode \<noteq> BlkOpKindLoop"
proof -
  from assms have b: "Option.bind
     (if OperIs src [GT_IND] then Option.bind (assertion (isContained src)) (\<lambda>_. Some (Addr src))
      else Some None)
     (\<lambda>srcAddrOrFill.
        case gtBlkOpKind blkNode of
          BlkOpKindCpObjUnroll \<Rightarrow>
            Option.bind (BuildBlockStore_CpObjUnroll tgt compiler lsra blkNode srcAddrOrFill blkSize ls)
              (\<lambda>(dstAddrRegMask, srcRegMask, ls). Some (srcAddrOrFill, dstAddrRegMask, srcRegMask, ls))
        | BlkOpKindUnroll \<Rightarrow>
            Some (srcAddrOrFill, RBM_NONE, RBM_NONE,
                  BuildBlockStore_Unroll tgt lsra blkNode dstAddr src srcAddrOrFill blkSize ls)
        | BlkOpKindUnrollMemmove \<Rightarrow>
            Option.bind (BuildBlockStore_UnrollMemmove tgt lsra blkNode blkSize ls)
              (\<lambda>ls. Some (srcAddrOrFill, RBM_NONE, RBM_NONE, ls))
        | _ \<Rightarrow> unreached) =
     Some (srcAddrOrFill, dstAddrRegMask, srcRegMask, ls')"
    unfolding BuildBlockStore_strategy_def by simp
  then obtain sa where
    sa: "(if OperIs src [GT_IND] then Option.bind (assertion (isContained src)) (\<lambda>_. Some (Addr src))
          else Some None) = Some sa"
    and k: "(case gtBlkOpKind blkNode of
          BlkOpKindCpObjUnroll \<Rightarrow>
            Option.bind (BuildBlockStore_CpObjUnroll tgt compiler lsra blkNode sa blkSize ls)
              (\<lambda>(dstAddrRegMask, srcRegMask, ls). Some (sa, dstAddrRegMask, srcRegMask, ls))
        | BlkOpKindUnroll \<Rightarrow>
            Some (sa, RBM_NONE, RBM_NONE,
                  BuildBlockStore_Unroll tgt lsra blkNode dstAddr src sa blkSize ls)
        | BlkOpKindUnrollMemmove \<Rightarrow>
            Option.bind (BuildBlockStore_UnrollMemmove tgt lsra blkNode blkSize ls)
              (\<lambda>ls. Some (sa, RBM_NONE, RBM_NONE, ls))
        | _ \<Rightarrow> unreached) =
     Some (srcAddrOrFill, dstAddrRegMask, srcRegMask, ls')"
    by (auto simp: bind_eq_Some_conv)
  have sa': "sa = (if OperIs src [GT_IND] then Addr src else None)"
    using sa by (auto simp: assertion_def split: if_splits Option.bind_splits)
  have e: "sa = srcAddrOrFill"
    using k by (cases "gtBlkOpKind blkNode") (auto simp: unreached_def split: Option.bind_splits)
  show "srcAddrOrFill = (if OperIs src [GT_IND] then Addr src else None)"
    using sa' e by simp
  show "gtBlkOpKind blkNode = BlkOpKindCpObjUnroll \<Longrightarrow>
       BuildBlockStore_CpObjUnroll tgt compiler lsra blkNode srcAddrOrFill blkSize ls =
         Some (dstAddrRegMask, srcRegMask, ls')"
    using k e by (auto split: Option.bind_splits)
  show "gtBlkOpKind blkNode = BlkOpKindUnroll \<Longrightarrow>
       ls' = BuildBlockStore_Unroll tgt lsra blkNode dstAddr src srcAddrOrFill blkSize ls"
    using k e by auto
  show "gtBlkOpKind blkNode = BlkOpKindUnrollMemmove \<Longrightarrow>
       BuildBlockStore_UnrollMemmove tgt lsra blkNode blkSize ls = Some ls'"
    using k e by (auto split: Option.bind_splits)
  show "gtBlkOpKind blkNode \<noteq> BlkOpKindInvalid" "gtBlkOpKind blkNode \<noteq> BlkOpKindLoop"
    using k by (auto simp: unreached_def)
qed

lemma BuildBlockStore_strategy_emitted:
  assumes "BuildBlockStore_strategy tgt compiler lsra blkNode dstAddr src blkSize ls =
             Some (srcAddrOrFill, dstAddrRegMask, srcRegMask, ls')"
  shows "grows ls ls' \<and> filter isUse (emitted ls ls') = []"
proof (cases "OperIsInitBlkOp blkNode")
  case True
  show ?thesis
    using BuildBlockStore_InitBlk_emitted [OF BuildBlockStore_strategy_init [OF assms True]]
    by simp
next
  case False
  note c = BuildBlockStore_strategy_copy [OF assms False]
  show ?thesis
  proof (cases "gtBlkOpKind blkNode")
    case BlkOpKindInvalid
    then show ?thesis using c(5) by simp
  next
    case BlkOpKindCpObjUnroll
    show ?thesis
      using BuildBlockStore_CpObjUnroll_emitted(1,2) [OF c(2) [OF BlkOpKindCpObjUnroll]]
      by simp
  next
    case BlkOpKindLoop
    then show ?thesis using c(6) by simp
  next
    case BlkOpKindUnroll
    show ?thesis
      unfolding c(3) [OF BlkOpKindUnroll]
      by (simp add: BuildBlockStore_Unroll_emitted)
  next
    case BlkOpKindUnrollMemmove
    show ?thesis
      using BuildBlockStore_UnrollMemmove_emitted(1,2) [OF c(4) [OF BlkOpKindUnrollMemmove]]
      by simp
  qed
qed

lemma BuildBlockStore_trace:
  assumes "BuildBlockStore tgt compiler lsra blkNode ls = Some (n, ls')"
  obtains dstAddr src srcAddrOrFill dstAddrRegMask srcRegMask ls1 where
    "Addr (blkTree blkNode) = Some dstAddr"
    "Data (blkTree blkNode) = Some src"
    "BuildBlockStore_strategy tgt compiler lsra blkNode dstAddr src (Size blkNode) ls =
       Some (srcAddrOrFill, dstAddrRegMask, srcRegMask, ls1)"
    "emitted ls ls' =
       emitted ls ls1 @
       emitted ls1 (snd (BuildBlockStore_AddrUse lsra dstAddr dstAddrRegMask (0, ls1))) @
       (case srcAddrOrFill of None \<Rightarrow> []
        | Some srcAddr \<Rightarrow> emitted ls1 (snd (BuildBlockStore_AddrUse lsra srcAddr srcRegMask (0, ls1)))) @
       [InternalRegisterUses, Kills (blkTree blkNode) (getKillSetForBlockStore lsra blkNode)]"
    "n = fst (BuildBlockStore_AddrUse lsra dstAddr dstAddrRegMask (0, ls1)) +
         (case srcAddrOrFill of None \<Rightarrow> 0
          | Some srcAddr \<Rightarrow> fst (BuildBlockStore_AddrUse lsra srcAddr srcRegMask (0, ls1)))"
proof -
  have "\<exists>dstAddr src srcAddrOrFill dstAddrRegMask srcRegMask ls1 ls2.
    Addr (blkTree blkNode) = Some dstAddr \<and> Data (blkTree blkNode) = Some src \<and>
    BuildBlockStore_strategy tgt compiler lsra blkNode dstAddr src (Size blkNode) ls =
       Some (srcAddrOrFill, dstAddrRegMask, srcRegMask, ls1) \<and>
    (case srcAddrOrFill of
       Some srcAddr \<Rightarrow>
         BuildBlockStore_AddrUse lsra srcAddr srcRegMask
           (BuildBlockStore_AddrUse lsra dstAddr dstAddrRegMask (0, ls1))
     | None \<Rightarrow> BuildBlockStore_AddrUse lsra dstAddr dstAddrRegMask (0, ls1)) = (n, ls2) \<and>
    ls' = emit (Kills (blkTree blkNode) (getKillSetForBlockStore lsra blkNode))
            (emit InternalRegisterUses ls2)"
    using assms unfolding BuildBlockStore_def Let_def buildInternalRegisterUses_def BuildKills_def
    by (auto split: Option.bind_splits prod.splits)
  then obtain dstAddr src srcAddrOrFill dstAddrRegMask srcRegMask ls1 lsU where
    a: "Addr (blkTree blkNode) = Some dstAddr" and d: "Data (blkTree blkNode) = Some src"
    and s: "BuildBlockStore_strategy tgt compiler lsra blkNode dstAddr src (Size blkNode) ls =
       Some (srcAddrOrFill, dstAddrRegMask, srcRegMask, ls1)"
    and r: "(case srcAddrOrFill of
       Some srcAddr \<Rightarrow>
         BuildBlockStore_AddrUse lsra srcAddr srcRegMask
           (BuildBlockStore_AddrUse lsra dstAddr dstAddrRegMask (0, ls1))
     | None \<Rightarrow> BuildBlockStore_AddrUse lsra dstAddr dstAddrRegMask (0, ls1)) = (n, lsU)"
    and k: "ls' = emit (Kills (blkTree blkNode) (getKillSetForBlockStore lsra blkNode))
            (emit InternalRegisterUses lsU)"
    by blast
  define n1 where "n1 = fst (BuildBlockStore_AddrUse lsra dstAddr dstAddrRegMask (0, ls1))"
  define ls2 where "ls2 = snd (BuildBlockStore_AddrUse lsra dstAddr dstAddrRegMask (0, ls1))"
  have p: "BuildBlockStore_AddrUse lsra dstAddr dstAddrRegMask (0, ls1) = (n1, ls2)"
    by (simp add: n1_def ls2_def)
  note g1 = conjunct1 [OF BuildBlockStore_strategy_emitted [OF s]]
  have g12: "grows ls1 ls2"
    unfolding ls2_def by (rule BuildBlockStore_AddrUse_emitted(1))
  note g2 = grows_trans [OF g1 g12]
  have e: "emitted ls ls' =
       emitted ls ls1 @ emitted ls1 ls2 @
       (case srcAddrOrFill of None \<Rightarrow> []
        | Some srcAddr \<Rightarrow> emitted ls1 (snd (BuildBlockStore_AddrUse lsra srcAddr srcRegMask (0, ls1)))) @
       [InternalRegisterUses, Kills (blkTree blkNode) (getKillSetForBlockStore lsra blkNode)]"
  proof (cases srcAddrOrFill)
    case None
    then show ?thesis using r k g2 by (simp add: p)
  next
    case (Some srcAddr)
    define ls3 where "ls3 = snd (BuildBlockStore_AddrUse lsra srcAddr srcRegMask (n1, ls2))"
    have g23: "grows ls2 ls3"
      unfolding ls3_def by (rule BuildBlockStore_AddrUse_emitted(1))
    note g3 = grows_trans [OF g2(1) g23]
    have i: "emitted ls2 ls3 = emitted ls1 (snd (BuildBlockStore_AddrUse lsra srcAddr srcRegMask (0, ls1)))"
      unfolding ls3_def by (simp only: BuildBlockStore_AddrUse_emitted(2))
    have "ls' = emit (Kills (blkTree blkNode) (getKillSetForBlockStore lsra blkNode))
                  (emit InternalRegisterUses ls3)"
      using r k by (simp add: Some p ls3_def split: prod.splits)
    then show ?thesis
      using g3(1) by (simp add: Some g3(2) g2(2) i)
  qed
  have c: "n = n1 +
         (case srcAddrOrFill of None \<Rightarrow> 0
          | Some srcAddr \<Rightarrow> fst (BuildBlockStore_AddrUse lsra srcAddr srcRegMask (0, ls1)))"
    using arg_cong [OF r, of fst]
    by (auto simp: p BuildBlockStore_AddrUse_emitted(3) split: option.splits)
  show thesis
    using that [OF a d s e [unfolded ls2_def] c [unfolded n1_def]] .
qed

lemma BuildBlockStore_useCount:
  assumes "usesCounted lsra" "BuildBlockStore tgt compiler lsra blkNode ls = Some (n, ls')"
  shows "n = useCount ls ls'"
proof -
  have c: "\<And>t. snd (BuildAddrUses lsra t) = int (length (fst (BuildAddrUses lsra t)))"
    using assms(1) by (simp add: usesCounted_def countsItsUses_def)
  show ?thesis
    using assms(2)
    apply (elim BuildBlockStore_trace)
    apply (frule BuildBlockStore_strategy_emitted)
    apply (simp add: useCount_def BuildBlockStore_AddrUse_emitted(2,3) c split: option.splits)
    done
qed

lemma internalIntCandidates_append [simp]:
  "internalIntCandidates (xs @ ys) = internalIntCandidates xs @ internalIntCandidates ys"
  by (induction xs rule: internalIntCandidates.induct) simp_all

lemma useCandidates_append [simp]:
  "useCandidates (xs @ ys) = useCandidates xs @ useCandidates ys"
  by (induction xs rule: useCandidates.induct) simp_all

lemma internalIntCandidates_map_Use [simp]:
  "internalIntCandidates (map (\<lambda>(node, candidates, idx). Use node candidates idx) us) = []"
  by (induction us) auto

lemma filter_replicate_InternalFloatDef [simp]:
  "filter isInternalFloatDef (replicate k (InternalFloatDef node candidates)) =
     replicate k (InternalFloatDef node candidates)"
  "filter isInternalIntDef (replicate k (InternalFloatDef node candidates)) = []"
  by (induction k) simp_all

lemmas BuildBlockStore_eval_defs = BuildBlockStore_def BuildBlockStore_strategy_def
  BuildBlockStore_InitBlk_def BuildBlockStore_CpObjUnroll_def BuildBlockStore_Unroll_def
  BuildBlockStore_UnrollMemmove_def BuildBlockStore_AddrUse_def REGSIZE_BYTES_def
  FP_REGSIZE_BYTES_def RBM_WRITE_BARRIER_DST_BYREF_def RBM_WRITE_BARRIER_SRC_BYREF_def
  exCopyBlk_def exDstAddr_def exSrcAddr_def

text \<open>
  Claim C4. A completed build of a block copy with the \<^verbatim>\<open>BlkOpKindUnrollMemmove\<close> strategy
  has a size above zero. When the size is at least one vector-register width (16 bytes) it
  reserves exactly \<open>(size + 15) div 16\<close> scratch vector registers, the size divided by 16 and
  rounded up, and no scratch integer register. Below 16 bytes it reserves exactly one
  scratch integer register when the size is a power of two, and exactly two otherwise.
\<close>

theorem BuildBlockStore_memmove_scratch:
  assumes "BuildBlockStore tgt compiler lsra blkNode ls = Some (n, ls')"
    and "\<not> OperIsInitBlkOp blkNode"
    and "gtBlkOpKind blkNode = BlkOpKindUnrollMemmove"
  shows "Size blkNode > 0 \<and>
         (if Size blkNode \<ge> FP_REGSIZE_BYTES
            then internalFloatRegs ls ls' = (Size blkNode + 15) div 16 \<and> internalIntRegs ls ls' = 0
          else if isPow2 (Size blkNode)
            then internalIntRegs ls ls' = 1 \<and> internalFloatRegs ls ls' = 0
          else internalIntRegs ls ls' = 2 \<and> internalFloatRegs ls ls' = 0)"
proof -
  from assms(1) obtain dstAddr src srcAddrOrFill dstAddrRegMask srcRegMask ls1 where
    s: "BuildBlockStore_strategy tgt compiler lsra blkNode dstAddr src (Size blkNode) ls =
       Some (srcAddrOrFill, dstAddrRegMask, srcRegMask, ls1)"
    and e: "emitted ls ls' =
       emitted ls ls1 @
       emitted ls1 (snd (BuildBlockStore_AddrUse lsra dstAddr dstAddrRegMask (0, ls1))) @
       (case srcAddrOrFill of None \<Rightarrow> []
        | Some srcAddr \<Rightarrow> emitted ls1 (snd (BuildBlockStore_AddrUse lsra srcAddr srcRegMask (0, ls1)))) @
       [InternalRegisterUses, Kills (blkTree blkNode) (getKillSetForBlockStore lsra blkNode)]"
    by (rule BuildBlockStore_trace)
  note m = BuildBlockStore_UnrollMemmove_emitted(2,4)
             [OF BuildBlockStore_strategy_copy(4) [OF s assms(2,3)]]
  show ?thesis
    using m(2)
    by (simp add: internalIntRegs_def internalFloatRegs_def e m(1)
          BuildBlockStore_AddrUse_emitted(2) FP_REGSIZE_BYTES_def split: option.splits)
qed

lemma exMemmove_eval:
  "blkSize > 0 \<Longrightarrow>
   \<exists>ls'. BuildBlockStore exTarget64 exCompiler exLsra
           (exCopyBlk BlkOpKindUnrollMemmove blkSize exDstAddr exSrcAddr) exLs = Some (2, ls')"
  by (simp add: BuildBlockStore_eval_defs ex_defs node_defs assertion_def buildUses_def
        emitter_defs emit_def Let_def)

theorem BuildBlockStore_memmove_scratch_witness:
  "internalFloatRegs exLs (snd (the (BuildBlockStore exTarget64 exCompiler exLsra
      (exCopyBlk BlkOpKindUnrollMemmove 16 exDstAddr exSrcAddr) exLs))) = 1 \<and>
   internalIntRegs exLs (snd (the (BuildBlockStore exTarget64 exCompiler exLsra
      (exCopyBlk BlkOpKindUnrollMemmove 16 exDstAddr exSrcAddr) exLs))) = 0 \<and>
   internalIntRegs exLs (snd (the (BuildBlockStore exTarget64 exCompiler exLsra
      (exCopyBlk BlkOpKindUnrollMemmove 8 exDstAddr exSrcAddr) exLs))) = 1 \<and>
   internalIntRegs exLs (snd (the (BuildBlockStore exTarget64 exCompiler exLsra
      (exCopyBlk BlkOpKindUnrollMemmove 3 exDstAddr exSrcAddr) exLs))) = 2"
proof -
  obtain ls16 where e16: "BuildBlockStore exTarget64 exCompiler exLsra
      (exCopyBlk BlkOpKindUnrollMemmove 16 exDstAddr exSrcAddr) exLs = Some (2, ls16)"
    using exMemmove_eval [of 16] by auto
  obtain ls8 where e8: "BuildBlockStore exTarget64 exCompiler exLsra
      (exCopyBlk BlkOpKindUnrollMemmove 8 exDstAddr exSrcAddr) exLs = Some (2, ls8)"
    using exMemmove_eval [of 8] by auto
  obtain ls3 where e3: "BuildBlockStore exTarget64 exCompiler exLsra
      (exCopyBlk BlkOpKindUnrollMemmove 3 exDstAddr exSrcAddr) exLs = Some (2, ls3)"
    using exMemmove_eval [of 3] by auto
  have p: "isPow2 8" "\<not> isPow2 3"
    by (simp_all add: isPow2_def upt_conv_Cons)
  show ?thesis
    unfolding e16 e8 e3
    using BuildBlockStore_memmove_scratch [OF e16] BuildBlockStore_memmove_scratch [OF e8]
      BuildBlockStore_memmove_scratch [OF e3] p
    by (simp add: exCopyBlk_def FP_REGSIZE_BYTES_def)
qed

text \<open>
  The unrolled copy of 32 bytes between two addresses that are neither locals nor
  contained reserves two scratch vector registers, where the spec's rule gives none: the
  source reserves them on the size alone.
\<close>

theorem BuildBlockStore_Unroll_vectorRegs_counterexample:
  "Size (exCopyBlk BlkOpKindUnroll 32 exDstAddr exSrcAddr) \<ge> 2 * FP_REGSIZE_BYTES \<and>
   internalFloatRegs exLs (snd (the (BuildBlockStore exTarget64 exCompiler exLsra
      (exCopyBlk BlkOpKindUnroll 32 exDstAddr exSrcAddr) exLs))) = 2 \<and>
   spec_Unroll_vectorRegs exDstAddr (exNode GT_IND TYP_STRUCT True (Some exSrcAddr) None) 32 = 0"
  by (simp add: BuildBlockStore_eval_defs ex_defs node_defs assertion_def buildUses_def
        emitter_defs emit_def internalFloatRegs_def emitted_def spec_Unroll_vectorRegs_def
        Let_def)

text \<open>
  Claim C9, as amended. A completed build of a block copy with the \<^verbatim>\<open>BlkOpKindUnroll\<close>
  strategy always reserves one scratch integer register. On the 64-bit target it reserves a
  second one exactly when the size is at least two machine words, one more exactly when
  both the source and the destination address may need a register, and two scratch vector
  registers exactly when the size is at least two vector-register widths, whatever the
  addresses are. On the 32-bit target it reserves the first integer register only.
\<close>

theorem BuildBlockStore_Unroll_scratch:
  assumes "BuildBlockStore tgt compiler lsra blkNode ls = Some (n, ls')"
    and "\<not> OperIsInitBlkOp blkNode"
    and "gtBlkOpKind blkNode = BlkOpKindUnroll"
    and "Addr (blkTree blkNode) = Some dstAddr"
    and "Data (blkTree blkNode) = Some src"
    and "srcAddrMayNeedReg =
           (OperIs src [GT_LCL_VAR, GT_LCL_FLD] \<or>
            (OperIs src [GT_IND] \<and>
             (case Addr src of None \<Rightarrow> False
              | Some srcAddr \<Rightarrow> OperIs srcAddr [GT_LCL_ADDR] \<or> isContained srcAddr)))"
    and "dstAddrMayNeedReg = (OperIs dstAddr [GT_LCL_ADDR] \<or> isContained dstAddr)"
  shows "internalIntRegs ls ls' =
           (if arch tgt = TARGET_ARM64
              then 1 + (if Size blkNode \<ge> 2 * REGSIZE_BYTES tgt then 1 else 0) +
                       (if srcAddrMayNeedReg \<and> dstAddrMayNeedReg then 1 else 0)
            else 1) \<and>
         internalFloatRegs ls ls' =
           (if arch tgt = TARGET_ARM64 \<and> Size blkNode \<ge> 2 * FP_REGSIZE_BYTES then 2 else 0)"
proof -
  from assms(1) obtain dstAddr' src' srcAddrOrFill dstAddrRegMask srcRegMask ls1 where
    a: "Addr (blkTree blkNode) = Some dstAddr'" and d: "Data (blkTree blkNode) = Some src'"
    and s: "BuildBlockStore_strategy tgt compiler lsra blkNode dstAddr' src' (Size blkNode) ls =
       Some (srcAddrOrFill, dstAddrRegMask, srcRegMask, ls1)"
    and e: "emitted ls ls' =
       emitted ls ls1 @
       emitted ls1 (snd (BuildBlockStore_AddrUse lsra dstAddr' dstAddrRegMask (0, ls1))) @
       (case srcAddrOrFill of None \<Rightarrow> []
        | Some srcAddr \<Rightarrow> emitted ls1 (snd (BuildBlockStore_AddrUse lsra srcAddr srcRegMask (0, ls1)))) @
       [InternalRegisterUses, Kills (blkTree blkNode) (getKillSetForBlockStore lsra blkNode)]"
    by (rule BuildBlockStore_trace)
  have [simp]: "dstAddr' = dstAddr" "src' = src"
    using a d assms(4,5) by simp_all
  note c = BuildBlockStore_strategy_copy(1,3) [OF s assms(2)]
  have l: "ls1 = BuildBlockStore_Unroll tgt lsra blkNode dstAddr src srcAddrOrFill (Size blkNode) ls"
    using c(2) [OF assms(3)] by simp
  have f: "srcAddrOrFill = (if OperIs src [GT_IND] then Addr src else None)"
    using c(1) by simp
  show ?thesis
    by (simp add: internalIntRegs_def internalFloatRegs_def e
          BuildBlockStore_AddrUse_emitted(2) split: option.splits)
       (auto simp: l BuildBlockStore_Unroll_emitted(2) f assms(6,7) split: option.splits)
qed

lemma exUnroll_eval:
  "\<exists>ls'. BuildBlockStore exTarget64 exCompiler exLsra
           (exCopyBlk BlkOpKindUnroll 32 exDstAddr exSrcAddr) exLs = Some (2, ls')"
  by (simp add: BuildBlockStore_eval_defs ex_defs node_defs assertion_def buildUses_def
        emitter_defs emit_def Let_def)

theorem BuildBlockStore_Unroll_scratch_witness:
  "internalIntRegs exLs (snd (the (BuildBlockStore exTarget64 exCompiler exLsra
      (exCopyBlk BlkOpKindUnroll 32 exDstAddr exSrcAddr) exLs))) = 2 \<and>
   internalFloatRegs exLs (snd (the (BuildBlockStore exTarget64 exCompiler exLsra
      (exCopyBlk BlkOpKindUnroll 32 exDstAddr exSrcAddr) exLs))) = 2"
proof -
  obtain ls' where e: "BuildBlockStore exTarget64 exCompiler exLsra
      (exCopyBlk BlkOpKindUnroll 32 exDstAddr exSrcAddr) exLs = Some (2, ls')"
    using exUnroll_eval by blast
  show ?thesis
    unfolding e
    using BuildBlockStore_Unroll_scratch [OF e _ _ _ _ refl refl, of exDstAddr
            "exNode GT_IND TYP_STRUCT True (Some exSrcAddr) None"]
    by (simp add: exCopyBlk_def exNode_def exLeaf_def exInfo_def exDstAddr_def exSrcAddr_def
          exTarget64_def node_defs REGSIZE_BYTES_def FP_REGSIZE_BYTES_def)
qed

text \<open>
  A write-barrier copy whose destination address is a contained address mode completes
  without a use bound to the write-barrier destination register: the destination
  contributes the use of its base, built without candidates.
\<close>

theorem BuildBlockStore_CpObjUnroll_dstAddr_counterexample:
  "gtBlkOpKind (exCopyBlk BlkOpKindCpObjUnroll 16 (exLea None 0) exSrcAddr) = BlkOpKindCpObjUnroll \<and>
   BuildBlockStore exTarget64 exCompiler exLsra
     (exCopyBlk BlkOpKindCpObjUnroll 16 (exLea None 0) exSrcAddr) exLs \<noteq> None \<and>
   filter isUse (emitted exLs (snd (the (BuildBlockStore exTarget64 exCompiler exLsra
     (exCopyBlk BlkOpKindCpObjUnroll 16 (exLea None 0) exSrcAddr) exLs)))) =
     [Use (exLeaf GT_LCL_VAR (TYP_OTHER 0) False) RBM_NONE 0,
      Use exSrcAddr {REG_WRITE_BARRIER_SRC_BYREF exTarget64} 0] \<and>
   RBM_NONE \<noteq> {REG_WRITE_BARRIER_DST_BYREF exTarget64}"
  by (simp add: BuildBlockStore_eval_defs ex_defs node_defs regset_defs assertion_def buildUses_def
        emitter_defs emit_def emitted_def exLea_def Let_def)

text \<open>
  Claim C5, as amended. In a completed build of a block copy with the
  \<^verbatim>\<open>BlkOpKindCpObjUnroll\<close> strategy, a destination address that is not contained is used
  with the write-barrier destination register as its only candidate; a contained one is
  not used itself (the base of a contained address mode is, through \<^verbatim>\<open>BuildAddrUses\<close>).
  A source address, when there is one, is used with the write-barrier source register as
  its only candidate. There are no other uses, and every scratch integer register has the
  candidates \<^verbatim>\<open>allRegs(TYP_INT)\<close> without the two write-barrier registers.
\<close>

theorem BuildBlockStore_CpObjUnroll_candidates:
  assumes "BuildBlockStore tgt compiler lsra blkNode ls = Some (n, ls')"
    and "\<not> OperIsInitBlkOp blkNode"
    and "gtBlkOpKind blkNode = BlkOpKindCpObjUnroll"
    and "Addr (blkTree blkNode) = Some dstAddr"
    and "Data (blkTree blkNode) = Some src"
  shows "filter isUse (emitted ls ls') =
           (if \<not> isContained dstAddr then [Use dstAddr {REG_WRITE_BARRIER_DST_BYREF tgt} 0]
            else if OperIsAddrMode dstAddr
              then map (\<lambda>(node, candidates, idx). Use node candidates idx)
                     (fst (BuildAddrUses lsra (Base dstAddr)))
            else []) @
           (if OperIs src [GT_IND]
              then (case Addr src of None \<Rightarrow> []
                    | Some srcAddr \<Rightarrow> [Use srcAddr {REG_WRITE_BARRIER_SRC_BYREF tgt} 0])
            else []) \<and>
         set (internalIntCandidates (emitted ls ls')) =
           {allRegs lsra TYP_INT - {REG_WRITE_BARRIER_DST_BYREF tgt, REG_WRITE_BARRIER_SRC_BYREF tgt}}"
proof -
  from assms(1) obtain dstAddr' src' srcAddrOrFill dstAddrRegMask srcRegMask ls1 where
    a: "Addr (blkTree blkNode) = Some dstAddr'" and d: "Data (blkTree blkNode) = Some src'"
    and s: "BuildBlockStore_strategy tgt compiler lsra blkNode dstAddr' src' (Size blkNode) ls =
       Some (srcAddrOrFill, dstAddrRegMask, srcRegMask, ls1)"
    and e: "emitted ls ls' =
       emitted ls ls1 @
       emitted ls1 (snd (BuildBlockStore_AddrUse lsra dstAddr' dstAddrRegMask (0, ls1))) @
       (case srcAddrOrFill of None \<Rightarrow> []
        | Some srcAddr \<Rightarrow> emitted ls1 (snd (BuildBlockStore_AddrUse lsra srcAddr srcRegMask (0, ls1)))) @
       [InternalRegisterUses, Kills (blkTree blkNode) (getKillSetForBlockStore lsra blkNode)]"
    by (rule BuildBlockStore_trace)
  have [simp]: "dstAddr' = dstAddr" "src' = src"
    using a d assms(4,5) by simp_all
  note c = BuildBlockStore_strategy_copy(1,2) [OF s assms(2)]
  note o = BuildBlockStore_CpObjUnroll_emitted(2-5) [OF c(2) [OF assms(3)]]
  have f: "srcAddrOrFill = (if OperIs src [GT_IND] then Addr src else None)"
    using c(1) by simp
  have u: "filter isUse (emitted ls ls1) = []"
    by (rule conjunct2 [OF BuildBlockStore_strategy_emitted [OF s]])
  have 1: "filter isUse (emitted ls ls') =
           (if \<not> isContained dstAddr then [Use dstAddr {REG_WRITE_BARRIER_DST_BYREF tgt} 0]
            else if OperIsAddrMode dstAddr
              then map (\<lambda>(node, candidates, idx). Use node candidates idx)
                     (fst (BuildAddrUses lsra (Base dstAddr)))
            else []) @
           (if OperIs src [GT_IND]
              then (case Addr src of None \<Rightarrow> []
                    | Some srcAddr \<Rightarrow> [Use srcAddr {REG_WRITE_BARRIER_SRC_BYREF tgt} 0])
            else [])"
    using o(4)
    by (auto simp: e u BuildBlockStore_AddrUse_emitted(2) o(2,3) f split: option.splits)
  have 2: "set (internalIntCandidates (emitted ls ls')) =
           {allRegs lsra TYP_INT - {REG_WRITE_BARRIER_DST_BYREF tgt, REG_WRITE_BARRIER_SRC_BYREF tgt}}"
    by (auto simp: e o(1) BuildBlockStore_AddrUse_emitted(2) Diff_eq split: option.splits)
  show ?thesis using 1 2 by (rule conjI)
qed

lemma exCpObj_eval:
  "\<exists>ls'. BuildBlockStore exTarget64 exCompiler exLsra
           (exCopyBlk BlkOpKindCpObjUnroll 16 exDstAddr exSrcAddr) exLs = Some (2, ls')"
  by (simp add: BuildBlockStore_eval_defs ex_defs node_defs regset_defs assertion_def buildUses_def
        emitter_defs emit_def Let_def)

theorem BuildBlockStore_CpObjUnroll_candidates_witness:
  "filter isUse (emitted exLs (snd (the (BuildBlockStore exTarget64 exCompiler exLsra
      (exCopyBlk BlkOpKindCpObjUnroll 16 exDstAddr exSrcAddr) exLs)))) =
     [Use exDstAddr {14} 0, Use exSrcAddr {13} 0] \<and>
   set (internalIntCandidates (emitted exLs (snd (the (BuildBlockStore exTarget64 exCompiler exLsra
      (exCopyBlk BlkOpKindCpObjUnroll 16 exDstAddr exSrcAddr) exLs))))) = {{0, 1, 2, 16, 19, 30}}"
proof -
  obtain ls' where e: "BuildBlockStore exTarget64 exCompiler exLsra
      (exCopyBlk BlkOpKindCpObjUnroll 16 exDstAddr exSrcAddr) exLs = Some (2, ls')"
    using exCpObj_eval by blast
  show ?thesis
    unfolding e
    using BuildBlockStore_CpObjUnroll_candidates [OF e _ _ _ _, of exDstAddr
            "exNode GT_IND TYP_STRUCT True (Some exSrcAddr) None"]
    by (simp add: exCopyBlk_def exNode_def exLeaf_def exInfo_def exDstAddr_def exSrcAddr_def
          exTarget64_def exLsra_def node_defs insert_Diff_if)
qed

section \<open>BuildPutArgStk, BuildCast and BuildSelect\<close>

lemma BuildPutArgStk_FieldList_emitted:
  "grows ls (snd (BuildPutArgStk_FieldList tgt uses (n0, ls))) \<and>
   length (filter isUse (emitted ls (snd (BuildPutArgStk_FieldList tgt uses (n0, ls))))) = length uses \<and>
   fst (BuildPutArgStk_FieldList tgt uses (n0, ls)) = n0 + int (length uses)"
proof (induction uses arbitrary: n0 ls)
  case Nil
  show ?case by simp
next
  case (Cons u uses)
  obtain node type where u: "u = (node, type)" by (cases u)
  define ls1 where
    "ls1 = (if FEATURE_SIMD tgt \<and> type = TYP_SIMD12
              then emit (InternalIntDef node RBM_NONE) (emit (Use node RBM_NONE 0) ls)
            else emit (Use node RBM_NONE 0) ls)"
  have s: "BuildPutArgStk_FieldList tgt (u # uses) (n0, ls) =
           BuildPutArgStk_FieldList tgt uses (n0 + 1, ls1)"
    by (simp add: u ls1_def Let_def BuildUse_def buildInternalIntRegisterDefForNode_def)
  have g: "grows ls ls1" "length (filter isUse (emitted ls ls1)) = 1"
    by (simp_all add: ls1_def)
  note ih = Cons.IH [of ls1 "n0 + 1"]
  note t = grows_trans [OF g(1) conjunct1 [OF ih]]
  show ?case
    unfolding s using t(1) ih g(2) by (simp add: t(2))
qed

lemma case_buildUses:
  "(case buildUses uses ls of (n, ls') \<Rightarrow> f n ls') = f (snd uses) (snd (buildUses uses ls))"
  by (simp add: buildUses_def)

lemma BuildPutArgStk_useCount:
  assumes "usesCounted lsra" "BuildPutArgStk tgt compiler lsra argNode ls = Some (n, ls')"
  shows "n = useCount ls ls'"
proof -
  have c: "\<And>t r. snd (BuildOperandUses lsra t r) = int (length (fst (BuildOperandUses lsra t r)))"
    using assms(1) by (simp add: usesCounted_def countsItsUses_def)
  obtain src where src: "gtGetOp1 (putArgNode argNode) = Some src"
    using assms(2) unfolding BuildPutArgStk_def by (auto split: Option.bind_splits)
  define body where "body =
       (if TypeIs src TYP_STRUCT then
          (if OperIs src [GT_FIELD_LIST] then do {
             assertion (isContained src);
             Some (BuildPutArgStk_FieldList tgt (gtFieldUses src) (0, ls))
           } else do {
             let ls = buildInternalIntRegisterDefForNode (putArgNode argNode) RBM_NONE ls;
             let ls = (if arch tgt = TARGET_ARM64
                         then buildInternalIntRegisterDefForNode (putArgNode argNode) RBM_NONE ls
                       else ls);
             assertion (isContained src);
             if OperIs src [GT_BLK] then Some (buildUses (BuildOperandUses lsra (Addr src) RBM_NONE) ls)
             else do {
               assertion (OperIs src [GT_LCL_VAR, GT_LCL_FLD]);
               Some (0, ls)
             }
           })
        else do {
          assertion (\<not> isContained src);
          let (srcCount, ls) = buildUses (BuildOperandUses lsra (Some src) RBM_NONE) ls;
          let ls = (if FEATURE_SIMD tgt \<and> compAppleArm64Abi compiler \<and> GetStackByteSize argNode = 12
                      then buildInternalIntRegisterDefForNode (putArgNode argNode) RBM_NONE ls
                    else ls);
          Some (srcCount, ls)
        })"
  obtain ls1 where b: "body = Some (n, ls1)" and l: "ls' = emit InternalRegisterUses ls1"
    using assms(2) unfolding BuildPutArgStk_def body_def Let_def buildInternalRegisterUses_def
    by (auto simp: src split: Option.bind_splits)
  have "grows ls ls1 \<and> n = int (length (filter isUse (emitted ls ls1)))"
    using b BuildPutArgStk_FieldList_emitted [of ls tgt "gtFieldUses src" 0]
    unfolding body_def Let_def assertion_def buildInternalIntRegisterDefForNode_def
    by (auto simp: c buildUses_eq case_buildUses split: if_splits Option.bind_splits)
  then show ?thesis
    by (simp add: useCount_def l)
qed

lemma BuildCast_useCount:
  assumes "usesCounted lsra" "BuildCast tgt compiler lsra cast ls = Some (n, ls')"
  shows "n = useCount ls ls'"
proof -
  have c: "\<And>t r. snd (BuildCastUses lsra t r) = int (length (fst (BuildCastUses lsra t r)))"
    using assms(1) by (simp add: usesCounted_def countsItsUses_def)
  show ?thesis
    using assms(2)
    unfolding BuildCast_def Let_def assertion_def buildInternalFloatRegisterDefForNode_def
      buildInternalRegisterUses_def BuildDef_def useCount_def
    by (auto simp: c case_buildUses split: if_splits Option.bind_splits)
qed

lemma BuildSelect_useCount:
  assumes "usesCounted lsra" "BuildSelect lsra select ls = Some (n, ls')"
  shows "n = useCount ls ls'"
proof -
  have c: "\<And>t r. snd (BuildOperandUses lsra t r) = int (length (fst (BuildOperandUses lsra t r)))"
    using assms(1) by (simp add: usesCounted_def countsItsUses_def)
  show ?thesis
    using assms(2)
    unfolding BuildSelect_def Let_def assertion_def BuildDef_def useCount_def
    by (auto simp: c case_buildUses split: if_splits Option.bind_splits)
qed

section \<open>BuildPutArgSplit\<close>

lemma BuildPutArgSplit_argMask_preserves:
  "gtNumRegs (snd (BuildPutArgSplit_argMask argReg i (argMask, argNode))) = gtNumRegs argNode \<and>
   GetRegNum (snd (BuildPutArgSplit_argMask argReg i (argMask, argNode))) = GetRegNum argNode \<and>
   putArgNode (snd (BuildPutArgSplit_argMask argReg i (argMask, argNode))) = putArgNode argNode"
proof (induction "gtNumRegs argNode - i" arbitrary: i argMask argNode)
  case 0
  then have "\<not> i < gtNumRegs argNode" by simp
  then show ?case
    by (subst (1 2 3) BuildPutArgSplit_argMask.simps) simp
next
  case (Suc n)
  then have l: "i < gtNumRegs argNode" by simp
  define argNode1 where "argNode1 = SetRegNumByIdx (argReg + i) i argNode"
  have p: "gtNumRegs argNode1 = gtNumRegs argNode" "GetRegNum argNode1 = GetRegNum argNode"
    "putArgNode argNode1 = putArgNode argNode"
    by (simp_all add: argNode1_def SetRegNumByIdx_def)
  have s: "BuildPutArgSplit_argMask argReg i (argMask, argNode) =
           BuildPutArgSplit_argMask argReg (i + 1)
             (argMask \<union> genSingleTypeRegMask (argReg + i), argNode1)"
    using l by (subst BuildPutArgSplit_argMask.simps) (simp add: Let_def argNode1_def)
  have "n = gtNumRegs argNode1 - (i + 1)" using Suc(2) p(1) by simp
  from Suc(1) [OF this] show ?case
    unfolding s by (simp add: p)
qed

lemma BuildPutArgSplit_FieldRegs_emitted:
  assumes "argReg = GetRegNum argNode"
  shows "grows ls (snd (BuildPutArgSplit_FieldRegs argNode argReg node cnt i (k, ls))) \<and>
    emitted ls (snd (BuildPutArgSplit_FieldRegs argNode argReg node cnt i (k, ls))) =
      splitUses argNode k (map (\<lambda>regIndex. (node, regIndex)) [i..<cnt]) \<and>
    fst (BuildPutArgSplit_FieldRegs argNode argReg node cnt i (k, ls)) = k + (cnt - i) \<and>
    placedArgRegs (snd (BuildPutArgSplit_FieldRegs argNode argReg node cnt i (k, ls))) =
      placedArgRegs ls \<union>
      (\<lambda>ordinal. argReg + ordinal) ` {ordinal. k \<le> ordinal \<and> ordinal < k + (cnt - i) \<and>
                                          ordinal < gtNumRegs argNode}"
proof (induction "cnt - i" arbitrary: i k ls)
  case 0
  then have "\<not> i < cnt" by simp
  then show ?case
    by (subst (1 2 3 4) BuildPutArgSplit_FieldRegs.simps) auto
next
  case (Suc n)
  then have l: "i < cnt" by simp
  define r where
    "r = Use node (if k < gtNumRegs argNode then {GetRegNum argNode + k} else RBM_NONE) i"
  define ls1 where
    "ls1 = (if k < gtNumRegs argNode
              then (emit r ls)\<lparr>placedArgRegs := insert (argReg + k) (placedArgRegs (emit r ls))\<rparr>
            else emit r ls)"
  have s: "BuildPutArgSplit_FieldRegs argNode argReg node cnt i (k, ls) =
           BuildPutArgSplit_FieldRegs argNode argReg node cnt (i + 1) (k + 1, ls1)"
    using l
    by (subst BuildPutArgSplit_FieldRegs.simps)
       (simp add: Let_def ls1_def r_def BuildUse_def genSingleTypeRegMask_def AddRegNumInMask_def
          assms)
  have g: "grows ls ls1" "emitted ls ls1 = [r]"
    by (simp_all add: ls1_def)
  have p: "placedArgRegs ls1 =
           placedArgRegs ls \<union> (if k < gtNumRegs argNode then {argReg + k} else {})"
    by (simp add: ls1_def emit_def)
  have n: "n = cnt - (i + 1)" using Suc(2) by simp
  note ih = Suc(1) [OF n, of ls1 "k + 1"]
  note t = grows_trans [OF g(1) conjunct1 [OF ih]]
  have u: "[i..<cnt] = i # [i + 1..<cnt]"
    using l by (simp add: upt_conv_Cons)
  have e: "k + 1 + (cnt - (i + 1)) = k + (cnt - i)" using l by simp
  have q: "(if k < gtNumRegs argNode then {argReg + k} else {}) \<union>
           (\<lambda>ordinal. argReg + ordinal) ` {ordinal. k + 1 \<le> ordinal \<and> ordinal < k + (cnt - i) \<and>
                                              ordinal < gtNumRegs argNode} =
           (\<lambda>ordinal. argReg + ordinal) ` {ordinal. k \<le> ordinal \<and> ordinal < k + (cnt - i) \<and>
                                              ordinal < gtNumRegs argNode}"
  proof -
    have "{ordinal. k \<le> ordinal \<and> ordinal < k + (cnt - i) \<and> ordinal < gtNumRegs argNode} =
          (if k < gtNumRegs argNode then {k} else {}) \<union>
          {ordinal. k + 1 \<le> ordinal \<and> ordinal < k + (cnt - i) \<and> ordinal < gtNumRegs argNode}"
      using l by auto
    then show ?thesis by auto
  qed
  show ?case
    unfolding s
    using t(1) ih
    by (simp only: t(2) g(2) u list.map splitUses.simps r_def [symmetric] e p
          Un_assoc q append.simps simp_thms)
qed


lemma splitUses_append:
  "splitUses argNode k (xs @ ys) = splitUses argNode k xs @ splitUses argNode (k + length xs) ys"
  by (induction xs arbitrary: k) auto

lemma splitUses_isUse: "filter isUse (splitUses argNode k slots) = splitUses argNode k slots"
  by (induction slots arbitrary: k) auto

lemma splitUses_length: "length (splitUses argNode k slots) = length slots"
  by (induction slots arbitrary: k) auto

lemma splitUses_nth:
  "i < length slots \<Longrightarrow>
   splitUses argNode k slots ! i =
     Use (fst (slots ! i))
       (if k + i < gtNumRegs argNode then {GetRegNum argNode + (k + i)} else RBM_NONE)
       (snd (slots ! i))"
proof (induction slots arbitrary: k i)
  case Nil
  then show ?case by simp
next
  case (Cons s slots)
  obtain node regIndex where s: "s = (node, regIndex)" by (cases s)
  show ?case
  proof (cases i)
    case 0
    then show ?thesis by (simp add: s)
  next
    case (Suc j)
    then have "j < length slots" using Cons.prems by simp
    from Cons.IH [OF this, of "k + 1"] show ?thesis by (simp add: s Suc)
  qed
qed

lemma splitUses_cong:
  "gtNumRegs argNode' = gtNumRegs argNode \<Longrightarrow> GetRegNum argNode' = GetRegNum argNode \<Longrightarrow>
   splitUses argNode' k slots = splitUses argNode k slots"
  by (induction slots arbitrary: k) auto

lemma BuildPutArgSplit_FieldList_emitted:
  assumes "argReg = GetRegNum argNode"
    and "BuildPutArgSplit_FieldList tgt argNode argReg uses (k, ls) = Some (k', ls')"
  shows "grows ls ls' \<and>
    emitted ls ls' = splitUses argNode k (fieldSlots tgt uses) \<and>
    k' = k + length (fieldSlots tgt uses) \<and>
    placedArgRegs ls' =
      placedArgRegs ls \<union>
      (\<lambda>ordinal. argReg + ordinal) ` {ordinal. k \<le> ordinal \<and>
                                          ordinal < k + length (fieldSlots tgt uses) \<and>
                                          ordinal < gtNumRegs argNode}"
  using assms(2)
proof (induction uses arbitrary: k ls)
  case Nil
  then show ?case by auto
next
  case (Cons u uses)
  obtain node type where u: "u = (node, type)" by (cases u)
  define cnt where "cnt = fieldRegCount tgt node"
  define r where "r = BuildPutArgSplit_FieldRegs argNode argReg node cnt 0 (k, ls)"
  have s: "BuildPutArgSplit_FieldList tgt argNode argReg uses r = Some (k', ls')"
    using Cons.prems
    by (auto simp: u r_def cnt_def fieldRegCount_def assertion_def
             split: Option.bind_splits if_splits)
  note f = BuildPutArgSplit_FieldRegs_emitted [OF assms(1), of ls node cnt 0 k, folded r_def]
  obtain k1 ls1 where r1: "r = (k1, ls1)" by (cases r)
  note f1 = f [unfolded r1, simplified]
  note ih = Cons.IH [OF s [unfolded r1]]
  note t = grows_trans [OF conjunct1 [OF f1] conjunct1 [OF ih]]
  have sl: "fieldSlots tgt (u # uses) = map (\<lambda>regIndex. (node, regIndex)) [0..<cnt] @ fieldSlots tgt uses"
    by (simp add: u cnt_def)
  have q: "{ordinal. k \<le> ordinal \<and> ordinal < k + (cnt + length (fieldSlots tgt uses)) \<and>
                     ordinal < gtNumRegs argNode} =
           {ordinal. k \<le> ordinal \<and> ordinal < k + cnt \<and> ordinal < gtNumRegs argNode} \<union>
           {ordinal. k + cnt \<le> ordinal \<and> ordinal < k + cnt + length (fieldSlots tgt uses) \<and>
                     ordinal < gtNumRegs argNode}"
    by auto
  show ?case
    using t(1) ih f1
    by (simp add: t(2) sl splitUses_append q image_Un Un_assoc)
qed

lemma BuildPutArgSplit_FieldList_Some:
  assumes "BuildPutArgSplit tgt compiler lsra argNode ls = Some (srcCount, argNode', ls')"
    and "gtGetOp1 (putArgNode argNode) = Some src" and "OperIs src [GT_FIELD_LIST]"
  shows "\<exists>k ls1 node cnt regs.
           BuildPutArgSplit_FieldList tgt argNode' (GetRegNum argNode) (gtFieldUses src) (0, ls) =
             Some (k, ls1) \<and>
           srcCount = int k \<and>
           ls' = emit (Defs node cnt regs) (emit InternalRegisterUses ls1) \<and>
           argNode' = snd (BuildPutArgSplit_argMask (GetRegNum argNode) 0 (RBM_NONE, argNode))"
  using assms
  unfolding BuildPutArgSplit_def Let_def assertion_def buildInternalRegisterUses_def BuildDefs_def
  by (auto split: Option.bind_splits prod.splits if_splits)

lemma BuildPutArgSplit_useCount:
  assumes "usesCounted lsra"
    and "BuildPutArgSplit tgt compiler lsra argNode ls = Some (n, argNode', ls')"
  shows "n = useCount ls ls'"
proof -
  have c: "\<And>t r. snd (BuildOperandUses lsra t r) = int (length (fst (BuildOperandUses lsra t r)))"
    using assms(1) by (simp add: usesCounted_def countsItsUses_def)
  obtain src where src: "gtGetOp1 (putArgNode argNode) = Some src"
    using assms(2) unfolding BuildPutArgSplit_def by (auto split: Option.bind_splits)
  show ?thesis
  proof (cases "OperIs src [GT_FIELD_LIST]")
    case True
    from BuildPutArgSplit_FieldList_Some [OF assms(2) src True] obtain k ls1 node cnt regs where
      f: "BuildPutArgSplit_FieldList tgt argNode' (GetRegNum argNode) (gtFieldUses src) (0, ls) =
            Some (k, ls1)"
      and n: "n = int k"
      and l: "ls' = emit (Defs node cnt regs) (emit InternalRegisterUses ls1)"
      and a: "argNode' = snd (BuildPutArgSplit_argMask (GetRegNum argNode) 0 (RBM_NONE, argNode))"
      by blast
    have r: "GetRegNum argNode = GetRegNum argNode'"
      by (simp add: a BuildPutArgSplit_argMask_preserves)
    note e = BuildPutArgSplit_FieldList_emitted [OF r f]
    show ?thesis
      using e by (simp add: useCount_def l n splitUses_isUse splitUses_length)
  next
    case False
    then show ?thesis
      using assms(2)
      unfolding BuildPutArgSplit_def Let_def assertion_def buildInternalRegisterUses_def
        BuildDefs_def buildInternalIntRegisterDefForNode_def useCount_def
      by (auto simp: src c buildUses_eq split: Option.bind_splits prod.splits if_splits)
  qed
qed

text \<open>
  Claim C8. A build of a split argument whose operand is a field list emits exactly one
  use for each sub-register slot of the list, in order. The use of a slot whose ordinal is
  below \<^verbatim>\<open>gtNumRegs\<close> has the single candidate \<^verbatim>\<open>GetRegNum\<close> plus the ordinal, and that register
  is added to \<open>placedArgRegs\<close>; the use of a slot at or beyond \<^verbatim>\<open>gtNumRegs\<close> has no candidate
  restriction, and nothing else is added to \<open>placedArgRegs\<close>.
\<close>

theorem BuildPutArgSplit_field_slots:
  assumes "BuildPutArgSplit tgt compiler lsra argNode ls = Some (srcCount, argNode', ls')"
    and "gtGetOp1 (putArgNode argNode) = Some src" and "OperIs src [GT_FIELD_LIST]"
    and "slots = fieldSlots tgt (gtFieldUses src)"
    and "uses = filter isUse (emitted ls ls')"
  shows "length uses = length slots \<and>
         (\<forall>ordinal < length slots.
            uses ! ordinal =
              Use (fst (slots ! ordinal))
                (if ordinal < gtNumRegs argNode then {GetRegNum argNode + ordinal} else RBM_NONE)
                (snd (slots ! ordinal))) \<and>
         placedArgRegs ls' =
           placedArgRegs ls \<union>
           {GetRegNum argNode + ordinal |ordinal.
              ordinal < length slots \<and> ordinal < gtNumRegs argNode}"
proof -
  from BuildPutArgSplit_FieldList_Some [OF assms(1,2,3)] obtain k ls1 node cnt regs where
    f: "BuildPutArgSplit_FieldList tgt argNode' (GetRegNum argNode) (gtFieldUses src) (0, ls) =
          Some (k, ls1)"
    and l: "ls' = emit (Defs node cnt regs) (emit InternalRegisterUses ls1)"
    and a: "argNode' = snd (BuildPutArgSplit_argMask (GetRegNum argNode) 0 (RBM_NONE, argNode))"
    by blast
  have p: "gtNumRegs argNode' = gtNumRegs argNode" "GetRegNum argNode' = GetRegNum argNode"
    by (simp_all add: a BuildPutArgSplit_argMask_preserves)
  note e = BuildPutArgSplit_FieldList_emitted [OF p(2) [symmetric] f, folded assms(4)]
  have u: "uses = splitUses argNode 0 slots"
    using e by (simp add: assms(5) l splitUses_isUse splitUses_cong [OF p])
  have 1: "length uses = length slots" by (simp add: u splitUses_length)
  have 2: "\<forall>ordinal < length slots.
            uses ! ordinal =
              Use (fst (slots ! ordinal))
                (if ordinal < gtNumRegs argNode then {GetRegNum argNode + ordinal} else RBM_NONE)
                (snd (slots ! ordinal))"
    by (simp add: u splitUses_nth)
  have 3: "placedArgRegs ls' =
           placedArgRegs ls \<union>
           {GetRegNum argNode + ordinal |ordinal.
              ordinal < length slots \<and> ordinal < gtNumRegs argNode}"
    using e by (auto simp: l p emit_def)
  show ?thesis using 1 2 3 by simp
qed

lemma exPutArgSplit_eval:
  "\<exists>argNode' ls'. BuildPutArgSplit exTarget32 exCompiler exLsra exPutArgSplit exLs =
      Some (3, argNode', ls')"
  by (simp add: BuildPutArgSplit_def BuildPutArgSplit_argMask.simps BuildPutArgSplit_FieldRegs.simps
        SetRegNumByIdx_def exPutArgSplit_def exFieldList_def exField_def exLongField_def
        ex_defs node_defs regset_defs assertion_def buildUses_def emitter_defs emit_def Let_def)

theorem BuildPutArgSplit_field_slots_witness:
  "BuildPutArgSplit exTarget32 exCompiler exLsra exPutArgSplit exLs \<noteq> None \<and>
   gtNumRegs exPutArgSplit = 2 \<and> GetRegNum exPutArgSplit = 1 \<and>
   fieldSlots exTarget32 (gtFieldUses exFieldList) =
     [(exField 1, 0), (exLongField, 0), (exLongField, 1)] \<and>
   filter isUse
     (emitted exLs (snd (snd (the (BuildPutArgSplit exTarget32 exCompiler exLsra exPutArgSplit exLs))))) =
     [Use (exField 1) {1} 0, Use exLongField {2} 0, Use exLongField RBM_NONE 1] \<and>
   placedArgRegs exLs = {3} \<and>
   placedArgRegs (snd (snd (the (BuildPutArgSplit exTarget32 exCompiler exLsra exPutArgSplit exLs)))) =
     {1, 2, 3}"
proof -
  obtain argNode' ls' where
    e: "BuildPutArgSplit exTarget32 exCompiler exLsra exPutArgSplit exLs = Some (3, argNode', ls')"
    using exPutArgSplit_eval by blast
  have s: "gtGetOp1 (putArgNode exPutArgSplit) = Some exFieldList"
    by (simp add: exPutArgSplit_def exNode_def gtGetOp1_def)
  have o: "OperIs exFieldList [GT_FIELD_LIST]"
    by (simp add: exFieldList_def exInfo_def OperIs_def)
  have sl: "fieldSlots exTarget32 (gtFieldUses exFieldList) =
            [(exField 1, 0), (exLongField, 0), (exLongField, 1)]"
    by (simp add: exFieldList_def fieldRegCount_def exTarget32_def exField_def exLeaf_def
          exInfo_def exLongField_def upt_conv_Cons)
  note t = BuildPutArgSplit_field_slots [OF e s o sl [symmetric] refl]
  have n: "gtNumRegs exPutArgSplit = 2" "GetRegNum exPutArgSplit = 1" "placedArgRegs exLs = {3}"
    by (simp_all add: exPutArgSplit_def exLs_def)
  have all3: "(\<forall>ordinal<3. P ordinal) \<longleftrightarrow> P 0 \<and> P 1 \<and> P (2::nat)" for P
    by (auto simp: less_Suc_eq numeral_3_eq_3 numeral_2_eq_2)
  have x: "xs = [xs ! 0, xs ! 1, xs ! 2]" if "length xs = 3" for xs :: "Requirement list"
    using that by (auto simp: list_eq_iff_nth_eq less_Suc_eq numeral_3_eq_3 numeral_2_eq_2)
  have u: "filter isUse (emitted exLs ls') =
           [Use (exField 1) {1} 0, Use exLongField {2} 0, Use exLongField RBM_NONE 1]"
    using t x [of "filter isUse (emitted exLs ls')"] by (simp add: n all3)
  have q: "{GetRegNum exPutArgSplit + ordinal |ordinal. ordinal < 3 \<and> ordinal < gtNumRegs exPutArgSplit} =
           {1, 2}"
    by (auto simp: n less_Suc_eq numeral_2_eq_2)
  have pl: "placedArgRegs ls' = {1, 2, 3}"
    using t by (auto simp: n q)
  show ?thesis
    unfolding e using u pl sl n by simp
qed

section \<open>The returned count of every builder\<close>

text \<open>
  Claim C1. When the composite use builders count their uses, each of the seven builders
  of this file (indirection, call, stack argument, split argument, block store, cast and
  select) that completes returns the number of the operand uses it emitted: scratch
  registers, definitions and kills are not counted, and no use is left out.
\<close>

theorem builders_return_use_count:
  assumes "usesCounted lsra"
  shows "returnsUseCount ls (BuildIndir tgt compiler lsra indirTree ls) \<and>
         returnsUseCount ls (BuildCall tgt compiler lsra call ls) \<and>
         returnsUseCount ls (BuildPutArgStk tgt compiler lsra argNode ls) \<and>
         returnsUseCount ls
           (map_option (\<lambda>(srcCount, splitNode', ls'). (srcCount, ls'))
              (BuildPutArgSplit tgt compiler lsra splitNode ls)) \<and>
         returnsUseCount ls (BuildBlockStore tgt compiler lsra blkNode ls) \<and>
         returnsUseCount ls (BuildCast tgt compiler lsra cast ls) \<and>
         returnsUseCount ls (BuildSelect lsra select ls)"
proof -
  have 1: "returnsUseCount ls (BuildIndir tgt compiler lsra indirTree ls)"
    using BuildIndir_useCount [OF assms] by (auto simp: returnsUseCount_def split: option.splits)
  have 2: "returnsUseCount ls (BuildCall tgt compiler lsra call ls)"
    using BuildCall_useCount [OF assms] by (auto simp: returnsUseCount_def split: option.splits)
  have 3: "returnsUseCount ls (BuildPutArgStk tgt compiler lsra argNode ls)"
    using BuildPutArgStk_useCount [OF assms] by (auto simp: returnsUseCount_def split: option.splits)
  have 4: "returnsUseCount ls
           (map_option (\<lambda>(srcCount, splitNode', ls'). (srcCount, ls'))
              (BuildPutArgSplit tgt compiler lsra splitNode ls))"
    using BuildPutArgSplit_useCount [OF assms]
    by (auto simp: returnsUseCount_def split: option.splits)
  have 5: "returnsUseCount ls (BuildBlockStore tgt compiler lsra blkNode ls)"
    using BuildBlockStore_useCount [OF assms] by (auto simp: returnsUseCount_def split: option.splits)
  have 6: "returnsUseCount ls (BuildCast tgt compiler lsra cast ls)"
    using BuildCast_useCount [OF assms] by (auto simp: returnsUseCount_def split: option.splits)
  have 7: "returnsUseCount ls (BuildSelect lsra select ls)"
    using BuildSelect_useCount [OF assms] by (auto simp: returnsUseCount_def split: option.splits)
  show ?thesis using 1 2 3 4 5 6 7 by simp
qed

lemma exPutArgStk_eval:
  "\<exists>ls'. BuildPutArgStk exTarget32 exCompiler exLsra exPutArgStk exLs = Some (2, ls')"
  by (simp add: BuildPutArgStk_def exPutArgStk_def exFieldList_def exField_def exLongField_def
        ex_defs node_defs assertion_def buildUses_def emitter_defs emit_def Let_def)

lemma exCast_eval:
  "\<exists>ls'. BuildCast exTarget32 exCompiler exLsra exCast exLs = Some (1, ls')"
  by (simp add: BuildCast_def exCast_def ex_defs node_defs regset_defs assertion_def buildUses_def
        emitter_defs emit_def Let_def)

lemma exSelect_eval:
  "\<exists>ls'. BuildSelect exLsra exSelect exLs = Some (3, ls')"
  by (simp add: BuildSelect_def exSelect_def exField_def ex_defs node_defs assertion_def
        buildUses_def emitter_defs emit_def Let_def)

theorem builders_return_use_count_witness:
  "usesCounted exLsra \<and>
   fst (the (BuildIndir exTarget32 exCompiler exLsra exIndirUnaligned exLs)) = 2 \<and>
   useCount exLs (snd (the (BuildIndir exTarget32 exCompiler exLsra exIndirUnaligned exLs))) = 2 \<and>
   internalIntRegs exLs
     (snd (the (BuildIndir exTarget32 exCompiler exLsra exIndirUnaligned exLs))) = 2 \<and>
   fst (the (BuildCall exTarget64 exCompiler exLsra exTailCall exLs)) = 1 \<and>
   useCount exLs (snd (the (BuildCall exTarget64 exCompiler exLsra exTailCall exLs))) = 1 \<and>
   fst (the (BuildPutArgStk exTarget32 exCompiler exLsra exPutArgStk exLs)) = 2 \<and>
   useCount exLs (snd (the (BuildPutArgStk exTarget32 exCompiler exLsra exPutArgStk exLs))) = 2 \<and>
   fst (the (BuildPutArgSplit exTarget32 exCompiler exLsra exPutArgSplit exLs)) = 3 \<and>
   useCount exLs
     (snd (snd (the (BuildPutArgSplit exTarget32 exCompiler exLsra exPutArgSplit exLs)))) = 3 \<and>
   fst (the (BuildBlockStore exTarget64 exCompiler exLsra
               (exCopyBlk BlkOpKindCpObjUnroll 16 exDstAddr exSrcAddr) exLs)) = 2 \<and>
   useCount exLs
     (snd (the (BuildBlockStore exTarget64 exCompiler exLsra
                  (exCopyBlk BlkOpKindCpObjUnroll 16 exDstAddr exSrcAddr) exLs))) = 2 \<and>
   fst (the (BuildCast exTarget32 exCompiler exLsra exCast exLs)) = 1 \<and>
   useCount exLs (snd (the (BuildCast exTarget32 exCompiler exLsra exCast exLs))) = 1 \<and>
   fst (the (BuildSelect exLsra exSelect exLs)) = 3 \<and>
   useCount exLs (snd (the (BuildSelect exLsra exSelect exLs))) = 3"
proof -
  obtain l1 where e1: "BuildIndir exTarget32 exCompiler exLsra exIndirUnaligned exLs = Some (2, l1)"
    using exIndirUnaligned_eval by blast
  obtain l2 where e2: "BuildCall exTarget64 exCompiler exLsra exTailCall exLs = Some (1, l2)"
    using exTailCall_eval by blast
  obtain l3 where e3: "BuildPutArgStk exTarget32 exCompiler exLsra exPutArgStk exLs = Some (2, l3)"
    using exPutArgStk_eval by blast
  obtain a4 l4 where
    e4: "BuildPutArgSplit exTarget32 exCompiler exLsra exPutArgSplit exLs = Some (3, a4, l4)"
    using exPutArgSplit_eval by blast
  obtain l5 where e5: "BuildBlockStore exTarget64 exCompiler exLsra
            (exCopyBlk BlkOpKindCpObjUnroll 16 exDstAddr exSrcAddr) exLs = Some (2, l5)"
    using exCpObj_eval by blast
  obtain l6 where e6: "BuildCast exTarget32 exCompiler exLsra exCast exLs = Some (1, l6)"
    using exCast_eval by blast
  obtain l7 where e7: "BuildSelect exLsra exSelect exLs = Some (3, l7)"
    using exSelect_eval by blast
  note a = builders_return_use_count [OF exLsra_usesCounted, of exLs exTarget32 exCompiler
      exIndirUnaligned _ exPutArgStk exPutArgSplit _ exCast exSelect]
  note b = builders_return_use_count [OF exLsra_usesCounted, of exLs exTarget64 exCompiler
      _ exTailCall _ _ "exCopyBlk BlkOpKindCpObjUnroll 16 exDstAddr exSrcAddr"]
  have i: "internalIntRegs exLs l1 = 2"
    using e1
    by (auto simp: BuildIndir_def BuildIndir_unaligned_def BuildIndir_addrMode_def
      BuildIndir_simd12_def exTarget32_def exCompiler_def exLsra_def exIndirUnaligned_def exLs_def
      exLea_def exLeaf_def exInfo_def exOperandUses_def exAddrUses_def Base_def assertion_def
      TypeIs_def TypeGet_def Addr_def OperIs_def isContained_def Index_def Offset_def buildUses_def
      emitter_defs emit_def Let_def internalIntRegs_def emitted_def)
  show ?thesis
    unfolding e1 e2 e3 e4 e5 e6 e7
    using a b i
    by (simp add: e1 e2 e3 e4 e5 e6 e7 returnsUseCount_def exLsra_usesCounted)
qed

end
